theory Spec2Isabelle
  imports Main "HOL-Library.Sublist" "HOL-Library.AList"
begin

section \<open>JavaScript values\<close>

text \<open>
  The client passes untyped JSON-like values to and from the two SDKs. \<open>Error m\<close> is an
  instance of \<open>Error\<close> with message \<open>m\<close>; \<open>Opaque tag v\<close> is a value built by an SDK or
  platform helper whose inside the client never inspects (\<open>serverTimestamp()\<close>,
  \<open>increment(1)\<close>, a \<open>sql\<close> fragment, a document reference, a \<open>Date\<close>). Numbers are
  integers: the client only counts and compares them.
\<close>

datatype val =
    Undefined
  | Null
  | Bool bool
  | Num int
  | Str string
  | Arr "val list"
  | Obj "(string \<times> val) list"
  | Error string
  | Opaque string val

text \<open>A computation completes with a value or with a thrown exception.\<close>

datatype 'a res = Return 'a | Throw val

fun truthy :: "val \<Rightarrow> bool" where
  "truthy Undefined = False"
| "truthy Null = False"
| "truthy (Bool b) = b"
| "truthy (Num n) = (n \<noteq> 0)"
| "truthy (Str s) = (s \<noteq> [])"
| "truthy (Arr xs) = True"
| "truthy (Obj fs) = True"
| "truthy (Error m) = True"
| "truthy (Opaque t v) = True"

text \<open>\<open>a || b\<close> and \<open>a && b\<close> on values whose evaluation has no effect.\<close>

definition js_or :: "val \<Rightarrow> val \<Rightarrow> val" where
  "js_or a b = (if truthy a then a else b)"

definition js_and :: "val \<Rightarrow> val \<Rightarrow> val" where
  "js_and a b = (if truthy a then b else a)"

text \<open>
  Reading a property: a \<open>TypeError\<close> on \<open>undefined\<close> and \<open>null\<close>, \<open>undefined\<close> for a
  property that is not there.
\<close>

definition TypeError :: val where
  "TypeError = Error ''TypeError''"

fun get_prop :: "val \<Rightarrow> string \<Rightarrow> val res" where
  "get_prop Undefined k = Throw TypeError"
| "get_prop Null k = Throw TypeError"
| "get_prop (Obj fs) k = Return (case map_of fs k of None \<Rightarrow> Undefined | Some v \<Rightarrow> v)"
| "get_prop (Error m) k = Return (if k = ''message'' then Str m else Undefined)"
| "get_prop (Bool b) k = Return Undefined"
| "get_prop (Num n) k = Return Undefined"
| "get_prop (Str s) k = Return Undefined"
| "get_prop (Arr xs) k = Return Undefined"
| "get_prop (Opaque t v) k = Return Undefined"

text \<open>\<open>v?.k\<close>: \<open>undefined\<close> instead of the \<open>TypeError\<close>.\<close>

definition opt_prop :: "val \<Rightarrow> string \<Rightarrow> val" where
  "opt_prop v k = (case get_prop v k of Return x \<Rightarrow> x | Throw e \<Rightarrow> Undefined)"

text \<open>\<open>roles.includes(role)\<close> on an array of string literals.\<close>

definition js_includes :: "string list \<Rightarrow> val \<Rightarrow> bool" where
  "js_includes xs v = (case v of Str s \<Rightarrow> s \<in> set xs | _ \<Rightarrow> False)"

section \<open>Effects: the SDK calls and the client state\<close>

text \<open>
  A Supabase query is a chain of builder calls on \<open>supabase.from(table)\<close>; the chain is
  kept in program order. \<open>.select()\<close> without argument asks for every column, as
  \<open>.select('*')\<close> does; the white space of a multi-line column list is dropped.
\<close>

datatype qstep =
    Select string
  | Insert val
  | Update val
  | Delete
  | Eq string val
  | Is string val
  | Gt string val
  | Order string bool
  | Limit val
  | Single

datatype sb_call =
    AuthSignUp val
  | AuthSignInWithPassword val
  | AuthSignOut
  | AuthGetUser
  | AuthOnAuthStateChange
  | Rpc string val
  | From string "qstep list"

text \<open>Firestore: a query constraint, and the calls of \<open>firebase/auth\<close> and \<open>firebase/firestore\<close>.\<close>

datatype qconstraint =
    Where string string val
  | OrderBy string string
  | LimitTo val

datatype fb_call =
    CreateUserWithEmailAndPassword val val
  | SignInWithEmailAndPassword val val
  | FirebaseSignOut
  | SetDoc val val
  | GetDoc val
  | UpdateDoc val val
  | DeleteDoc val
  | AddDoc string val
  | GetDocs string "qconstraint list"

text \<open>
  What an invocation does to the outside, in the order it does it: an SDK call of either
  platform, a \<open>setTimeout\<close> wait in milliseconds, a call of the content generator.
\<close>

datatype event =
    SbCall sb_call
  | FbCall fb_call
  | Delay nat
  | Generate val val

text \<open>The state of the two zustand stores (\<open>useAuthStore\<close>, \<open>useProjectStore\<close>).\<close>

record auth_state =
  user :: val
  userProfile :: val
  auth_loading :: bool
  initialized :: bool

record project_state =
  projects :: val
  currentProject :: val
  articles :: val
  loading :: bool

text \<open>
  The state of the \<open>ArticleEditor\<close> component that its generation handler reads or
  writes. \<open>editorContent\<close> is \<open>None\<close> while \<open>useEditor\<close> has not yet produced the
  editor (\<open>editor\<close> is \<open>null\<close>); \<open>notifications\<close> are the calls of \<open>showNotification\<close>
  (message, kind) in order. \<open>titleInput\<close> is the state variable \<open>title\<close>.
\<close>

record editor_state =
  titleInput :: string
  canEdit :: val
  contentLength :: string
  isGenerating :: bool
  editorContent :: "val option"
  notifications :: "(val \<times> string) list"

text \<open>
  The world of one invocation: the state of the platform behind the SDKs (of any type
  \<open>'s\<close>), what the invocation has done to the outside so far, the two stores and the
  editor component.
\<close>

record 's world =
  backend :: 's
  trace :: "event list"
  authStore :: auth_state
  projectStore :: project_state
  editorUI :: editor_state

text \<open>
  The platform is a parameter. A Supabase call resolves to \<open>{data, error}\<close> (the pair) or
  rejects; a Firebase call resolves to a value or rejects. \<open>currentUser\<close> is
  \<open>auth.currentUser\<close>, \<open>dateNow\<close> the clock in milliseconds, \<open>random36\<close> one draw of
  \<open>Math.random().toString(36)\<close>, \<open>generateContent\<close> the content generator of
  \<open>lib/gemini\<close>.
\<close>

record 's env =
  supabase :: "sb_call \<Rightarrow> 's \<Rightarrow> (val \<times> val) res \<times> 's"
  firebase :: "fb_call \<Rightarrow> 's \<Rightarrow> val res \<times> 's"
  currentUser :: "'s \<Rightarrow> val"
  dateNow :: "'s \<Rightarrow> int"
  random36 :: "'s \<Rightarrow> string \<times> 's"
  generateContent :: "val \<Rightarrow> val \<Rightarrow> 's \<Rightarrow> val res \<times> 's"

type_synonym ('s, 'a) io = "'s world \<Rightarrow> 'a res \<times> 's world"

definition ret :: "'a \<Rightarrow> ('s, 'a) io" where
  "ret a w = (Return a, w)"

definition throw :: "val \<Rightarrow> ('s, 'a) io" where
  "throw e w = (Throw e, w)"

definition lift :: "'a res \<Rightarrow> ('s, 'a) io" where
  "lift r w = (r, w)"

text \<open>\<open>andThen m f\<close>: run \<open>m\<close>, then \<open>f\<close> on its value; an exception of \<open>m\<close> skips \<open>f\<close>.\<close>

definition andThen :: "('s, 'a) io \<Rightarrow> ('a \<Rightarrow> ('s, 'b) io) \<Rightarrow> ('s, 'b) io" where
  "andThen m f w = (case m w of (Return a, w') \<Rightarrow> f a w' | (Throw e, w') \<Rightarrow> (Throw e, w'))"

text \<open>\<open>try { m } catch (e) { h e }\<close> and \<open>try { m } finally { fin }\<close>.\<close>

definition try_catch :: "('s, 'a) io \<Rightarrow> (val \<Rightarrow> ('s, 'a) io) \<Rightarrow> ('s, 'a) io" where
  "try_catch m h w = (case m w of (Return a, w') \<Rightarrow> (Return a, w') | (Throw e, w') \<Rightarrow> h e w')"

definition try_finally :: "('s, 'a) io \<Rightarrow> ('s, unit) io \<Rightarrow> ('s, 'a) io" where
  "try_finally m fin w =
     (case m w of (r, w') \<Rightarrow>
        (case fin w' of (Return u, w'') \<Rightarrow> (r, w'') | (Throw e, w'') \<Rightarrow> (Throw e, w'')))"

definition get :: "val \<Rightarrow> string \<Rightarrow> ('s, val) io" where
  "get v k = lift (get_prop v k)"

definition emit :: "event \<Rightarrow> ('s, unit) io" where
  "emit e w = (Return (), w\<lparr>trace := trace w @ [e]\<rparr>)"

text \<open>Issuing a call of the Supabase or of the Firebase SDK, and awaiting it.\<close>

definition sb :: "'s env \<Rightarrow> sb_call \<Rightarrow> ('s, val \<times> val) io" where
  "sb env c w =
     (case supabase env c (backend w) of
        (r, s') \<Rightarrow> (r, w\<lparr>backend := s', trace := trace w @ [SbCall c]\<rparr>))"

definition fb :: "'s env \<Rightarrow> fb_call \<Rightarrow> ('s, val) io" where
  "fb env c w =
     (case firebase env c (backend w) of
        (r, s') \<Rightarrow> (r, w\<lparr>backend := s', trace := trace w @ [FbCall c]\<rparr>))"

text \<open>\<open>await new Promise(resolve => setTimeout(resolve, ms))\<close>.\<close>

definition sleep :: "nat \<Rightarrow> ('s, unit) io" where
  "sleep ms = emit (Delay ms)"

text \<open>\<open>new Date().toISOString()\<close>: the clock, read when the expression is evaluated.\<close>

definition nowISO :: "'s env \<Rightarrow> ('s, val) io" where
  "nowISO env w = (Return (Opaque ''toISOString'' (Num (dateNow env (backend w)))), w)"

text \<open>The object literals \<open>{ data, error }\<close> and \<open>{ error }\<close>.\<close>

definition data_error :: "val \<Rightarrow> val \<Rightarrow> val" where
  "data_error d e = Obj [(''data'', d), (''error'', e)]"

definition error_only :: "val \<Rightarrow> val" where
  "error_only e = Obj [(''error'', e)]"

definition message :: "string \<Rightarrow> val" where
  "message m = Obj [(''message'', Str m)]"

section \<open>The Supabase wrappers (lib/supabase.ts)\<close>

text \<open>Messages to the console are left out: nothing reads them.\<close>

definition supabase_signUp :: "'s env \<Rightarrow> val \<Rightarrow> val \<Rightarrow> val \<Rightarrow> ('s, val) io" where
  "supabase_signUp env email password fullName =
     try_catch
       (andThen (sb env (AuthSignUp (Obj [(''email'', email), (''password'', password),
            (''options'', Obj [(''data'', Obj [(''full_name'', fullName)])])])))
          (\<lambda>(data, error). ret (data_error data error)))
       (\<lambda>error. ret (data_error Null error))"

definition supabase_signIn :: "'s env \<Rightarrow> val \<Rightarrow> val \<Rightarrow> ('s, val) io" where
  "supabase_signIn env email password =
     try_catch
       (andThen (sb env (AuthSignInWithPassword (Obj [(''email'', email), (''password'', password)])))
          (\<lambda>(data, error). ret (data_error data error)))
       (\<lambda>error. ret (data_error Null error))"

definition supabase_signOut :: "'s env \<Rightarrow> ('s, val) io" where
  "supabase_signOut env =
     andThen (sb env AuthSignOut) (\<lambda>(data, error). ret (error_only error))"

definition supabase_getCurrentUser :: "'s env \<Rightarrow> ('s, val) io" where
  "supabase_getCurrentUser env =
     try_catch
       (andThen (sb env AuthGetUser) (\<lambda>(data, error).
        andThen (get data ''user'') (\<lambda>user.
        ret user)))
       (\<lambda>error. ret Null)"


text \<open>
  The best-effort activity log that follows a successful write:
  \<open>try { await supabase.rpc('log_activity', args) } catch (logError) { console.warn(...) }\<close>.
  The arguments are evaluated inside the \<open>try\<close>.
\<close>

definition try_log_activity :: "'s env \<Rightarrow> ('s, val) io \<Rightarrow> ('s, unit) io" where
  "try_log_activity env args =
     try_catch
       (andThen args (\<lambda>a.
        andThen (sb env (Rpc ''log_activity'' a)) (\<lambda>r.
        ret ())))
       (\<lambda>logError. ret ())"

definition supabase_createProject :: "'s env \<Rightarrow> val \<Rightarrow> val \<Rightarrow> ('s, val) io" where
  "supabase_createProject env title description =
     try_catch
       (andThen (supabase_getCurrentUser env) (\<lambda>user.
        if \<not> truthy user then throw (Error ''User not authenticated'') else
        andThen (get user ''id'') (\<lambda>uid.
        andThen (sb env (From ''projects''
            [Insert (Arr [Obj [(''user_id'', uid), (''owner_id'', uid), (''title'', title),
                               (''description'', description)]]),
             Select ''*'', Single])) (\<lambda>(data, error).
        andThen (if truthy data \<and> \<not> truthy error
                 then try_log_activity env
                        (andThen (get data ''id'') (\<lambda>did.
                         ret (Obj [(''p_project_id'', did), (''p_action'', Str ''created''),
                                   (''p_resource_type'', Str ''project''), (''p_resource_id'', did),
                                   (''p_metadata'', Obj [(''title'', title)])])))
                 else ret ()) (\<lambda>u.
        ret (data_error data error))))))
       (\<lambda>error. ret (data_error Null error))"

definition supabase_getUserProjects :: "'s env \<Rightarrow> ('s, val) io" where
  "supabase_getUserProjects env =
     try_catch
       (andThen (supabase_getCurrentUser env) (\<lambda>user.
        if \<not> truthy user then throw (Error ''User not authenticated'') else
        andThen (get user ''id'') (\<lambda>uid.
        andThen (sb env (From ''projects''
            [Select ''*,team_members!inner(role,status)'',
             Eq ''team_members.user_id'' uid,
             Eq ''team_members.status'' (Str ''active''),
             Order ''created_at'' False])) (\<lambda>(data, error).
        ret (data_error (js_or data (Arr [])) error)))))
       (\<lambda>error. ret (data_error (Arr []) error))"

definition supabase_createArticle :: "'s env \<Rightarrow> val \<Rightarrow> val \<Rightarrow> val \<Rightarrow> ('s, val) io" where
  "supabase_createArticle env projectId title content =
     try_catch
       (andThen (sb env (From ''articles''
            [Insert (Arr [Obj [(''project_id'', projectId), (''title'', title),
                               (''content'', content)]]),
             Select ''*'', Single])) (\<lambda>(data, error).
        andThen (if truthy data \<and> \<not> truthy error
                 then try_log_activity env
                        (andThen (get data ''id'') (\<lambda>did.
                         ret (Obj [(''p_project_id'', projectId), (''p_action'', Str ''created''),
                                   (''p_resource_type'', Str ''article''), (''p_resource_id'', did),
                                   (''p_metadata'', Obj [(''title'', title)])])))
                 else ret ()) (\<lambda>u.
        ret (data_error data error))))
       (\<lambda>error. ret (data_error Null error))"

definition supabase_getProjectArticles :: "'s env \<Rightarrow> val \<Rightarrow> ('s, val) io" where
  "supabase_getProjectArticles env projectId =
     try_catch
       (andThen (sb env (From ''articles''
            [Select ''*'', Eq ''project_id'' projectId, Order ''created_at'' False]))
          (\<lambda>(data, error). ret (data_error (js_or data (Arr [])) error)))
       (\<lambda>error. ret (data_error (Arr []) error))"

definition supabase_updateArticle :: "'s env \<Rightarrow> val \<Rightarrow> val \<Rightarrow> ('s, val) io" where
  "supabase_updateArticle env articleId updates =
     try_catch
       (andThen (sb env (From ''articles''
            [Update updates, Eq ''id'' articleId, Select ''*'', Single])) (\<lambda>(data, error).
        andThen (if truthy data \<and> \<not> truthy error
                 then try_log_activity env
                        (andThen (get data ''project_id'') (\<lambda>pid.
                         andThen (get data ''id'') (\<lambda>did.
                         andThen (get data ''title'') (\<lambda>dtitle.
                         ret (Obj [(''p_project_id'', pid), (''p_action'', Str ''updated''),
                                   (''p_resource_type'', Str ''article''), (''p_resource_id'', did),
                                   (''p_metadata'', Obj [(''title'', dtitle)])])))))
                 else ret ()) (\<lambda>u.
        ret (data_error data error))))
       (\<lambda>error. ret (data_error Null error))"

text \<open>\<open>data && data.length > 0 ? data[0] : null\<close>.\<close>

definition first_or_null :: "val \<Rightarrow> val" where
  "first_or_null data =
     (case data of Arr (x # xs) \<Rightarrow> x | Str (c # cs) \<Rightarrow> Str [c] | _ \<Rightarrow> Null)"

definition supabase_getUserProfile :: "'s env \<Rightarrow> ('s, val) io" where
  "supabase_getUserProfile env =
     try_catch
       (andThen (supabase_getCurrentUser env) (\<lambda>user.
        if \<not> truthy user then throw (Error ''User not authenticated'') else
        andThen (get user ''id'') (\<lambda>uid.
        andThen (sb env (From ''users'' [Select ''*'', Eq ''id'' uid])) (\<lambda>(data, error).
        if truthy error then ret (data_error Null error)
        else ret (data_error (first_or_null data) Null)))))
       (\<lambda>error. ret (data_error Null error))"

definition supabase_updateUserProfile :: "'s env \<Rightarrow> val \<Rightarrow> ('s, val) io" where
  "supabase_updateUserProfile env updates =
     try_catch
       (andThen (supabase_getCurrentUser env) (\<lambda>user.
        if \<not> truthy user then throw (Error ''User not authenticated'') else
        andThen (get user ''id'') (\<lambda>uid.
        andThen (sb env (From ''users'' [Update updates, Eq ''id'' uid, Select ''*'', Single]))
          (\<lambda>(data, error). ret (data_error data error)))))
       (\<lambda>error. ret (data_error Null error))"

subsection \<open>Team collaboration\<close>

definition supabase_getProjectTeamMembers :: "'s env \<Rightarrow> val \<Rightarrow> ('s, val) io" where
  "supabase_getProjectTeamMembers env projectId =
     try_catch
       (andThen (sb env (From ''team_members''
            [Select ''*,user:users(id,email,full_name)'', Eq ''project_id'' projectId,
             Eq ''status'' (Str ''active''), Order ''created_at'' True]))
          (\<lambda>(data, error). ret (data_error (js_or data (Arr [])) error)))
       (\<lambda>error. ret (data_error (Arr []) error))"

definition supabase_inviteTeamMember :: "'s env \<Rightarrow> val \<Rightarrow> val \<Rightarrow> val \<Rightarrow> ('s, val) io" where
  "supabase_inviteTeamMember env projectId email role =
     try_catch
       (andThen (supabase_getCurrentUser env) (\<lambda>user.
        if \<not> truthy user then throw (Error ''User not authenticated'') else
        andThen (get user ''id'') (\<lambda>uid.
        andThen (sb env (From ''team_members''
            [Select ''id'', Eq ''project_id'' projectId, Eq ''user_id'' uid, Single]))
          (\<lambda>(existingMember, error1).
        if truthy existingMember
        then ret (error_only (message ''User is already a team member'')) else
        andThen (nowISO env) (\<lambda>now.
        andThen (sb env (From ''project_invitations''
            [Select ''id'', Eq ''project_id'' projectId, Eq ''email'' email,
             Is ''accepted_at'' Null, Gt ''expires_at'' now, Single]))
          (\<lambda>(existingInvitation, error2).
        if truthy existingInvitation
        then ret (error_only (message ''Invitation already sent to this email'')) else
        andThen (get user ''id'') (\<lambda>inviter.
        andThen (sb env (From ''project_invitations''
            [Insert (Arr [Obj [(''project_id'', projectId), (''email'', email), (''role'', role),
                               (''invited_by'', inviter)]]),
             Select ''*'', Single])) (\<lambda>(data, error).
        andThen (if truthy data \<and> \<not> truthy error
                 then try_log_activity env
                        (ret (Obj [(''p_project_id'', projectId), (''p_action'', Str ''invited''),
                                   (''p_resource_type'', Str ''team_member''),
                                   (''p_metadata'', Obj [(''email'', email), (''role'', role)])]))
                 else ret ()) (\<lambda>u.
        ret (data_error data error))))))))))
       (\<lambda>error. ret (data_error Null error))"

definition supabase_removeTeamMember :: "'s env \<Rightarrow> val \<Rightarrow> val \<Rightarrow> ('s, val) io" where
  "supabase_removeTeamMember env projectId userId =
     try_catch
       (andThen (sb env (From ''team_members''
            [Update (Obj [(''status'', Str ''inactive'')]), Eq ''project_id'' projectId,
             Eq ''user_id'' userId, Select ''*'', Single])) (\<lambda>(data, error).
        andThen (if truthy data \<and> \<not> truthy error
                 then try_log_activity env
                        (ret (Obj [(''p_project_id'', projectId), (''p_action'', Str ''removed''),
                                   (''p_resource_type'', Str ''team_member''),
                                   (''p_resource_id'', userId)]))
                 else ret ()) (\<lambda>u.
        ret (data_error data error))))
       (\<lambda>error. ret (data_error Null error))"

definition supabase_updateTeamMemberRole ::
  "'s env \<Rightarrow> val \<Rightarrow> val \<Rightarrow> val \<Rightarrow> ('s, val) io" where
  "supabase_updateTeamMemberRole env projectId userId role =
     try_catch
       (andThen (sb env (From ''team_members''
            [Update (Obj [(''role'', role)]), Eq ''project_id'' projectId,
             Eq ''user_id'' userId, Select ''*'', Single])) (\<lambda>(data, error).
        andThen (if truthy data \<and> \<not> truthy error
                 then try_log_activity env
                        (ret (Obj [(''p_project_id'', projectId), (''p_action'', Str ''role_updated''),
                                   (''p_resource_type'', Str ''team_member''),
                                   (''p_resource_id'', userId),
                                   (''p_metadata'', Obj [(''new_role'', role)])]))
                 else ret ()) (\<lambda>u.
        ret (data_error data error))))
       (\<lambda>error. ret (data_error Null error))"

definition supabase_getProjectInvitations :: "'s env \<Rightarrow> val \<Rightarrow> ('s, val) io" where
  "supabase_getProjectInvitations env projectId =
     try_catch
       (andThen (nowISO env) (\<lambda>now.
        andThen (sb env (From ''project_invitations''
            [Select ''*'', Eq ''project_id'' projectId, Is ''accepted_at'' Null,
             Gt ''expires_at'' now, Order ''created_at'' False]))
          (\<lambda>(data, error). ret (data_error (js_or data (Arr [])) error))))
       (\<lambda>error. ret (data_error (Arr []) error))"

definition supabase_cancelInvitation :: "'s env \<Rightarrow> val \<Rightarrow> ('s, val) io" where
  "supabase_cancelInvitation env invitationId =
     try_catch
       (andThen (sb env (From ''project_invitations''
            [Delete, Eq ''id'' invitationId, Select ''*'', Single]))
          (\<lambda>(data, error). ret (data_error data error)))
       (\<lambda>error. ret (data_error Null error))"

definition supabase_acceptInvitation :: "'s env \<Rightarrow> val \<Rightarrow> ('s, val) io" where
  "supabase_acceptInvitation env token =
     try_catch
       (andThen (supabase_getCurrentUser env) (\<lambda>user.
        if \<not> truthy user then throw (Error ''User not authenticated'') else
        andThen (nowISO env) (\<lambda>now.
        andThen (sb env (From ''project_invitations''
            [Select ''*'', Eq ''token'' token, Is ''accepted_at'' Null,
             Gt ''expires_at'' now, Single])) (\<lambda>(invitation, inviteError).
        if truthy inviteError \<or> \<not> truthy invitation
        then ret (error_only (message ''Invalid or expired invitation'')) else
        andThen (get user ''email'') (\<lambda>userEmail.
        andThen (get invitation ''email'') (\<lambda>invitationEmail.
        if userEmail \<noteq> invitationEmail
        then ret (error_only (message ''Invitation email does not match your account'')) else
        andThen (get user ''id'') (\<lambda>uid.
        andThen (get invitation ''project_id'') (\<lambda>pid.
        andThen (get invitation ''role'') (\<lambda>irole.
        andThen (get invitation ''invited_by'') (\<lambda>inviter.
        andThen (sb env (From ''team_members''
            [Insert (Arr [Obj [(''user_id'', uid), (''project_id'', pid), (''role'', irole),
                               (''invited_by'', inviter), (''status'', Str ''active'')]]),
             Select ''*'', Single])) (\<lambda>(teamMember, memberError).
        if truthy memberError then ret (error_only memberError) else
        andThen (nowISO env) (\<lambda>acceptedAt.
        andThen (get invitation ''id'') (\<lambda>iid.
        andThen (sb env (From ''project_invitations''
            [Update (Obj [(''accepted_at'', acceptedAt)]), Eq ''id'' iid]))
          (\<lambda>(updated, updateError).
        if truthy updateError then ret (error_only updateError) else
        andThen (try_log_activity env
                   (andThen (get invitation ''project_id'') (\<lambda>lpid.
                    andThen (get user ''id'') (\<lambda>luid.
                    andThen (get invitation ''role'') (\<lambda>lrole.
                    ret (Obj [(''p_project_id'', lpid), (''p_action'', Str ''joined''),
                              (''p_resource_type'', Str ''team_member''),
                              (''p_resource_id'', luid),
                              (''p_metadata'', Obj [(''role'', lrole)])])))))) (\<lambda>u.
        ret (data_error teamMember Null))))))))))))))))
       (\<lambda>error. ret (data_error Null error))"

subsection \<open>Comments and activity\<close>

definition supabase_getArticleComments :: "'s env \<Rightarrow> val \<Rightarrow> ('s, val) io" where
  "supabase_getArticleComments env articleId =
     try_catch
       (andThen (sb env (From ''article_comments''
            [Select ''*,user:users(id,email,full_name)'', Eq ''article_id'' articleId,
             Order ''created_at'' True]))
          (\<lambda>(data, error). ret (data_error (js_or data (Arr [])) error)))
       (\<lambda>error. ret (data_error (Arr []) error))"

definition supabase_createComment :: "'s env \<Rightarrow> val \<Rightarrow> val \<Rightarrow> val \<Rightarrow> ('s, val) io" where
  "supabase_createComment env articleId content position =
     try_catch
       (andThen (supabase_getCurrentUser env) (\<lambda>user.
        if \<not> truthy user then throw (Error ''User not authenticated'') else
        andThen (get user ''id'') (\<lambda>uid.
        andThen (sb env (From ''article_comments''
            [Insert (Arr [Obj [(''article_id'', articleId), (''user_id'', uid),
                               (''content'', content), (''position'', position)]]),
             Select ''*,user:users(id,email,full_name)'', Single]))
          (\<lambda>(data, error). ret (data_error data error)))))
       (\<lambda>error. ret (data_error Null error))"

definition supabase_updateComment :: "'s env \<Rightarrow> val \<Rightarrow> val \<Rightarrow> ('s, val) io" where
  "supabase_updateComment env commentId content =
     try_catch
       (andThen (nowISO env) (\<lambda>now.
        andThen (sb env (From ''article_comments''
            [Update (Obj [(''content'', content), (''updated_at'', now)]), Eq ''id'' commentId,
             Select ''*,user:users(id,email,full_name)'', Single]))
          (\<lambda>(data, error). ret (data_error data error))))
       (\<lambda>error. ret (data_error Null error))"

text \<open>A default parameter value replaces \<open>undefined\<close> only.\<close>

definition default_to :: "val \<Rightarrow> val \<Rightarrow> val" where
  "default_to v d = (if v = Undefined then d else v)"

definition supabase_resolveComment :: "'s env \<Rightarrow> val \<Rightarrow> val \<Rightarrow> ('s, val) io" where
  "supabase_resolveComment env commentId resolved0 =
     (let resolved = default_to resolved0 (Bool True) in
      try_catch
        (andThen (sb env (From ''article_comments''
             [Update (Obj [(''resolved'', resolved)]), Eq ''id'' commentId, Select ''*'', Single]))
           (\<lambda>(data, error). ret (data_error data error)))
        (\<lambda>error. ret (data_error Null error)))"

definition supabase_deleteComment :: "'s env \<Rightarrow> val \<Rightarrow> ('s, val) io" where
  "supabase_deleteComment env commentId =
     try_catch
       (andThen (sb env (From ''article_comments''
            [Delete, Eq ''id'' commentId, Select ''*'', Single]))
          (\<lambda>(data, error). ret (data_error data error)))
       (\<lambda>error. ret (data_error Null error))"

definition supabase_getProjectActivity :: "'s env \<Rightarrow> val \<Rightarrow> val \<Rightarrow> ('s, val) io" where
  "supabase_getProjectActivity env projectId limit0 =
     (let limit = default_to limit0 (Num 50) in
      try_catch
        (andThen (sb env (From ''activity_logs''
             [Select ''*,user:users(id,email,full_name)'', Eq ''project_id'' projectId,
              Order ''created_at'' False, Limit limit]))
           (\<lambda>(data, error). ret (data_error (js_or data (Arr [])) error)))
        (\<lambda>error. ret (data_error (Arr []) error)))"

subsection \<open>Permissions and the usage counter\<close>

definition supabase_getUserProjectRole :: "'s env \<Rightarrow> val \<Rightarrow> ('s, val) io" where
  "supabase_getUserProjectRole env projectId =
     try_catch
       (andThen (supabase_getCurrentUser env) (\<lambda>user.
        if \<not> truthy user then ret Null else
        andThen (get user ''id'') (\<lambda>uid.
        andThen (sb env (From ''team_members''
            [Select ''role'', Eq ''project_id'' projectId, Eq ''user_id'' uid,
             Eq ''status'' (Str ''active''), Single])) (\<lambda>(data, error).
        if truthy error then ret Null
        else ret (js_or (opt_prop data ''role'') Null)))))
       (\<lambda>error. ret Null)"

text \<open>\<open>role && roles.includes(role)\<close>: the role itself when it is falsy, a boolean otherwise.\<close>

definition role_in :: "val \<Rightarrow> string list \<Rightarrow> val" where
  "role_in role roles = (if truthy role then Bool (js_includes roles role) else role)"

definition supabase_canUserEditProject :: "'s env \<Rightarrow> val \<Rightarrow> ('s, val) io" where
  "supabase_canUserEditProject env projectId =
     andThen (supabase_getUserProjectRole env projectId) (\<lambda>role.
     ret (role_in role [''owner'', ''admin'', ''editor'']))"

definition supabase_canUserManageTeam :: "'s env \<Rightarrow> val \<Rightarrow> ('s, val) io" where
  "supabase_canUserManageTeam env projectId =
     andThen (supabase_getUserProjectRole env projectId) (\<lambda>role.
     ret (role_in role [''owner'', ''admin'']))"

text \<open>
  \<open>supabase.sql`usage_count + 1`\<close>: the client that \<open>createClient\<close> returns has no member
  \<open>sql\<close>, so the tagged template calls \<open>undefined\<close> and throws a \<open>TypeError\<close>. It is the
  argument of \<open>.update(...)\<close>, evaluated before \<open>user.id\<close> is read and before any request
  is sent.
\<close>

definition supabase_sql :: "string \<Rightarrow> ('s, val) io" where
  "supabase_sql template = throw TypeError"

definition supabase_incrementUsageCount :: "'s env \<Rightarrow> ('s, val) io" where
  "supabase_incrementUsageCount env =
     try_catch
       (andThen (supabase_getCurrentUser env) (\<lambda>user.
        if \<not> truthy user then throw (Error ''User not authenticated'') else
        andThen (supabase_sql ''usage_count + 1'') (\<lambda>expr.
        andThen (get user ''id'') (\<lambda>uid.
        andThen (sb env (From ''users''
            [Update (Obj [(''usage_count'', expr)]), Eq ''id'' uid, Select ''*'', Single]))
          (\<lambda>(data, error). ret (data_error data error))))))
       (\<lambda>error. ret (data_error Null error))"

section \<open>The Firebase wrappers (lib/firebase.ts)\<close>

text \<open>
  \<open>doc(db, collection, id)\<close>, \<open>serverTimestamp()\<close> and \<open>increment(n)\<close> build values the
  client hands back to the SDK unread. An SDK object has the methods of its type; what a
  method without argument returns (\<open>snapshot.data()\<close>, \<open>snapshot.exists()\<close>) is kept
  under the method's name, beside the fields (\<open>id\<close>, \<open>ref\<close>, \<open>docs\<close>, \<open>empty\<close>).
\<close>

definition doc :: "string \<Rightarrow> val \<Rightarrow> val" where
  "doc coll ident = Opaque ''doc'' (Arr [Str coll, ident])"

definition serverTimestamp :: val where
  "serverTimestamp = Opaque ''serverTimestamp'' Null"

definition increment :: "int \<Rightarrow> val" where
  "increment n = Opaque ''increment'' (Num n)"

text \<open>
  \<open>ts?.toDate()\<close>: \<open>undefined\<close> on \<open>undefined\<close> and \<open>null\<close>, the date of a Firestore
  \<open>Timestamp\<close>, and a \<open>TypeError\<close> on any other stored value, which has no method
  \<open>toDate\<close>.
\<close>

definition toDate :: "val \<Rightarrow> ('s, val) io" where
  "toDate ts =
     (case ts of
        Undefined \<Rightarrow> ret Undefined
      | Null \<Rightarrow> ret Undefined
      | Opaque t v \<Rightarrow> if t = ''Timestamp'' then ret (Opaque ''Date'' v) else throw TypeError
      | _ \<Rightarrow> throw TypeError)"

text \<open>
  Object literals: \<open>assign\<close> writes one property (a property written again keeps its
  place), \<open>spread\<close> copies the own properties of an object and nothing from a value that
  has none.
\<close>

definition assign :: "string \<Rightarrow> val \<Rightarrow> (string \<times> val) list \<Rightarrow> (string \<times> val) list" where
  "assign k v fs = AList.update k v fs"

definition spread :: "val \<Rightarrow> (string \<times> val) list \<Rightarrow> (string \<times> val) list" where
  "spread v fs = (case v of Obj gs \<Rightarrow> fold (\<lambda>(k, x). AList.update k x) gs fs | _ \<Rightarrow> fs)"

definition as_array :: "val \<Rightarrow> ('s, val list) io" where
  "as_array v = (case v of Arr xs \<Rightarrow> ret xs | _ \<Rightarrow> throw TypeError)"

text \<open>
  \<open>xs.map(f)\<close> and \<open>Promise.all(xs.map(async ...))\<close>: the callbacks start in list order,
  each issues its call when it starts, and the first rejection is the one thrown.
\<close>

fun map_all :: "('a \<Rightarrow> ('s, 'b) io) \<Rightarrow> 'a list \<Rightarrow> ('s, 'b list) io" where
  "map_all f [] w = (Return [], w)"
| "map_all f (x # xs) w =
     (case f x w of (r, w') \<Rightarrow>
        (case map_all f xs w' of (rs, w'') \<Rightarrow>
           ((case r of
               Throw e \<Rightarrow> Throw e
             | Return y \<Rightarrow> (case rs of Throw e \<Rightarrow> Throw e | Return ys \<Rightarrow> Return (y # ys))),
            w'')))"

definition firebase_getCurrentUser :: "'s env \<Rightarrow> ('s, val) io" where
  "firebase_getCurrentUser env w = (Return (currentUser env (backend w)), w)"

definition logActivity ::
  "'s env \<Rightarrow> val \<Rightarrow> val \<Rightarrow> val \<Rightarrow> val \<Rightarrow> val \<Rightarrow> ('s, unit) io" where
  "logActivity env projectId action resourceType resourceId metadata0 =
     (let metadata = default_to metadata0 (Obj []) in
      try_catch
        (andThen (firebase_getCurrentUser env) (\<lambda>user.
         if \<not> truthy user then ret () else
         andThen (get user ''uid'') (\<lambda>uid.
         andThen (fb env (AddDoc ''activity_logs''
             (Obj [(''project_id'', projectId), (''user_id'', uid), (''action'', action),
                   (''resource_type'', resourceType), (''resource_id'', js_or resourceId Null),
                   (''metadata'', metadata), (''created_at'', serverTimestamp)]))) (\<lambda>r.
         ret ()))))
        (\<lambda>error. ret ()))"

definition firebase_signUp :: "'s env \<Rightarrow> val \<Rightarrow> val \<Rightarrow> val \<Rightarrow> ('s, val) io" where
  "firebase_signUp env email password fullName =
     try_catch
       (andThen (fb env (CreateUserWithEmailAndPassword email password)) (\<lambda>userCredential.
        andThen (get userCredential ''user'') (\<lambda>user.
        andThen (get user ''uid'') (\<lambda>uid.
        andThen (get user ''email'') (\<lambda>uemail.
        andThen (fb env (SetDoc (doc ''users'' uid)
            (Obj [(''id'', uid), (''email'', uemail), (''full_name'', js_or fullName (Str '''')),
                  (''subscription_tier'', Str ''free''), (''usage_count'', Num 0),
                  (''usage_limit'', Num 10), (''created_at'', serverTimestamp),
                  (''updated_at'', serverTimestamp)]))) (\<lambda>r.
        ret (data_error (Obj [(''user'', user)]) Null)))))))
       (\<lambda>error. ret (data_error Null error))"

definition firebase_signIn :: "'s env \<Rightarrow> val \<Rightarrow> val \<Rightarrow> ('s, val) io" where
  "firebase_signIn env email password =
     try_catch
       (andThen (fb env (SignInWithEmailAndPassword email password)) (\<lambda>userCredential.
        andThen (get userCredential ''user'') (\<lambda>user.
        ret (data_error (Obj [(''user'', user)]) Null))))
       (\<lambda>error. ret (data_error Null error))"

definition firebase_signOut :: "'s env \<Rightarrow> ('s, val) io" where
  "firebase_signOut env =
     try_catch
       (andThen (fb env FirebaseSignOut) (\<lambda>r. ret (error_only Null)))
       (\<lambda>error. ret (error_only error))"

definition firebase_createProject :: "'s env \<Rightarrow> val \<Rightarrow> val \<Rightarrow> ('s, val) io" where
  "firebase_createProject env title description =
     try_catch
       (andThen (firebase_getCurrentUser env) (\<lambda>user.
        if \<not> truthy user then throw (Error ''User not authenticated'') else
        andThen (get user ''uid'') (\<lambda>uid.
        let projectData =
              [(''user_id'', uid), (''owner_id'', uid), (''title'', title),
               (''description'', js_or description (Str '''')),
               (''created_at'', serverTimestamp), (''updated_at'', serverTimestamp)] in
        andThen (fb env (AddDoc ''projects'' (Obj projectData))) (\<lambda>docRef.
        andThen (get user ''uid'') (\<lambda>owner.
        andThen (get docRef ''id'') (\<lambda>pid.
        andThen (fb env (AddDoc ''team_members''
            (Obj [(''user_id'', owner), (''project_id'', pid), (''role'', Str ''owner''),
                  (''status'', Str ''active''), (''created_at'', serverTimestamp),
                  (''updated_at'', serverTimestamp)]))) (\<lambda>r.
        andThen (logActivity env pid (Str ''created'') (Str ''project'') pid
                   (Obj [(''title'', title)])) (\<lambda>u.
        ret (data_error (Obj (spread (Obj projectData) [(''id'', pid)])) Null)))))))))
       (\<lambda>error. ret (data_error Null error))"

text \<open>
  One document of a query result, as the readers shape it:
  \<open>{ id: doc.id, ...doc.data(), created_at: doc.data().created_at?.toDate(), ... }\<close>.
\<close>

definition with_dates :: "string list \<Rightarrow> val \<Rightarrow> ('s, val) io" where
  "with_dates ks d =
     andThen (get d ''id'') (\<lambda>ident.
     andThen (get d ''data'') (\<lambda>dat.
     andThen (map_all (\<lambda>k. andThen (get dat k) (\<lambda>ts.
                           andThen (toDate ts) (\<lambda>date. ret (k, date)))) ks) (\<lambda>dates.
     ret (Obj (fold (\<lambda>(k, x). assign k x) dates (spread dat [(''id'', ident)]))))))"

definition firebase_getUserProjects :: "'s env \<Rightarrow> ('s, val) io" where
  "firebase_getUserProjects env =
     try_catch
       (andThen (firebase_getCurrentUser env) (\<lambda>user.
        if \<not> truthy user then throw (Error ''User not authenticated'') else
        andThen (get user ''uid'') (\<lambda>uid.
        andThen (fb env (GetDocs ''team_members''
            [Where ''user_id'' ''=='' uid, Where ''status'' ''=='' (Str ''active'')]))
          (\<lambda>teamMembersSnapshot.
        andThen (get teamMembersSnapshot ''docs'') (\<lambda>docs.
        andThen (as_array docs) (\<lambda>ds.
        andThen (map_all (\<lambda>d. andThen (get d ''data'') (\<lambda>dat. get dat ''project_id'')) ds)
          (\<lambda>projectIds.
        if projectIds = [] then ret (data_error (Arr []) Null) else
        andThen (fb env (GetDocs ''projects''
            [Where ''__name__'' ''in'' (Arr projectIds), OrderBy ''created_at'' ''desc'']))
          (\<lambda>projectsSnapshot.
        andThen (get projectsSnapshot ''docs'') (\<lambda>pdocs.
        andThen (as_array pdocs) (\<lambda>pds.
        andThen (map_all (with_dates [''created_at'', ''updated_at'']) pds) (\<lambda>projects.
        ret (data_error (Arr projects) Null))))))))))))
       (\<lambda>error. ret (data_error (Arr []) error))"

definition firebase_createArticle :: "'s env \<Rightarrow> val \<Rightarrow> val \<Rightarrow> val \<Rightarrow> ('s, val) io" where
  "firebase_createArticle env projectId title content =
     try_catch
       (let articleData =
              [(''project_id'', projectId), (''title'', title), (''content'', content),
               (''created_at'', serverTimestamp), (''updated_at'', serverTimestamp)] in
        andThen (fb env (AddDoc ''articles'' (Obj articleData))) (\<lambda>docRef.
        andThen (get docRef ''id'') (\<lambda>aid.
        andThen (logActivity env projectId (Str ''created'') (Str ''article'') aid
                   (Obj [(''title'', title)])) (\<lambda>u.
        andThen (get docRef ''id'') (\<lambda>aid2.
        ret (data_error (Obj (spread (Obj articleData) [(''id'', aid2)])) Null))))))
       (\<lambda>error. ret (data_error Null error))"

definition firebase_getProjectArticles :: "'s env \<Rightarrow> val \<Rightarrow> ('s, val) io" where
  "firebase_getProjectArticles env projectId =
     try_catch
       (andThen (fb env (GetDocs ''articles''
            [Where ''project_id'' ''=='' projectId, OrderBy ''created_at'' ''desc'']))
          (\<lambda>articlesSnapshot.
        andThen (get articlesSnapshot ''docs'') (\<lambda>docs.
        andThen (as_array docs) (\<lambda>ds.
        andThen (map_all (with_dates [''created_at'', ''updated_at'']) ds) (\<lambda>articles.
        ret (data_error (Arr articles) Null))))))
       (\<lambda>error. ret (data_error (Arr []) error))"

definition firebase_updateArticle :: "'s env \<Rightarrow> val \<Rightarrow> val \<Rightarrow> ('s, val) io" where
  "firebase_updateArticle env articleId updates =
     try_catch
       (let articleRef = doc ''articles'' articleId in
        andThen (fb env (UpdateDoc articleRef
            (Obj (assign ''updated_at'' serverTimestamp (spread updates []))))) (\<lambda>r.
        andThen (fb env (GetDoc articleRef)) (\<lambda>updatedDoc.
        andThen (get updatedDoc ''id'') (\<lambda>ident.
        andThen (get updatedDoc ''data'') (\<lambda>dat.
        let article = Obj (spread dat [(''id'', ident)]) in
        andThen (if truthy (opt_prop article ''project_id'')
                 then logActivity env (opt_prop article ''project_id'') (Str ''updated'')
                        (Str ''article'') articleId (Obj [(''title'', opt_prop article ''title'')])
                 else ret ()) (\<lambda>u.
        ret (data_error article Null)))))))
       (\<lambda>error. ret (data_error Null error))"

definition firebase_getUserProfile :: "'s env \<Rightarrow> ('s, val) io" where
  "firebase_getUserProfile env =
     try_catch
       (andThen (firebase_getCurrentUser env) (\<lambda>user.
        if \<not> truthy user then throw (Error ''User not authenticated'') else
        andThen (get user ''uid'') (\<lambda>uid.
        andThen (fb env (GetDoc (doc ''users'' uid))) (\<lambda>userDoc.
        andThen (get userDoc ''exists'') (\<lambda>ex.
        if truthy ex then
          andThen (get userDoc ''data'') (\<lambda>dat.
          andThen (get dat ''created_at'') (\<lambda>created.
          andThen (toDate created) (\<lambda>createdAt.
          andThen (get dat ''updated_at'') (\<lambda>updated.
          andThen (toDate updated) (\<lambda>updatedAt.
          ret (data_error
                 (Obj (assign ''updated_at'' updatedAt
                        (assign ''created_at'' createdAt (spread dat []))))
                 Null))))))
        else ret (data_error Null Null))))))
       (\<lambda>error. ret (data_error Null error))"

definition firebase_updateUserProfile :: "'s env \<Rightarrow> val \<Rightarrow> ('s, val) io" where
  "firebase_updateUserProfile env updates =
     try_catch
       (andThen (firebase_getCurrentUser env) (\<lambda>user.
        if \<not> truthy user then throw (Error ''User not authenticated'') else
        andThen (get user ''uid'') (\<lambda>uid.
        let userRef = doc ''users'' uid in
        andThen (fb env (UpdateDoc userRef
            (Obj (assign ''updated_at'' serverTimestamp (spread updates []))))) (\<lambda>r.
        andThen (fb env (GetDoc userRef)) (\<lambda>updatedDoc.
        andThen (get updatedDoc ''id'') (\<lambda>ident.
        andThen (get updatedDoc ''data'') (\<lambda>dat.
        ret (data_error (Obj (spread dat [(''id'', ident)])) Null))))))))
       (\<lambda>error. ret (data_error Null error))"

subsection \<open>Team collaboration\<close>

text \<open>
  The author of a row, fetched by the three readers that join the \<open>users\<close> collection by
  hand: \<open>userDoc.exists() ? userDoc.data() : null\<close>, then
  \<open>userData ? { id: userDoc.id, email: userData.email, full_name: userData.full_name } : null\<close>.
\<close>

definition user_summary :: "val \<Rightarrow> val \<Rightarrow> ('s, val) io" where
  "user_summary userDoc ident =
     andThen (get userDoc ''exists'') (\<lambda>ex.
     andThen (if truthy ex then get userDoc ''data'' else ret Null) (\<lambda>userData.
     if truthy userData
     then andThen (get userData ''email'') (\<lambda>uemail.
          andThen (get userData ''full_name'') (\<lambda>uname.
          ret (Obj [(''id'', ident), (''email'', uemail), (''full_name'', uname)])))
     else ret Null))"

definition joined_row :: "'s env \<Rightarrow> string list \<Rightarrow> val \<Rightarrow> ('s, val) io" where
  "joined_row env ks rowDoc =
     andThen (get rowDoc ''data'') (\<lambda>rowData.
     andThen (get rowData ''user_id'') (\<lambda>uid.
     andThen (fb env (GetDoc (doc ''users'' uid))) (\<lambda>userDoc.
     andThen (get userDoc ''id'') (\<lambda>userDocId.
     andThen (user_summary userDoc userDocId) (\<lambda>usr.
     andThen (get rowDoc ''id'') (\<lambda>ident.
     andThen (map_all (\<lambda>k. andThen (toDate (opt_prop rowData k)) (\<lambda>date. ret (k, date))) ks)
       (\<lambda>dates.
     ret (Obj (assign ''user'' usr
                 (fold (\<lambda>(k, x). assign k x) dates (spread rowData [(''id'', ident)])))))))))))"

definition firebase_getProjectTeamMembers :: "'s env \<Rightarrow> val \<Rightarrow> ('s, val) io" where
  "firebase_getProjectTeamMembers env projectId =
     try_catch
       (andThen (fb env (GetDocs ''team_members''
            [Where ''project_id'' ''=='' projectId, Where ''status'' ''=='' (Str ''active''),
             OrderBy ''created_at'' ''asc''])) (\<lambda>teamMembersSnapshot.
        andThen (get teamMembersSnapshot ''docs'') (\<lambda>docs.
        andThen (as_array docs) (\<lambda>ds.
        andThen (map_all (joined_row env [''created_at'', ''updated_at'']) ds) (\<lambda>teamMembers.
        ret (data_error (Arr teamMembers) Null))))))
       (\<lambda>error. ret (data_error (Arr []) error))"

text \<open>
  \<open>Math.random().toString(36).substring(2, 15)\<close>, twice, concatenated; and
  \<open>new Date(Date.now() + 7 * 24 * 60 * 60 * 1000)\<close>.
\<close>

definition substring :: "nat \<Rightarrow> nat \<Rightarrow> string \<Rightarrow> string" where
  "substring a b s = take (b - a) (drop a s)"

definition draw36 :: "'s env \<Rightarrow> ('s, string) io" where
  "draw36 env w = (case random36 env (backend w) of (r, s') \<Rightarrow> (Return r, w\<lparr>backend := s'\<rparr>))"

definition generateInviteToken :: "'s env \<Rightarrow> ('s, val) io" where
  "generateInviteToken env =
     andThen (draw36 env) (\<lambda>r1.
     andThen (draw36 env) (\<lambda>r2.
     ret (Str (substring 2 15 r1 @ substring 2 15 r2))))"

definition dateNowPlus :: "'s env \<Rightarrow> int \<Rightarrow> ('s, val) io" where
  "dateNowPlus env ms w = (Return (Opaque ''Date'' (Num (dateNow env (backend w) + ms))), w)"

definition firebase_inviteTeamMember :: "'s env \<Rightarrow> val \<Rightarrow> val \<Rightarrow> val \<Rightarrow> ('s, val) io" where
  "firebase_inviteTeamMember env projectId email role =
     try_catch
       (andThen (firebase_getCurrentUser env) (\<lambda>user.
        if \<not> truthy user then throw (Error ''User not authenticated'') else
        andThen (fb env (GetDocs ''project_invitations''
            [Where ''project_id'' ''=='' projectId, Where ''email'' ''=='' email,
             Where ''accepted_at'' ''=='' Null])) (\<lambda>existingInviteSnapshot.
        andThen (get existingInviteSnapshot ''empty'') (\<lambda>empty.
        if \<not> truthy empty
        then ret (error_only (message ''Invitation already sent to this email'')) else
        andThen (get user ''uid'') (\<lambda>uid.
        andThen (generateInviteToken env) (\<lambda>token.
        andThen (dateNowPlus env (7 * 24 * 60 * 60 * 1000)) (\<lambda>expires.
        let invitationData =
              [(''project_id'', projectId), (''email'', email), (''role'', role),
               (''invited_by'', uid), (''token'', token), (''expires_at'', expires),
               (''created_at'', serverTimestamp)] in
        andThen (fb env (AddDoc ''project_invitations'' (Obj invitationData))) (\<lambda>docRef.
        andThen (logActivity env projectId (Str ''invited'') (Str ''team_member'') Null
                   (Obj [(''email'', email), (''role'', role)])) (\<lambda>u.
        andThen (get docRef ''id'') (\<lambda>ident.
        ret (data_error (Obj (spread (Obj invitationData) [(''id'', ident)])) Null)))))))))))
       (\<lambda>error. ret (data_error Null error))"

text \<open>\<open>xs[0]\<close>: \<open>undefined\<close> on an empty array, a \<open>TypeError\<close> on \<open>undefined\<close> and \<open>null\<close>.\<close>

definition first_elem :: "val \<Rightarrow> ('s, val) io" where
  "first_elem v =
     (case v of
        Arr (x # xs) \<Rightarrow> ret x
      | Str (c # cs) \<Rightarrow> ret (Str [c])
      | Undefined \<Rightarrow> throw TypeError
      | Null \<Rightarrow> throw TypeError
      | _ \<Rightarrow> ret Undefined)"

definition firebase_removeTeamMember :: "'s env \<Rightarrow> val \<Rightarrow> val \<Rightarrow> ('s, val) io" where
  "firebase_removeTeamMember env projectId userId =
     try_catch
       (andThen (fb env (GetDocs ''team_members''
            [Where ''project_id'' ''=='' projectId, Where ''user_id'' ''=='' userId]))
          (\<lambda>teamMemberSnapshot.
        andThen (get teamMemberSnapshot ''empty'') (\<lambda>empty.
        if \<not> truthy empty then
          andThen (get teamMemberSnapshot ''docs'') (\<lambda>docs.
          andThen (first_elem docs) (\<lambda>memberDoc.
          andThen (get memberDoc ''ref'') (\<lambda>ref.
          andThen (fb env (UpdateDoc ref
              (Obj [(''status'', Str ''inactive''), (''updated_at'', serverTimestamp)]))) (\<lambda>r.
          andThen (logActivity env projectId (Str ''removed'') (Str ''team_member'') userId Undefined) (\<lambda>u.
          andThen (get memberDoc ''id'') (\<lambda>ident.
          ret (data_error (Obj [(''id'', ident)]) Null)))))))
        else ret (data_error Null (message ''Team member not found'')))))
       (\<lambda>error. ret (data_error Null error))"

definition firebase_updateTeamMemberRole ::
  "'s env \<Rightarrow> val \<Rightarrow> val \<Rightarrow> val \<Rightarrow> ('s, val) io" where
  "firebase_updateTeamMemberRole env projectId userId role =
     try_catch
       (andThen (fb env (GetDocs ''team_members''
            [Where ''project_id'' ''=='' projectId, Where ''user_id'' ''=='' userId]))
          (\<lambda>teamMemberSnapshot.
        andThen (get teamMemberSnapshot ''empty'') (\<lambda>empty.
        if \<not> truthy empty then
          andThen (get teamMemberSnapshot ''docs'') (\<lambda>docs.
          andThen (first_elem docs) (\<lambda>memberDoc.
          andThen (get memberDoc ''ref'') (\<lambda>ref.
          andThen (fb env (UpdateDoc ref
              (Obj [(''role'', role), (''updated_at'', serverTimestamp)]))) (\<lambda>r.
          andThen (logActivity env projectId (Str ''role_updated'') (Str ''team_member'') userId
                     (Obj [(''new_role'', role)])) (\<lambda>u.
          andThen (get memberDoc ''id'') (\<lambda>ident.
          ret (data_error (Obj [(''id'', ident)]) Null)))))))
        else ret (data_error Null (message ''Team member not found'')))))
       (\<lambda>error. ret (data_error Null error))"

definition firebase_getProjectInvitations :: "'s env \<Rightarrow> val \<Rightarrow> ('s, val) io" where
  "firebase_getProjectInvitations env projectId =
     try_catch
       (andThen (fb env (GetDocs ''project_invitations''
            [Where ''project_id'' ''=='' projectId, Where ''accepted_at'' ''=='' Null,
             OrderBy ''created_at'' ''desc''])) (\<lambda>invitationsSnapshot.
        andThen (get invitationsSnapshot ''docs'') (\<lambda>docs.
        andThen (as_array docs) (\<lambda>ds.
        andThen (map_all (with_dates [''expires_at'', ''created_at'']) ds) (\<lambda>invitations.
        ret (data_error (Arr invitations) Null))))))
       (\<lambda>error. ret (data_error (Arr []) error))"

definition firebase_cancelInvitation :: "'s env \<Rightarrow> val \<Rightarrow> ('s, val) io" where
  "firebase_cancelInvitation env invitationId =
     try_catch
       (andThen (fb env (DeleteDoc (doc ''project_invitations'' invitationId))) (\<lambda>r.
        ret (data_error (Obj [(''id'', invitationId)]) Null)))
       (\<lambda>error. ret (data_error Null error))"

subsection \<open>Comments and activity\<close>

definition firebase_getArticleComments :: "'s env \<Rightarrow> val \<Rightarrow> ('s, val) io" where
  "firebase_getArticleComments env articleId =
     try_catch
       (andThen (fb env (GetDocs ''article_comments''
            [Where ''article_id'' ''=='' articleId, OrderBy ''created_at'' ''asc'']))
          (\<lambda>commentsSnapshot.
        andThen (get commentsSnapshot ''docs'') (\<lambda>docs.
        andThen (as_array docs) (\<lambda>ds.
        andThen (map_all (joined_row env [''created_at'', ''updated_at'']) ds) (\<lambda>comments.
        ret (data_error (Arr comments) Null))))))
       (\<lambda>error. ret (data_error (Arr []) error))"

definition firebase_createComment :: "'s env \<Rightarrow> val \<Rightarrow> val \<Rightarrow> val \<Rightarrow> ('s, val) io" where
  "firebase_createComment env articleId content position =
     try_catch
       (andThen (firebase_getCurrentUser env) (\<lambda>user.
        if \<not> truthy user then throw (Error ''User not authenticated'') else
        andThen (get user ''uid'') (\<lambda>uid.
        let commentData =
              [(''article_id'', articleId), (''user_id'', uid), (''content'', content),
               (''position'', js_or position Null), (''resolved'', Bool False),
               (''created_at'', serverTimestamp), (''updated_at'', serverTimestamp)] in
        andThen (fb env (AddDoc ''article_comments'' (Obj commentData))) (\<lambda>docRef.
        andThen (fb env (GetDoc (doc ''users'' uid))) (\<lambda>userDoc.
        andThen (user_summary userDoc uid) (\<lambda>usr.
        andThen (get docRef ''id'') (\<lambda>ident.
        ret (data_error
               (Obj (assign ''user'' usr (spread (Obj commentData) [(''id'', ident)])))
               Null))))))))
       (\<lambda>error. ret (data_error Null error))"

definition firebase_updateComment :: "'s env \<Rightarrow> val \<Rightarrow> val \<Rightarrow> ('s, val) io" where
  "firebase_updateComment env commentId content =
     try_catch
       (let commentRef = doc ''article_comments'' commentId in
        andThen (fb env (UpdateDoc commentRef
            (Obj [(''content'', content), (''updated_at'', serverTimestamp)]))) (\<lambda>r.
        andThen (fb env (GetDoc commentRef)) (\<lambda>updatedDoc.
        andThen (get updatedDoc ''data'') (\<lambda>commentData.
        andThen (fb env (GetDoc (doc ''users'' (opt_prop commentData ''user_id'')))) (\<lambda>userDoc.
        andThen (get userDoc ''id'') (\<lambda>userDocId.
        andThen (user_summary userDoc userDocId) (\<lambda>usr.
        andThen (get updatedDoc ''id'') (\<lambda>ident.
        andThen (toDate (opt_prop commentData ''created_at'')) (\<lambda>createdAt.
        andThen (toDate (opt_prop commentData ''updated_at'')) (\<lambda>updatedAt.
        ret (data_error
               (Obj (assign ''user'' usr
                      (assign ''updated_at'' updatedAt
                        (assign ''created_at'' createdAt
                          (spread commentData [(''id'', ident)])))))
               Null)))))))))))
       (\<lambda>error. ret (data_error Null error))"

definition firebase_resolveComment :: "'s env \<Rightarrow> val \<Rightarrow> val \<Rightarrow> ('s, val) io" where
  "firebase_resolveComment env commentId resolved0 =
     (let resolved = default_to resolved0 (Bool True) in
      try_catch
        (andThen (fb env (UpdateDoc (doc ''article_comments'' commentId)
             (Obj [(''resolved'', resolved)]))) (\<lambda>r.
         ret (data_error (Obj [(''id'', commentId)]) Null)))
        (\<lambda>error. ret (data_error Null error)))"

definition firebase_deleteComment :: "'s env \<Rightarrow> val \<Rightarrow> ('s, val) io" where
  "firebase_deleteComment env commentId =
     try_catch
       (andThen (fb env (DeleteDoc (doc ''article_comments'' commentId))) (\<lambda>r.
        ret (data_error (Obj [(''id'', commentId)]) Null)))
       (\<lambda>error. ret (data_error Null error))"

definition firebase_getProjectActivity :: "'s env \<Rightarrow> val \<Rightarrow> val \<Rightarrow> ('s, val) io" where
  "firebase_getProjectActivity env projectId limitCount0 =
     (let limitCount = default_to limitCount0 (Num 50) in
      try_catch
        (andThen (fb env (GetDocs ''activity_logs''
             [Where ''project_id'' ''=='' projectId, OrderBy ''created_at'' ''desc'',
              LimitTo limitCount])) (\<lambda>activitySnapshot.
         andThen (get activitySnapshot ''docs'') (\<lambda>docs.
         andThen (as_array docs) (\<lambda>ds.
         andThen (map_all (joined_row env [''created_at'']) ds) (\<lambda>activities.
         ret (data_error (Arr activities) Null))))))
        (\<lambda>error. ret (data_error (Arr []) error)))"

subsection \<open>Permissions and the usage counter\<close>

definition firebase_getUserProjectRole :: "'s env \<Rightarrow> val \<Rightarrow> ('s, val) io" where
  "firebase_getUserProjectRole env projectId =
     try_catch
       (andThen (firebase_getCurrentUser env) (\<lambda>user.
        if \<not> truthy user then ret Null else
        andThen (get user ''uid'') (\<lambda>uid.
        andThen (fb env (GetDocs ''team_members''
            [Where ''project_id'' ''=='' projectId, Where ''user_id'' ''=='' uid,
             Where ''status'' ''=='' (Str ''active'')])) (\<lambda>teamMemberSnapshot.
        andThen (get teamMemberSnapshot ''empty'') (\<lambda>empty.
        if \<not> truthy empty then
          andThen (get teamMemberSnapshot ''docs'') (\<lambda>docs.
          andThen (first_elem docs) (\<lambda>memberDoc.
          andThen (get memberDoc ''data'') (\<lambda>dat.
          get dat ''role'')))
        else ret Null)))))
       (\<lambda>error. ret Null)"

definition firebase_canUserEditProject :: "'s env \<Rightarrow> val \<Rightarrow> ('s, val) io" where
  "firebase_canUserEditProject env projectId =
     andThen (firebase_getUserProjectRole env projectId) (\<lambda>role.
     ret (role_in role [''owner'', ''admin'', ''editor'']))"

definition firebase_canUserManageTeam :: "'s env \<Rightarrow> val \<Rightarrow> ('s, val) io" where
  "firebase_canUserManageTeam env projectId =
     andThen (firebase_getUserProjectRole env projectId) (\<lambda>role.
     ret (role_in role [''owner'', ''admin'']))"

definition firebase_incrementUsageCount :: "'s env \<Rightarrow> ('s, val) io" where
  "firebase_incrementUsageCount env =
     try_catch
       (andThen (firebase_getCurrentUser env) (\<lambda>user.
        if \<not> truthy user then throw (Error ''User not authenticated'') else
        andThen (get user ''uid'') (\<lambda>uid.
        let userRef = doc ''users'' uid in
        andThen (fb env (UpdateDoc userRef
            (Obj [(''usage_count'', increment 1), (''updated_at'', serverTimestamp)]))) (\<lambda>r.
        andThen (fb env (GetDoc userRef)) (\<lambda>updatedDoc.
        andThen (get updatedDoc ''id'') (\<lambda>ident.
        andThen (get updatedDoc ''data'') (\<lambda>dat.
        ret (data_error (Obj (spread dat [(''id'', ident)])) Null))))))))
       (\<lambda>error. ret (data_error Null error))"

section \<open>The stores (store/authStore.ts, store/projectStore.ts)\<close>

text \<open>\<open>set({...})\<close> of a zustand store.\<close>

definition set_auth :: "(auth_state \<Rightarrow> auth_state) \<Rightarrow> ('s, unit) io" where
  "set_auth f w = (Return (), w\<lparr>authStore := f (authStore w)\<rparr>)"

definition set_project :: "(project_state \<Rightarrow> project_state) \<Rightarrow> ('s, unit) io" where
  "set_project f w = (Return (), w\<lparr>projectStore := f (projectStore w)\<rparr>)"

subsection \<open>The auth store, on the Supabase wrappers\<close>

definition authStore_signIn :: "'s env \<Rightarrow> val \<Rightarrow> val \<Rightarrow> ('s, val) io" where
  "authStore_signIn env email password =
     andThen (set_auth (\<lambda>a. a\<lparr>auth_loading := True\<rparr>)) (\<lambda>u.
     try_catch
       (andThen (supabase_signIn env email password) (\<lambda>result.
        andThen (get result ''data'') (\<lambda>data.
        andThen (get result ''error'') (\<lambda>error.
        andThen (if truthy error then ret False
                 else andThen (get data ''user'') (\<lambda>du. ret (truthy du))) (\<lambda>signedIn.
        andThen (if signedIn then
                   andThen (sleep 500) (\<lambda>u.
                   andThen (supabase_getUserProfile env) (\<lambda>presult.
                   andThen (get presult ''data'') (\<lambda>profile.
                   andThen (get data ''user'') (\<lambda>du.
                   set_auth (\<lambda>a. a\<lparr>user := du, userProfile := profile,
                                     auth_loading := False\<rparr>)))))
                 else set_auth (\<lambda>a. a\<lparr>auth_loading := False\<rparr>)) (\<lambda>u.
        ret (error_only error)))))))
       (\<lambda>err.
        andThen (set_auth (\<lambda>a. a\<lparr>auth_loading := False\<rparr>)) (\<lambda>u.
        ret (error_only err))))"

definition authStore_signUp :: "'s env \<Rightarrow> val \<Rightarrow> val \<Rightarrow> val \<Rightarrow> ('s, val) io" where
  "authStore_signUp env email password fullName =
     andThen (set_auth (\<lambda>a. a\<lparr>auth_loading := True\<rparr>)) (\<lambda>u.
     try_catch
       (andThen (supabase_signUp env email password fullName) (\<lambda>result.
        andThen (get result ''data'') (\<lambda>data.
        andThen (get result ''error'') (\<lambda>error.
        andThen (if truthy error then ret False
                 else andThen (get data ''user'') (\<lambda>du. ret (truthy du))) (\<lambda>signedUp.
        andThen (if signedUp then
                   andThen (sleep 2000) (\<lambda>u.
                   andThen (supabase_getUserProfile env) (\<lambda>presult.
                   andThen (get presult ''data'') (\<lambda>profile.
                   andThen (get data ''user'') (\<lambda>du.
                   set_auth (\<lambda>a. a\<lparr>user := du, userProfile := profile,
                                     auth_loading := False\<rparr>)))))
                 else set_auth (\<lambda>a. a\<lparr>auth_loading := False\<rparr>)) (\<lambda>u.
        ret (error_only error)))))))
       (\<lambda>err.
        andThen (set_auth (\<lambda>a. a\<lparr>auth_loading := False\<rparr>)) (\<lambda>u.
        ret (error_only err))))"

definition authStore_signOut :: "'s env \<Rightarrow> ('s, unit) io" where
  "authStore_signOut env =
     andThen (set_auth (\<lambda>a. a\<lparr>auth_loading := True\<rparr>)) (\<lambda>u.
     andThen (sb env AuthSignOut) (\<lambda>r.
     set_auth (\<lambda>a. a\<lparr>user := Null, userProfile := Null, auth_loading := False\<rparr>)))"

text \<open>
  \<open>initialize\<close> registers the listener; the listener itself is \<open>onAuthStateChange\<close> below,
  run by the SDK with the session of each later change.
\<close>

definition authStore_initialize :: "'s env \<Rightarrow> ('s, unit) io" where
  "authStore_initialize env =
     try_catch
       (andThen (sb env AuthGetUser) (\<lambda>(data, error).
        andThen (get data ''user'') (\<lambda>usr.
        andThen (if truthy usr then
                   andThen (supabase_getUserProfile env) (\<lambda>presult.
                   andThen (get presult ''data'') (\<lambda>profile.
                   set_auth (\<lambda>a. a\<lparr>user := usr, userProfile := profile\<rparr>)))
                 else ret ()) (\<lambda>u.
        andThen (set_auth (\<lambda>a. a\<lparr>initialized := True\<rparr>)) (\<lambda>u.
        andThen (sb env AuthOnAuthStateChange) (\<lambda>subscription.
        ret ()))))))
       (\<lambda>error. set_auth (\<lambda>a. a\<lparr>initialized := True\<rparr>))"

definition authStore_onAuthStateChange :: "'s env \<Rightarrow> val \<Rightarrow> val \<Rightarrow> ('s, unit) io" where
  "authStore_onAuthStateChange env event session =
     (if truthy (opt_prop session ''user'') then
        andThen (supabase_getUserProfile env) (\<lambda>presult.
        andThen (get presult ''data'') (\<lambda>profile.
        andThen (get session ''user'') (\<lambda>su.
        set_auth (\<lambda>a. a\<lparr>user := su, userProfile := profile\<rparr>))))
      else set_auth (\<lambda>a. a\<lparr>user := Null, userProfile := Null\<rparr>))"

definition authStore_refreshProfile :: "'s env \<Rightarrow> ('s, unit) io" where
  "authStore_refreshProfile env =
     try_catch
       (andThen (supabase_getUserProfile env) (\<lambda>presult.
        andThen (get presult ''data'') (\<lambda>profile.
        set_auth (\<lambda>a. a\<lparr>userProfile := profile\<rparr>))))
       (\<lambda>error. ret ())"

definition authStore_incrementUsage :: "'s env \<Rightarrow> ('s, unit) io" where
  "authStore_incrementUsage env =
     try_catch
       (andThen (supabase_incrementUsageCount env) (\<lambda>result.
        andThen (get result ''data'') (\<lambda>data.
        if truthy data then set_auth (\<lambda>a. a\<lparr>userProfile := data\<rparr>) else ret ())))
       (\<lambda>error. ret ())"

subsection \<open>The project store, on the Firebase wrappers\<close>

definition projectStore_fetchProjects :: "'s env \<Rightarrow> ('s, unit) io" where
  "projectStore_fetchProjects env =
     andThen (set_project (\<lambda>p. p\<lparr>loading := True\<rparr>)) (\<lambda>u.
     andThen (firebase_getUserProjects env) (\<lambda>result.
     andThen (get result ''data'') (\<lambda>data.
     andThen (get result ''error'') (\<lambda>error.
     andThen (if \<not> truthy error \<and> truthy data
              then set_project (\<lambda>p. p\<lparr>projects := data\<rparr>) else ret ()) (\<lambda>u.
     set_project (\<lambda>p. p\<lparr>loading := False\<rparr>))))))"

text \<open>\<open>[data, ...projects]\<close>: a \<open>TypeError\<close> when \<open>projects\<close> is not iterable.\<close>

definition cons_spread :: "val \<Rightarrow> val \<Rightarrow> ('s, val) io" where
  "cons_spread x xs =
     (case xs of
        Arr ys \<Rightarrow> ret (Arr (x # ys))
      | Str cs \<Rightarrow> ret (Arr (x # map (\<lambda>c. Str [c]) cs))
      | _ \<Rightarrow> throw TypeError)"

definition projectStore_createProject :: "'s env \<Rightarrow> val \<Rightarrow> val \<Rightarrow> ('s, val) io" where
  "projectStore_createProject env ptitle description =
     andThen (set_project (\<lambda>p. p\<lparr>loading := True\<rparr>)) (\<lambda>u.
     andThen (firebase_createProject env ptitle description) (\<lambda>result.
     andThen (get result ''data'') (\<lambda>data.
     andThen (get result ''error'') (\<lambda>error.
     andThen (if \<not> truthy error \<and> truthy data
              then (\<lambda>w. andThen (cons_spread data (projects (projectStore w))) (\<lambda>ps.
                         set_project (\<lambda>p. p\<lparr>projects := ps\<rparr>)) w)
              else ret ()) (\<lambda>u.
     andThen (set_project (\<lambda>p. p\<lparr>loading := False\<rparr>)) (\<lambda>u.
     ret (error_only error)))))))"

definition projectStore_setCurrentProject :: "val \<Rightarrow> ('s, unit) io" where
  "projectStore_setCurrentProject project =
     set_project (\<lambda>p. p\<lparr>currentProject := project, articles := Arr []\<rparr>)"

definition projectStore_fetchArticles :: "'s env \<Rightarrow> val \<Rightarrow> ('s, unit) io" where
  "projectStore_fetchArticles env projectId =
     andThen (set_project (\<lambda>p. p\<lparr>loading := True\<rparr>)) (\<lambda>u.
     andThen (firebase_getProjectArticles env projectId) (\<lambda>result.
     andThen (get result ''data'') (\<lambda>data.
     andThen (get result ''error'') (\<lambda>error.
     andThen (if \<not> truthy error \<and> truthy data
              then set_project (\<lambda>p. p\<lparr>articles := data\<rparr>) else ret ()) (\<lambda>u.
     set_project (\<lambda>p. p\<lparr>loading := False\<rparr>))))))"

section \<open>The article editor (components/editor/ArticleEditor.tsx)\<close>

definition set_ui :: "(editor_state \<Rightarrow> editor_state) \<Rightarrow> ('s, unit) io" where
  "set_ui f w = (Return (), w\<lparr>editorUI := f (editorUI w)\<rparr>)"

definition showNotification :: "val \<Rightarrow> string \<Rightarrow> ('s, unit) io" where
  "showNotification msg kind = set_ui (\<lambda>e. e\<lparr>notifications := notifications e @ [(msg, kind)]\<rparr>)"

text \<open>
  \<open>s.trim()\<close>. A title is a \<open>string\<close>, a list of 8-bit characters; of the white space
  and line terminators that \<open>String.prototype.trim\<close> strips, these are tab, line feed,
  vertical tab, form feed, carriage return, space and no-break space. The others (U+1680,
  U+2000 to U+200A, U+2028, U+2029, U+202F, U+205F, U+3000, U+FEFF) lie above U+00FF and do
  not occur in such a title.
\<close>

definition is_space :: "char \<Rightarrow> bool" where
  "is_space c = (c \<in> set [CHR 0x09, CHR 0x0A, CHR 0x0B, CHR 0x0C, CHR 0x0D, CHR 0x20, CHR 0xA0])"

definition trim :: "string \<Rightarrow> string" where
  "trim s = rev (dropWhile is_space (rev (dropWhile is_space s)))"

text \<open>
  \<open>a >= b\<close> on the two counters of a profile, which the schema declares as integer columns:
  integers compare as integers, \<open>null\<close> counts as 0, a boolean as 0 or 1, and \<open>undefined\<close>
  makes the comparison false. The coercion of strings and objects to numbers is left out:
  on such a counter \<open>js_ge\<close> is false where JavaScript may answer true, so statements about
  the handler are made for counters that are numbers, booleans, \<open>null\<close> or absent.
\<close>

definition to_number :: "val \<Rightarrow> int option" where
  "to_number v =
     (case v of Num n \<Rightarrow> Some n | Null \<Rightarrow> Some 0 | Bool b \<Rightarrow> Some (if b then 1 else 0)
      | _ \<Rightarrow> None)"

definition js_ge :: "val \<Rightarrow> val \<Rightarrow> bool" where
  "js_ge a b =
     (case (to_number a, to_number b) of (Some x, Some y) \<Rightarrow> x \<ge> y | _ \<Rightarrow> False)"

text \<open>\<open>s.includes(t)\<close> on strings.\<close>

definition str_includes :: "string \<Rightarrow> string \<Rightarrow> bool" where
  "str_includes s t = sublist t s"

definition checkPermissions :: "'s env \<Rightarrow> ('s, unit) io" where
  "checkPermissions env w =
     (let currentProject = currentProject (projectStore w) in
      if truthy currentProject then
        andThen (get currentProject ''id'') (\<lambda>pid.
        andThen (firebase_canUserEditProject env pid) (\<lambda>canEditProject.
        set_ui (\<lambda>e. e\<lparr>canEdit := canEditProject\<rparr>))) w
      else (Return (), w))"

text \<open>The content generator of \<open>lib/gemini\<close>, a parameter like the SDKs.\<close>

definition generate :: "'s env \<Rightarrow> val \<Rightarrow> val \<Rightarrow> ('s, val) io" where
  "generate env prompt kind w =
     (case generateContent env prompt kind (backend w) of
        (r, s') \<Rightarrow> (r, w\<lparr>backend := s', trace := trace w @ [Generate prompt kind]\<rparr>))"

definition setContent :: "val \<Rightarrow> ('s, unit) io" where
  "setContent content =
     set_ui (\<lambda>e. e\<lparr>editorContent := (case editorContent e of None \<Rightarrow> None
                                       | Some old \<Rightarrow> Some content)\<rparr>)"

text \<open>The \<open>catch\<close> block of \<open>handleGenerateContent\<close>.\<close>

definition generationFailed :: "val \<Rightarrow> ('s, unit) io" where
  "generationFailed error =
     (case error of
        Error m \<Rightarrow>
          if str_includes m ''rate limit'' then
            showNotification
              (Str ''Gemini API rate limit exceeded. Please wait a few minutes before trying again.'')
              ''error''
          else if str_includes m ''API key'' then
            showNotification
              (Str ''Gemini API configuration error. Please check your settings.'')
              ''error''
          else
            showNotification
              (js_or (Str m) (Str ''Failed to generate content. Please try again.''))
              ''error''
      | _ \<Rightarrow>
          showNotification (Str ''Failed to generate content. Please try again.'') ''error'')"

text \<open>
  \<open>handleGenerateContent\<close>, in two parts: the body that follows the four guards
  (\<open>setIsGenerating(true); try { ... } catch ... finally ...\<close>), and the guards.
\<close>

definition generateAndShow :: "'s env \<Rightarrow> editor_state \<Rightarrow> ('s, unit) io" where
  "generateAndShow env ui =
     andThen (set_ui (\<lambda>e. e\<lparr>isGenerating := True\<rparr>)) (\<lambda>u.
     try_finally
       (try_catch
          (let lengthPrompt =
                 (if contentLength ui = ''short'' then '' (400-600 words)''
                  else if contentLength ui = ''medium'' then '' (800-1200 words)''
                  else '' (1500-2000 words)'') in
           andThen (generate env (Str (titleInput ui @ lengthPrompt)) (Str ''article''))
             (\<lambda>content.
           andThen (setContent content) (\<lambda>u.
           andThen (authStore_incrementUsage env) (\<lambda>u.
           showNotification (Str ''Content generated successfully!'') ''success''))))
          generationFailed)
       (set_ui (\<lambda>e. e\<lparr>isGenerating := False\<rparr>)))"

definition handleGenerateContent :: "'s env \<Rightarrow> ('s, unit) io" where
  "handleGenerateContent env w =
     (let ui = editorUI w; userProfile = userProfile (authStore w) in
      if trim (titleInput ui) = [] then
        showNotification (Str ''Please enter a title first'') ''error'' w
      else if \<not> truthy (canEdit ui) then
        showNotification (Str ''You do not have permission to edit this project'') ''error'' w
      else if \<not> truthy userProfile then
        showNotification (Str ''Please sign in to use AI features'') ''error'' w
      else if js_ge (opt_prop userProfile ''usage_count'') (opt_prop userProfile ''usage_limit'') then
        showNotification
          (Str ''You have reached your AI generation limit. Please upgrade to continue.'')
          ''error'' w
      else generateAndShow env ui w)"

section \<open>A scripted platform\<close>

text \<open>
  A platform that answers each call with the next response of a fixed list, whatever the
  call; with it the wrappers run on concrete inputs.
\<close>

record script =
  sb_script :: "(val \<times> val) res list"
  fb_script :: "val res list"
  signedIn :: val
  clock :: int
  draws :: "string list"
  gen_script :: "val res list"

definition script_env :: "script env" where
  "script_env =
     \<lparr>supabase = (\<lambda>c s. case sb_script s of
                     [] \<Rightarrow> (Throw (Error ''no response''), s)
                   | r # rs \<Rightarrow> (r, s\<lparr>sb_script := rs\<rparr>)),
      firebase = (\<lambda>c s. case fb_script s of
                     [] \<Rightarrow> (Throw (Error ''no response''), s)
                   | r # rs \<Rightarrow> (r, s\<lparr>fb_script := rs\<rparr>)),
      currentUser = signedIn,
      dateNow = clock,
      random36 = (\<lambda>s. case draws s of [] \<Rightarrow> (''0.'', s) | r # rs \<Rightarrow> (r, s\<lparr>draws := rs\<rparr>)),
      generateContent = (\<lambda>prompt kind s. case gen_script s of
                     [] \<Rightarrow> (Throw (Error ''no response''), s)
                   | r # rs \<Rightarrow> (r, s\<lparr>gen_script := rs\<rparr>))\<rparr>"

definition idle :: script where
  "idle = \<lparr>sb_script = [], fb_script = [], signedIn = Null, clock = 0, draws = [],
           gen_script = []\<rparr>"

text \<open>The initial state of the stores and of the editor component, as the source sets it.\<close>

definition init_world :: "'s \<Rightarrow> 's world" where
  "init_world s =
     \<lparr>backend = s, trace = [],
      authStore = \<lparr>user = Null, userProfile = Null, auth_loading = False, initialized = False\<rparr>,
      projectStore = \<lparr>projects = Arr [], currentProject = Null, articles = Arr [],
                      loading = False\<rparr>,
      editorUI = \<lparr>titleInput = [], canEdit = Bool False, contentLength = ''medium'',
                  isGenerating = False, editorContent = None, notifications = []\<rparr>\<rparr>"

section \<open>A platform with tables\<close>

text \<open>
  How a PostgREST endpoint answers a read from the rows of a table: the filters of the
  chain select the rows, \<open>.single()\<close> wants exactly one of them, and a column list that
  names one column keeps that column only.
\<close>

definition satisfies :: "val \<Rightarrow> qstep \<Rightarrow> bool" where
  "satisfies row st =
     (case st of
        Eq k v \<Rightarrow> opt_prop row k = v
      | Is k v \<Rightarrow> js_or (opt_prop row k) Null = v
      | Gt k v \<Rightarrow> (case (opt_prop row k, v) of
                     (Opaque t1 (Num a), Opaque t2 (Num b)) \<Rightarrow> a > b
                   | (Num a, Num b) \<Rightarrow> a > b
                   | _ \<Rightarrow> False)
      | _ \<Rightarrow> True)"

definition columns :: "qstep list \<Rightarrow> string" where
  "columns q = (case [c. Select c \<leftarrow> q] of [] \<Rightarrow> ''*'' | c # cs \<Rightarrow> c)"

definition projection :: "string \<Rightarrow> val \<Rightarrow> val" where
  "projection cols row =
     (if cols = ''*'' \<or> CHR '','' \<in> set cols then row
      else Obj [(cols, opt_prop row cols)])"

definition single :: "val list \<Rightarrow> val \<times> val" where
  "single rows =
     (case rows of
        [r] \<Rightarrow> (r, Null)
      | _ \<Rightarrow> (Null, message ''JSON object requested, multiple (or no) rows returned''))"

definition answer :: "val list \<Rightarrow> qstep list \<Rightarrow> val \<times> val" where
  "answer rows q =
     (let hits = map (projection (columns q)) (filter (\<lambda>r. list_all (satisfies r) q) rows)
      in if Single \<in> set q then single hits else (Arr hits, Null))"

text \<open>
  How Firestore answers \<open>getDocs\<close> from the documents of a collection (a document is
  its data, with its id under \<open>id\<close>): the \<open>where\<close> constraints select the documents,
  and the snapshot holds them in \<open>docs\<close>.
\<close>

definition fs_satisfies :: "val \<Rightarrow> qconstraint \<Rightarrow> bool" where
  "fs_satisfies row c =
     (case c of
        Where k opr v \<Rightarrow>
          if opr = ''=='' then opt_prop row k = v
          else if opr = ''in'' then (case v of Arr vs \<Rightarrow> opt_prop row k \<in> set vs | _ \<Rightarrow> False)
          else True
      | _ \<Rightarrow> True)"

definition snapshot :: "string \<Rightarrow> val list \<Rightarrow> val" where
  "snapshot coll rows =
     Obj [(''empty'', Bool (rows = [])),
          (''docs'', Arr (map (\<lambda>r. Obj [(''id'', opt_prop r ''id''),
                                        (''ref'', doc coll (opt_prop r ''id'')),
                                        (''exists'', Bool True), (''data'', r)]) rows))]"

definition fs_answer :: "string \<Rightarrow> val list \<Rightarrow> qconstraint list \<Rightarrow> val" where
  "fs_answer coll rows cs = snapshot coll (filter (\<lambda>r. list_all (fs_satisfies r) cs) rows)"

text \<open>
  Membership, as the permission claims word it: some row of \<open>team_members\<close> for the
  project and the user is active and carries one of the roles; and the constraint
  \<open>UNIQUE(user_id, project_id)\<close> of the schema, for one user and project.
\<close>

definition has_role :: "val list \<Rightarrow> val \<Rightarrow> val \<Rightarrow> string list \<Rightarrow> bool" where
  "has_role tbl pid uid roles =
     list_ex (\<lambda>r. opt_prop r ''project_id'' = pid \<and> opt_prop r ''user_id'' = uid \<and>
                  opt_prop r ''status'' = Str ''active'' \<and>
                  list_ex (\<lambda>s. opt_prop r ''role'' = Str s) roles) tbl"

definition one_membership :: "val list \<Rightarrow> val \<Rightarrow> val \<Rightarrow> bool" where
  "one_membership tbl pid uid =
     (length (filter (\<lambda>r. opt_prop r ''project_id'' = pid \<and> opt_prop r ''user_id'' = uid) tbl)
        \<le> 1)"

text \<open>
  A platform with the two tables of the invitation flow. An insert appends the row, an
  update rewrites the rows its filters select unless the platform rejects updates,
  \<open>log_activity\<close> succeeds, and Firestore reads are answered from the same rows.
\<close>

record tables =
  session_user :: val
  team_members :: "val list"
  project_invitations :: "val list"
  reject_updates :: bool
  time :: int

definition rows_of :: "tables \<Rightarrow> string \<Rightarrow> val list" where
  "rows_of s t =
     (if t = ''team_members'' then team_members s
      else if t = ''project_invitations'' then project_invitations s
      else [])"

definition put_rows :: "tables \<Rightarrow> string \<Rightarrow> val list \<Rightarrow> tables" where
  "put_rows s t rows =
     (if t = ''team_members'' then s\<lparr>team_members := rows\<rparr>
      else if t = ''project_invitations'' then s\<lparr>project_invitations := rows\<rparr>
      else s)"

definition table_query :: "tables \<Rightarrow> string \<Rightarrow> qstep list \<Rightarrow> (val \<times> val) res \<times> tables" where
  "table_query s t q =
     (case q of
        Insert (Arr [row]) # rest \<Rightarrow> (Return (row, Null), put_rows s t (rows_of s t @ [row]))
      | Update changes # rest \<Rightarrow>
          if reject_updates s then (Return (Null, message ''update rejected''), s)
          else (Return (Null, Null),
                put_rows s t
                  (map (\<lambda>r. if list_all (satisfies r) rest then Obj (spread changes (spread r []))
                            else r)
                       (rows_of s t)))
      | _ \<Rightarrow> (Return (answer (rows_of s t) q), s))"

definition table_env :: "tables env" where
  "table_env =
     \<lparr>supabase = (\<lambda>c s. case c of
                     AuthGetUser \<Rightarrow> (Return (Obj [(''user'', session_user s)], Null), s)
                   | From t q \<Rightarrow> table_query s t q
                   | _ \<Rightarrow> (Return (Null, Null), s)),
      firebase = (\<lambda>c s. case c of
                     GetDocs coll cs \<Rightarrow> (Return (fs_answer coll (rows_of s coll) cs), s)
                   | _ \<Rightarrow> (Throw (Error ''not configured''), s)),
      currentUser = session_user,
      dateNow = time,
      random36 = (\<lambda>s. (''0.'', s)),
      generateContent = (\<lambda>prompt kind s. (Throw (Error ''not configured''), s))\<rparr>"

text \<open>What an invocation adds to the trace.\<close>

definition issued :: "('s, 'a) io \<Rightarrow> 's world \<Rightarrow> event list" where
  "issued m w = drop (length (trace w)) (trace (snd (m w)))"

section \<open>The hash-based client router (App.tsx)\<close>

text \<open>
  \<open>currentView\<close> of \<open>App\<close> ranges over eight string literals; they become a datatype.
  JavaScript strings are modelled as \<open>string\<close>; \<open>String.prototype.startsWith\<close> is
  \<open>prefix\<close> on the list of characters.
\<close>

datatype view =
  Landing | Dashboard | Editor | BriefGenerator | Team | Settings | Pricing | Support

definition startsWith :: "string \<Rightarrow> string \<Rightarrow> bool" where
  "startsWith s p = prefix p s"

text \<open>
  \<open>handleHashChange\<close> reads \<open>window.location.hash\<close> and calls \<open>setCurrentView\<close> exactly
  once; the model takes the hash and returns the view that is set.
\<close>

definition handleHashChange :: "string \<Rightarrow> view" where
  "handleHashChange hash =
     (if startsWith hash ''#/dashboard'' then Dashboard
      else if startsWith hash ''#/project/'' then Editor
      else if startsWith hash ''#/brief-generator'' then BriefGenerator
      else if startsWith hash ''#/team'' then Team
      else if startsWith hash ''#/settings'' then Settings
      else if startsWith hash ''#/pricing'' then Pricing
      else if startsWith hash ''#/support'' then Support
      else Landing)"

text \<open>
  The routing table as the specification words it: the prefixes in their fixed order,
  the first matching one decides, and \<open>landing\<close> is the fallback.
\<close>

definition route_table :: "(string \<times> view) list" where
  "route_table =
     [(''#/dashboard'', Dashboard),
      (''#/project/'', Editor),
      (''#/brief-generator'', BriefGenerator),
      (''#/team'', Team),
      (''#/settings'', Settings),
      (''#/pricing'', Pricing),
      (''#/support'', Support)]"

fun first_match :: "(string \<times> view) list \<Rightarrow> string \<Rightarrow> view" where
  "first_match [] hash = Landing"
| "first_match ((p, v) # rest) hash = (if prefix p hash then v else first_match rest hash)"

text \<open>The active rows of \<open>team_members\<close> for one project and one user.\<close>

definition active_rows :: "val list \<Rightarrow> val \<Rightarrow> val \<Rightarrow> val list" where
  "active_rows tbl pid uid = filter (\<lambda>r. opt_prop r ''project_id'' = pid \<and> opt_prop r ''user_id'' = uid \<and>
                  opt_prop r ''status'' = Str ''active'') tbl"

text \<open>
  A team on the platform with tables: \<open>u1\<close> owns \<open>p1\<close>, the signed-in user \<open>u2\<close> is an
  editor of \<open>p1\<close> and a former owner of \<open>p2\<close>.
\<close>

definition team :: tables where
  "team = \<lparr>session_user = Obj [(''id'', Str ''u2''), (''uid'', Str ''u2''),
                                  (''email'', Str ''new@example.org'')],
            team_members =
              [Obj [(''id'', Str ''m1''), (''user_id'', Str ''u1''), (''project_id'', Str ''p1''),
                    (''role'', Str ''owner''), (''status'', Str ''active'')],
               Obj [(''id'', Str ''m2''), (''user_id'', Str ''u2''), (''project_id'', Str ''p1''),
                    (''role'', Str ''editor''), (''status'', Str ''active'')],
               Obj [(''id'', Str ''m3''), (''user_id'', Str ''u2''), (''project_id'', Str ''p2''),
                    (''role'', Str ''owner''), (''status'', Str ''inactive'')]],
            project_invitations = [], reject_updates = False, time = 50\<rparr>"

section \<open>Statements about invocations\<close>

text \<open>
  \<open>yields Q m\<close>: whenever \<open>m\<close> returns, its value satisfies \<open>Q\<close>. \<open>always Q m\<close>: \<open>m\<close> returns
  in every world, whatever the platform answers, and its value satisfies \<open>Q\<close>.
  \<open>keeps sel m\<close>: \<open>m\<close> leaves the part \<open>sel\<close> of the world as it was.
\<close>

definition yields :: "('a \<Rightarrow> bool) \<Rightarrow> ('s, 'a) io \<Rightarrow> bool" where
  "yields Q m = (\<forall>w. case fst (m w) of Return v \<Rightarrow> Q v | Throw e \<Rightarrow> True)"

definition always :: "('a \<Rightarrow> bool) \<Rightarrow> ('s, 'a) io \<Rightarrow> bool" where
  "always Q m = (\<forall>w. case fst (m w) of Return v \<Rightarrow> Q v | Throw e \<Rightarrow> False)"

definition keeps :: "('s world \<Rightarrow> 'b) \<Rightarrow> ('s, 'a) io \<Rightarrow> bool" where
  "keeps sel m = (\<forall>w. sel (snd (m w)) = sel w)"

text \<open>The shape \<open>{ data, error }\<close> or \<open>{ error }\<close> of what a wrapper returns.\<close>

definition shaped :: "val \<Rightarrow> bool" where
  "shaped v = ((\<exists>d e. v = data_error d e) \<or> (\<exists>e. v = error_only e))"

text \<open>
  A store operation sets \<open>loading\<close> before it calls the API; \<open>failed api w\<close>: the API
  call, made in world \<open>w\<close>, returned an object whose \<open>error\<close> is truthy.
\<close>

definition begin_loading :: "'s world \<Rightarrow> 's world" where
  "begin_loading w = w\<lparr>projectStore := (projectStore w)\<lparr>loading := True\<rparr>\<rparr>"

definition failed :: "('s, val) io \<Rightarrow> 's world \<Rightarrow> bool" where
  "failed api w = (case fst (api w) of Return r \<Rightarrow> truthy (opt_prop r ''error'') | Throw e \<Rightarrow> False)"

section \<open>Program order\<close>

text \<open>
  One ranking of the calls that agrees with the order in which every wrapper and store
  operation issues them: authentication first, the wait, \<open>auth.getUser\<close>, reads before
  the writes that depend on them, re-reads after writes, the activity log last.
\<close>

fun is_users_doc :: "val \<Rightarrow> bool" where
  "is_users_doc (Opaque t (Arr (Str c # rest))) = (t = ''doc'' \<and> c = ''users'')"
| "is_users_doc v = False"

fun rank :: "event \<Rightarrow> nat" where
  "rank (Generate p k) = 0"
| "rank (SbCall (AuthSignUp v)) = 0"
| "rank (SbCall (AuthSignInWithPassword v)) = 0"
| "rank (SbCall AuthSignOut) = 0"
| "rank (Delay ms) = 1"
| "rank (SbCall AuthGetUser) = 2"
| "rank (SbCall (From t q)) =
     (if t = ''team_members'' then (case q of Insert r # rest \<Rightarrow> 5 | _ \<Rightarrow> 3)
      else if t = ''project_invitations''
      then (case q of Insert r # rest \<Rightarrow> 5 | Update r # rest \<Rightarrow> 6 | _ \<Rightarrow> 4)
      else 4)"
| "rank (SbCall (Rpc f a)) = 9"
| "rank (SbCall AuthOnAuthStateChange) = 9"
| "rank (FbCall (CreateUserWithEmailAndPassword e p)) = 0"
| "rank (FbCall (SignInWithEmailAndPassword e p)) = 0"
| "rank (FbCall FirebaseSignOut) = 0"
| "rank (FbCall (GetDocs c cs)) = (if c = ''team_members'' then 1 else 2)"
| "rank (FbCall (AddDoc c d)) =
     (if c = ''activity_logs'' then 9 else if c = ''team_members'' then 4 else 3)"
| "rank (FbCall (SetDoc r d)) = 3"
| "rank (FbCall (DeleteDoc r)) = 3"
| "rank (FbCall (UpdateDoc r d)) = 5"
| "rank (FbCall (GetDoc r)) = (if is_users_doc r then 7 else 6)"

text \<open>
  \<open>emits P m\<close>: in every world \<open>m\<close> only appends to the trace, and what it appends
  satisfies \<open>P\<close>. \<open>within ds lo hi m\<close>: every event \<open>m\<close> issues has a rank from \<open>lo\<close> up
  to, not including, \<open>hi\<close>, the ranks increase strictly, so that no call is issued twice
  and the calls follow the order of the ranking, and \<open>m\<close> waits for no other time than
  those in \<open>ds\<close>.
\<close>

definition emits :: "(event list \<Rightarrow> bool) \<Rightarrow> ('s, 'a) io \<Rightarrow> bool" where
  "emits P m = (\<forall>w. \<exists>evs. trace (snd (m w)) = trace w @ evs \<and> P evs)"

fun ascending :: "nat \<Rightarrow> event list \<Rightarrow> bool" where
  "ascending lo [] = True"
| "ascending lo (e # es) = (lo \<le> rank e \<and> ascending (Suc (rank e)) es)"

definition delay_ok :: "nat list \<Rightarrow> event \<Rightarrow> bool" where
  "delay_ok ds e = (case e of Delay ms \<Rightarrow> ms \<in> set ds | _ \<Rightarrow> True)"

definition in_order :: "nat list \<Rightarrow> nat \<Rightarrow> nat \<Rightarrow> event list \<Rightarrow> bool" where
  "in_order ds lo hi evs =
     (ascending lo evs \<and> list_all (\<lambda>e. rank e < hi \<and> delay_ok ds e) evs)"

definition within :: "nat list \<Rightarrow> nat \<Rightarrow> nat \<Rightarrow> ('s, 'a) io \<Rightarrow> bool" where
  "within ds lo hi m = emits (in_order ds lo hi) m"

section \<open>Every operation\<close>

text \<open>
  The exported wrappers of both SDK modules and the operations of the two stores, each
  with its arguments; \<open>events env op w\<close> is what one invocation of \<open>op\<close> in world \<open>w\<close>
  adds to the trace.
\<close>

datatype supabase_op =
    Sb_signUp val val val
  | Sb_signIn val val
  | Sb_signOut
  | Sb_getCurrentUser
  | Sb_createProject val val
  | Sb_getUserProjects
  | Sb_createArticle val val val
  | Sb_getProjectArticles val
  | Sb_updateArticle val val
  | Sb_getUserProfile
  | Sb_updateUserProfile val
  | Sb_getProjectTeamMembers val
  | Sb_inviteTeamMember val val val
  | Sb_removeTeamMember val val
  | Sb_updateTeamMemberRole val val val
  | Sb_getProjectInvitations val
  | Sb_cancelInvitation val
  | Sb_acceptInvitation val
  | Sb_getArticleComments val
  | Sb_createComment val val val
  | Sb_updateComment val val
  | Sb_resolveComment val val
  | Sb_deleteComment val
  | Sb_getProjectActivity val val
  | Sb_getUserProjectRole val
  | Sb_canUserEditProject val
  | Sb_canUserManageTeam val
  | Sb_incrementUsageCount

datatype firebase_op =
    Fb_signUp val val val
  | Fb_signIn val val
  | Fb_signOut
  | Fb_createProject val val
  | Fb_getUserProjects
  | Fb_createArticle val val val
  | Fb_getProjectArticles val
  | Fb_updateArticle val val
  | Fb_getUserProfile
  | Fb_updateUserProfile val
  | Fb_getProjectTeamMembers val
  | Fb_inviteTeamMember val val val
  | Fb_removeTeamMember val val
  | Fb_updateTeamMemberRole val val val
  | Fb_getProjectInvitations val
  | Fb_cancelInvitation val
  | Fb_getArticleComments val
  | Fb_createComment val val val
  | Fb_updateComment val val
  | Fb_resolveComment val val
  | Fb_deleteComment val
  | Fb_getProjectActivity val val
  | Fb_getUserProjectRole val
  | Fb_canUserEditProject val
  | Fb_canUserManageTeam val
  | Fb_incrementUsageCount

datatype auth_op =
    Auth_signIn val val
  | Auth_signUp val val val
  | Auth_signOut
  | Auth_initialize
  | Auth_onAuthStateChange val val
  | Auth_refreshProfile
  | Auth_incrementUsage

datatype project_op =
    Proj_fetchProjects
  | Proj_createProject val val
  | Proj_setCurrentProject val
  | Proj_fetchArticles val

datatype operation =
    Supabase supabase_op
  | Firebase firebase_op
  | AuthStore auth_op
  | ProjectStore project_op

primrec supabase_events :: "'s env \<Rightarrow> supabase_op \<Rightarrow> 's world \<Rightarrow> event list" where
  "supabase_events env (Sb_signUp e p n) = issued (supabase_signUp env e p n)"
| "supabase_events env (Sb_signIn e p) = issued (supabase_signIn env e p)"
| "supabase_events env Sb_signOut = issued (supabase_signOut env)"
| "supabase_events env Sb_getCurrentUser = issued (supabase_getCurrentUser env)"
| "supabase_events env (Sb_createProject t d) = issued (supabase_createProject env t d)"
| "supabase_events env Sb_getUserProjects = issued (supabase_getUserProjects env)"
| "supabase_events env (Sb_createArticle p t c) = issued (supabase_createArticle env p t c)"
| "supabase_events env (Sb_getProjectArticles p) = issued (supabase_getProjectArticles env p)"
| "supabase_events env (Sb_updateArticle a u) = issued (supabase_updateArticle env a u)"
| "supabase_events env Sb_getUserProfile = issued (supabase_getUserProfile env)"
| "supabase_events env (Sb_updateUserProfile u) = issued (supabase_updateUserProfile env u)"
| "supabase_events env (Sb_getProjectTeamMembers p) = issued (supabase_getProjectTeamMembers env p)"
| "supabase_events env (Sb_inviteTeamMember p e r) = issued (supabase_inviteTeamMember env p e r)"
| "supabase_events env (Sb_removeTeamMember p u) = issued (supabase_removeTeamMember env p u)"
| "supabase_events env (Sb_updateTeamMemberRole p u r) = issued (supabase_updateTeamMemberRole env p u r)"
| "supabase_events env (Sb_getProjectInvitations p) = issued (supabase_getProjectInvitations env p)"
| "supabase_events env (Sb_cancelInvitation i) = issued (supabase_cancelInvitation env i)"
| "supabase_events env (Sb_acceptInvitation t) = issued (supabase_acceptInvitation env t)"
| "supabase_events env (Sb_getArticleComments a) = issued (supabase_getArticleComments env a)"
| "supabase_events env (Sb_createComment a c p) = issued (supabase_createComment env a c p)"
| "supabase_events env (Sb_updateComment c t) = issued (supabase_updateComment env c t)"
| "supabase_events env (Sb_resolveComment c r) = issued (supabase_resolveComment env c r)"
| "supabase_events env (Sb_deleteComment c) = issued (supabase_deleteComment env c)"
| "supabase_events env (Sb_getProjectActivity p l) = issued (supabase_getProjectActivity env p l)"
| "supabase_events env (Sb_getUserProjectRole p) = issued (supabase_getUserProjectRole env p)"
| "supabase_events env (Sb_canUserEditProject p) = issued (supabase_canUserEditProject env p)"
| "supabase_events env (Sb_canUserManageTeam p) = issued (supabase_canUserManageTeam env p)"
| "supabase_events env Sb_incrementUsageCount = issued (supabase_incrementUsageCount env)"

primrec firebase_events :: "'s env \<Rightarrow> firebase_op \<Rightarrow> 's world \<Rightarrow> event list" where
  "firebase_events env (Fb_signUp e p n) = issued (firebase_signUp env e p n)"
| "firebase_events env (Fb_signIn e p) = issued (firebase_signIn env e p)"
| "firebase_events env Fb_signOut = issued (firebase_signOut env)"
| "firebase_events env (Fb_createProject t d) = issued (firebase_createProject env t d)"
| "firebase_events env Fb_getUserProjects = issued (firebase_getUserProjects env)"
| "firebase_events env (Fb_createArticle p t c) = issued (firebase_createArticle env p t c)"
| "firebase_events env (Fb_getProjectArticles p) = issued (firebase_getProjectArticles env p)"
| "firebase_events env (Fb_updateArticle a u) = issued (firebase_updateArticle env a u)"
| "firebase_events env Fb_getUserProfile = issued (firebase_getUserProfile env)"
| "firebase_events env (Fb_updateUserProfile u) = issued (firebase_updateUserProfile env u)"
| "firebase_events env (Fb_getProjectTeamMembers p) = issued (firebase_getProjectTeamMembers env p)"
| "firebase_events env (Fb_inviteTeamMember p e r) = issued (firebase_inviteTeamMember env p e r)"
| "firebase_events env (Fb_removeTeamMember p u) = issued (firebase_removeTeamMember env p u)"
| "firebase_events env (Fb_updateTeamMemberRole p u r) = issued (firebase_updateTeamMemberRole env p u r)"
| "firebase_events env (Fb_getProjectInvitations p) = issued (firebase_getProjectInvitations env p)"
| "firebase_events env (Fb_cancelInvitation i) = issued (firebase_cancelInvitation env i)"
| "firebase_events env (Fb_getArticleComments a) = issued (firebase_getArticleComments env a)"
| "firebase_events env (Fb_createComment a c p) = issued (firebase_createComment env a c p)"
| "firebase_events env (Fb_updateComment c t) = issued (firebase_updateComment env c t)"
| "firebase_events env (Fb_resolveComment c r) = issued (firebase_resolveComment env c r)"
| "firebase_events env (Fb_deleteComment c) = issued (firebase_deleteComment env c)"
| "firebase_events env (Fb_getProjectActivity p l) = issued (firebase_getProjectActivity env p l)"
| "firebase_events env (Fb_getUserProjectRole p) = issued (firebase_getUserProjectRole env p)"
| "firebase_events env (Fb_canUserEditProject p) = issued (firebase_canUserEditProject env p)"
| "firebase_events env (Fb_canUserManageTeam p) = issued (firebase_canUserManageTeam env p)"
| "firebase_events env Fb_incrementUsageCount = issued (firebase_incrementUsageCount env)"

primrec auth_events :: "'s env \<Rightarrow> auth_op \<Rightarrow> 's world \<Rightarrow> event list" where
  "auth_events env (Auth_signIn e p) = issued (authStore_signIn env e p)"
| "auth_events env (Auth_signUp e p n) = issued (authStore_signUp env e p n)"
| "auth_events env Auth_signOut = issued (authStore_signOut env)"
| "auth_events env Auth_initialize = issued (authStore_initialize env)"
| "auth_events env (Auth_onAuthStateChange e s) = issued (authStore_onAuthStateChange env e s)"
| "auth_events env Auth_refreshProfile = issued (authStore_refreshProfile env)"
| "auth_events env Auth_incrementUsage = issued (authStore_incrementUsage env)"

primrec project_events :: "'s env \<Rightarrow> project_op \<Rightarrow> 's world \<Rightarrow> event list" where
  "project_events env Proj_fetchProjects = issued (projectStore_fetchProjects env)"
| "project_events env (Proj_createProject t d) = issued (projectStore_createProject env t d)"
| "project_events env (Proj_setCurrentProject p) = issued (projectStore_setCurrentProject p)"
| "project_events env (Proj_fetchArticles p) = issued (projectStore_fetchArticles env p)"

primrec events :: "'s env \<Rightarrow> operation \<Rightarrow> 's world \<Rightarrow> event list" where
  "events env (Supabase op) = supabase_events env op"
| "events env (Firebase op) = firebase_events env op"
| "events env (AuthStore op) = auth_events env op"
| "events env (ProjectStore op) = project_events env op"

text \<open>
  The three readers that fetch the author of every row they read, one \<open>getDoc\<close> on
  \<open>users\<close> per row; and the waits an operation may make.
\<close>

definition joins_users :: "operation \<Rightarrow> bool" where
  "joins_users op =
     (case op of
        Firebase (Fb_getProjectTeamMembers p) \<Rightarrow> True
      | Firebase (Fb_getArticleComments a) \<Rightarrow> True
      | Firebase (Fb_getProjectActivity p l) \<Rightarrow> True
      | _ \<Rightarrow> False)"

definition waits :: "operation \<Rightarrow> nat list" where
  "waits op =
     (case op of
        AuthStore (Auth_signIn e p) \<Rightarrow> [500]
      | AuthStore (Auth_signUp e p n) \<Rightarrow> [2000]
      | _ \<Rightarrow> [])"

text \<open>
  \<open>once_in_order ds evs\<close>: no event of \<open>evs\<close> occurs twice, the events follow the ranking,
  and every wait is one of \<open>ds\<close> (so at most one wait, the waits sharing one rank).
\<close>

definition once_in_order :: "nat list \<Rightarrow> event list \<Rightarrow> bool" where
  "once_in_order ds evs =
     (distinct evs \<and> sorted_wrt (\<lambda>a b. rank a < rank b) evs \<and> list_all (delay_ok ds) evs)"

text \<open>\<open>only A m\<close>: every event \<open>m\<close> issues satisfies \<open>A\<close>.\<close>

definition only :: "(event \<Rightarrow> bool) \<Rightarrow> ('s, 'a) io \<Rightarrow> bool" where
  "only A m = emits (list_all A) m"

text \<open>
  What a reader that joins \<open>users\<close> issues after its query: \<open>answered_docs r\<close> are the rows
  \<open>snapshot.docs\<close> of the answer \<open>r\<close> to the query (none when the query rejects or the answer
  holds no array of rows), and \<open>user_read d\<close> is the one \<open>getDoc\<close> on \<open>users\<close> that the
  callback of row \<open>d\<close> issues, for the \<open>user_id\<close> of that row (nothing when the row has no
  data to read it from).
\<close>

definition answered_docs :: "val res \<Rightarrow> val list" where
  "answered_docs r =
     (case r of
        Return qs \<Rightarrow>
          (case get_prop qs ''docs'' of Return (Arr ds) \<Rightarrow> ds | _ \<Rightarrow> [])
      | Throw e \<Rightarrow> [])"

definition user_read :: "val \<Rightarrow> event list" where
  "user_read rowDoc =
     (case get_prop rowDoc ''data'' of
        Return rowData \<Rightarrow>
          (case get_prop rowData ''user_id'' of
             Return uid \<Rightarrow> [FbCall (GetDoc (doc ''users'' uid))]
           | Throw e \<Rightarrow> [])
      | Throw e \<Rightarrow> [])"

subsection \<open>Statements about the generation handler\<close>

text \<open>The four guards of \<open>handleGenerateContent\<close> taken together, the prompt it passes to
  the generator, and a world that differs from another by one more notification.
  \<open>plain_counters w\<close>: the two counters of the loaded profile are numbers, booleans, \<open>null\<close>
  or absent, the values on which \<open>js_ge\<close> is the comparison \<open>>=\<close> of the source.\<close>

definition plain :: "val \<Rightarrow> bool" where
  "plain v = (case v of Num n \<Rightarrow> True | Null \<Rightarrow> True | Bool b \<Rightarrow> True | Undefined \<Rightarrow> True
              | _ \<Rightarrow> False)"

definition plain_counters :: "'s world \<Rightarrow> bool" where
  "plain_counters w =
     (plain (opt_prop (userProfile (authStore w)) ''usage_count'')
      \<and> plain (opt_prop (userProfile (authStore w)) ''usage_limit''))"

definition blocked :: "'s world \<Rightarrow> bool" where
  "blocked w =
     (trim (titleInput (editorUI w)) = []
      \<or> \<not> truthy (canEdit (editorUI w))
      \<or> \<not> truthy (userProfile (authStore w))
      \<or> js_ge (opt_prop (userProfile (authStore w)) ''usage_count'')
               (opt_prop (userProfile (authStore w)) ''usage_limit''))"

definition prompt :: "'s world \<Rightarrow> val" where
  "prompt w =
     Str (titleInput (editorUI w) @
          (if contentLength (editorUI w) = ''short'' then '' (400-600 words)''
           else if contentLength (editorUI w) = ''medium'' then '' (800-1200 words)''
           else '' (1500-2000 words)''))"

definition notified :: "val \<Rightarrow> string \<Rightarrow> 's world \<Rightarrow> 's world" where
  "notified msg kind w =
     w\<lparr>editorUI := (editorUI w)\<lparr>notifications := notifications (editorUI w) @ [(msg, kind)]\<rparr>\<rparr>"

subsection \<open>Statements about what the client writes itself\<close>












subsection \<open>Statements about invitations\<close>










section \<open>Concrete inputs\<close>

text \<open>
  An invitation flow on the platform with tables: \<open>invitee\<close> is signed in, one pending
  invitation addressed to her is stored, and the platform rejects updates.
\<close>

definition pending_invite :: val where
  "pending_invite =
     Obj [(''id'', Str ''i1''), (''project_id'', Str ''p1''), (''email'', Str ''new@example.org''),
          (''role'', Str ''editor''), (''invited_by'', Str ''u1''), (''token'', Str ''tok''),
          (''expires_at'', Opaque ''toISOString'' (Num 100)), (''accepted_at'', Null)]"

definition invitee :: val where
  "invitee = Obj [(''id'', Str ''u2''), (''email'', Str ''new@example.org'')]"

definition rejecting :: tables where
  "rejecting = \<lparr>session_user = invitee, team_members = [],
                 project_invitations = [pending_invite], reject_updates = True, time = 50\<rparr>"

definition joined :: val where
  "joined = Obj [(''user_id'', Str ''u2''), (''project_id'', Str ''p1''), (''role'', Str ''editor''),
                 (''invited_by'', Str ''u1''), (''status'', Str ''active'')]"

text \<open>
  The owner \<open>u1\<close> of project \<open>p1\<close> invites a new address: the scripted platform answers
  \<open>auth.getUser\<close> with the owner and the membership query with the owner's own row.
\<close>

definition owner_invites :: script where
  "owner_invites = idle\<lparr>sb_script :=
      [Return (Obj [(''user'', Obj [(''id'', Str ''u1''), (''email'', Str ''owner@example.org'')])],
               Null),
       Return (Obj [(''id'', Str ''m1'')], Null)]\<rparr>"

text \<open>A platform whose next Supabase call rejects, as a failed fetch does.\<close>

definition offline :: script where
  "offline = idle\<lparr>sb_script := [Throw (Error ''Failed to fetch'')]\<rparr>"

text \<open>
  A project store that already holds one project and one article; and a platform on which
  \<open>u1\<close> is signed in and the three writes of \<open>createProject\<close> succeed, the first one
  creating document \<open>p9\<close>.
\<close>

definition old_project :: val where
  "old_project = Obj [(''id'', Str ''p1''), (''title'', Str ''First'')]"

definition old_article :: val where
  "old_article = Obj [(''id'', Str ''a1''), (''project_id'', Str ''p1'')]"

definition stocked :: "'s \<Rightarrow> 's world" where
  "stocked s = (init_world s)\<lparr>projectStore :=
      \<lparr>projects = Arr [old_project], currentProject = old_project, articles = Arr [old_article],
       loading = False\<rparr>\<rparr>"

definition creating :: script where
  "creating = idle\<lparr>signedIn := Obj [(''uid'', Str ''u1'')],
                   fb_script := [Return (Obj [(''id'', Str ''p9'')]), Return Null, Return Null]\<rparr>"

definition new_project :: val where
  "new_project =
     Obj [(''id'', Str ''p9''), (''user_id'', Str ''u1''), (''owner_id'', Str ''u1''),
          (''title'', Str ''Second''), (''description'', Str []),
          (''created_at'', serverTimestamp), (''updated_at'', serverTimestamp)]"

text \<open>
  A sign-in that succeeds: the scripted platform answers \<open>signInWithPassword\<close> and
  \<open>auth.getUser\<close> with user \<open>u1\<close> and the \<open>users\<close> query with her profile.
\<close>

definition signing_in :: script where
  "signing_in = idle\<lparr>sb_script :=
      [Return (Obj [(''user'', Obj [(''id'', Str ''u1'')])], Null),
       Return (Obj [(''user'', Obj [(''id'', Str ''u1'')])], Null),
       Return (Arr [Obj [(''id'', Str ''u1''), (''usage_count'', Num 3)]], Null)]\<rparr>"

text \<open>
  A generation that succeeds: the profile of \<open>u1\<close> is loaded with 3 of 10 generations used,
  the title is not blank, the generator answers with content, \<open>auth.getUser\<close> answers with
  \<open>u1\<close>, and the platform stands ready to answer an update of \<open>users\<close> with the row counted
  up to 4.
\<close>

definition drafting :: script where
  "drafting = idle\<lparr>gen_script := [Return (Str ''<p>Hello</p>'')],
                    sb_script :=
                      [Return (Obj [(''user'', Obj [(''id'', Str ''u1'')])], Null),
                       Return (Obj [(''id'', Str ''u1''), (''usage_count'', Num 4),
                                    (''usage_limit'', Num 10)], Null)]\<rparr>"

definition writer :: "script world" where
  "writer = (init_world drafting)
     \<lparr>authStore := \<lparr>user = Obj [(''id'', Str ''u1'')],
                    userProfile = Obj [(''id'', Str ''u1''), (''usage_count'', Num 3),
                                       (''usage_limit'', Num 10)],
                    auth_loading = False, initialized = True\<rparr>,
      editorUI := \<lparr>titleInput = ''Hello'', canEdit = Bool True, contentLength = ''medium'',
                  isGenerating = False, editorContent = Some (Str []), notifications = []\<rparr>\<rparr>"

text \<open>
  An \<open>initialize\<close> with \<open>u1\<close> signed in: the platform answers \<open>auth.getUser\<close> twice, the
  \<open>users\<close> query with her profile, and the registration of the listener. And two comments
  on article \<open>a1\<close>, both written by \<open>u1\<close>, with her \<open>users\<close> document.
\<close>

definition starting_up :: script where
  "starting_up = idle\<lparr>sb_script :=
      [Return (Obj [(''user'', Obj [(''id'', Str ''u1'')])], Null),
       Return (Obj [(''user'', Obj [(''id'', Str ''u1'')])], Null),
       Return (Arr [Obj [(''id'', Str ''u1''), (''usage_count'', Num 3)]], Null),
       Return (Obj [(''subscription'', Obj [])], Null)]\<rparr>"

definition comment_doc :: "string \<Rightarrow> val" where
  "comment_doc ident =
     Obj [(''id'', Str ident),
          (''data'', Obj [(''article_id'', Str ''a1''), (''user_id'', Str ''u1''),
                          (''content'', Str ''Fine'')])]"

definition author_doc :: val where
  "author_doc =
     Obj [(''id'', Str ''u1''), (''exists'', Bool True),
          (''data'', Obj [(''email'', Str ''a@example.org''), (''full_name'', Str ''Ann'')])]"

definition two_comments :: script where
  "two_comments = idle\<lparr>fb_script :=
      [Return (Obj [(''docs'', Arr [comment_doc ''c1'', comment_doc ''c2''])]),
       Return author_doc, Return author_doc]\<rparr>"






section \<open>Properties of the router\<close>

text \<open>
  C7. The router is a total, deterministic function of the hash string: for every hash,
  the view set by \<open>handleHashChange\<close> is the one of the first matching prefix in the order
  \<open>#/dashboard\<close>, \<open>#/project/\<close>, \<open>#/brief-generator\<close>, \<open>#/team\<close>, \<open>#/settings\<close>,
  \<open>#/pricing\<close>, \<open>#/support\<close>, and \<open>landing\<close> when none matches; the empty hash gives
  \<open>landing\<close>.
\<close>

theorem handleHashChange_first_match:
  "handleHashChange hash = first_match route_table hash \<and> handleHashChange [] = Landing"
  by (simp add: handleHashChange_def startsWith_def route_table_def)

section \<open>Properties of the Supabase wrappers\<close>

lemmas io_defs = try_catch_def andThen_def sb_def fb_def get_def lift_def ret_def throw_def
  nowISO_def emit_def sleep_def

lemmas tbl_defs = table_env_def table_query_def rows_of_def put_rows_def answer_def single_def
  projection_def columns_def satisfies_def opt_prop_def js_or_def message_def

lemma get_prop_truthy: "truthy v \<Longrightarrow> get_prop v k = Return (opt_prop v k)"
  by (cases v) (simp_all add: opt_prop_def)

subsection \<open>The membership check of an invitation\<close>

text \<open>
  C9. In the Supabase \<open>inviteTeamMember(projectId, email, role)\<close> the check for an existing
  member asks for the \<open>team_members\<close> row of the calling user (\<open>user_id\<close> is the id of
  \<open>auth.getUser\<close>), not of the invited address: whenever that query returns a row, the
  function returns \<open>{ error: { message: 'User is already a team member' } }\<close> after these
  two calls, inserts no invitation, and neither the calls nor the result depend on
  \<open>email\<close> or \<open>role\<close>.
\<close>

theorem inviteTeamMember_checks_caller:
  assumes "supabase env AuthGetUser (backend w) = (Return (udata, uerr), s1)"
      and "get_prop udata ''user'' = Return usr"
      and "truthy usr"
      and "get_prop usr ''id'' = Return uid"
      and "supabase env (From ''team_members''
              [Select ''id'', Eq ''project_id'' projectId, Eq ''user_id'' uid, Single]) s1
           = (Return (existingMember, e1), s2)"
      and "truthy existingMember"
  shows "supabase_inviteTeamMember env projectId email role w =
           (Return (error_only (message ''User is already a team member'')),
            w\<lparr>backend := s2,
              trace := trace w @
                [SbCall AuthGetUser,
                 SbCall (From ''team_members''
                   [Select ''id'', Eq ''project_id'' projectId, Eq ''user_id'' uid, Single])]\<rparr>)"
  using assms
  by (simp add: supabase_inviteTeamMember_def supabase_getCurrentUser_def io_defs)

text \<open>
  The owner of \<open>p1\<close> invites \<open>new@example.org\<close>, who is no member: the invitation is
  refused because the owner is one.
\<close>

theorem inviteTeamMember_checks_caller_witness:
  "supabase_inviteTeamMember script_env (Str ''p1'') (Str ''new@example.org'') (Str ''editor'')
      (init_world owner_invites)
   = (Return (error_only (message ''User is already a team member'')),
      (init_world owner_invites)\<lparr>backend := idle,
        trace := [SbCall AuthGetUser,
                  SbCall (From ''team_members''
                    [Select ''id'', Eq ''project_id'' (Str ''p1''), Eq ''user_id'' (Str ''u1''),
                     Single])]\<rparr>)"
proof -
  let ?owner = "Obj [(''id'', Str ''u1''), (''email'', Str ''owner@example.org'')]"
  let ?s1 = "idle\<lparr>sb_script := [Return (Obj [(''id'', Str ''m1'')], Null)]\<rparr>"
  have 1: "supabase script_env AuthGetUser (backend (init_world owner_invites))
             = (Return (Obj [(''user'', ?owner)], Null), ?s1)"
    by (simp add: script_env_def init_world_def owner_invites_def idle_def)
  have 2: "get_prop (Obj [(''user'', ?owner)]) ''user'' = Return ?owner" by simp
  have 3: "truthy ?owner" by simp
  have 4: "get_prop ?owner ''id'' = Return (Str ''u1'')" by simp
  have 5: "supabase script_env (From ''team_members''
              [Select ''id'', Eq ''project_id'' (Str ''p1''), Eq ''user_id'' (Str ''u1''), Single]) ?s1
           = (Return (Obj [(''id'', Str ''m1'')], Null), idle)"
    by (simp add: script_env_def idle_def)
  have 6: "truthy (Obj [(''id'', Str ''m1'')])" by simp
  from inviteTeamMember_checks_caller[OF 1 2 3 4 5 6]
  show ?thesis by (simp add: init_world_def)
qed

subsection \<open>Accepting an invitation\<close>

text \<open>
  C4. \<open>acceptInvitation\<close> has no compensating transaction: in every run in which the
  insert into \<open>team_members\<close> succeeds and the update that marks the invitation accepted
  returns an error, the function returns \<open>{ error: updateError }\<close>, the failed update is
  the last call it issues (nothing deletes the inserted row), and the platform is left in
  the state after the insert and the failed update.
\<close>

theorem acceptInvitation_no_rollback:
  fixes env :: "'s env" and token :: val
  defines "lookup t \<equiv> From ''project_invitations''
              [Select ''*'', Eq ''token'' token, Is ''accepted_at'' Null,
               Gt ''expires_at'' (Opaque ''toISOString'' (Num t)), Single]"
      and "insertion usr iv \<equiv> From ''team_members''
              [Insert (Arr [Obj [(''user_id'', opt_prop usr ''id''),
                                 (''project_id'', opt_prop iv ''project_id''),
                                 (''role'', opt_prop iv ''role''),
                                 (''invited_by'', opt_prop iv ''invited_by''),
                                 (''status'', Str ''active'')]]),
               Select ''*'', Single]"
      and "marking t iv \<equiv> From ''project_invitations''
              [Update (Obj [(''accepted_at'', Opaque ''toISOString'' (Num t))]),
               Eq ''id'' (opt_prop iv ''id'')]"
  assumes "supabase env AuthGetUser (backend w) = (Return (udata, uerr), s1)"
      and "get_prop udata ''user'' = Return usr"
      and "truthy usr"
      and "supabase env (lookup (dateNow env s1)) s1 = (Return (invitation, inviteError), s2)"
      and "\<not> truthy inviteError"
      and "truthy invitation"
      and "opt_prop usr ''email'' = opt_prop invitation ''email''"
      and "supabase env (insertion usr invitation) s2 = (Return (teamMember, memberError), s3)"
      and "\<not> truthy memberError"
      and "supabase env (marking (dateNow env s3) invitation) s3
             = (Return (updated, updateError), s4)"
      and "truthy updateError"
  shows "supabase_acceptInvitation env token w =
           (Return (error_only updateError),
            w\<lparr>backend := s4,
              trace := trace w @
                [SbCall AuthGetUser, SbCall (lookup (dateNow env s1)),
                 SbCall (insertion usr invitation),
                 SbCall (marking (dateNow env s3) invitation)]\<rparr>)"
  using assms
  by (simp add: supabase_acceptInvitation_def supabase_getCurrentUser_def io_defs get_prop_truthy)

text \<open>
  On the platform with tables that rejects updates: the error of the update is returned,
  the new member's row is in \<open>team_members\<close>, and the invitation is still pending.
\<close>

theorem acceptInvitation_no_rollback_witness:
  "fst (supabase_acceptInvitation table_env (Str ''tok'') (init_world rejecting))
     = Return (error_only (message ''update rejected''))
   \<and> team_members (backend (snd (supabase_acceptInvitation table_env (Str ''tok'')
          (init_world rejecting)))) = [joined]
   \<and> project_invitations (backend (snd (supabase_acceptInvitation table_env (Str ''tok'')
          (init_world rejecting)))) = [pending_invite]"
proof -
  let ?s3 = "rejecting\<lparr>team_members := [joined]\<rparr>"
  have 1: "supabase table_env AuthGetUser (backend (init_world rejecting))
             = (Return (Obj [(''user'', invitee)], Null), rejecting)"
    by (simp add: table_env_def init_world_def rejecting_def)
  have 2: "get_prop (Obj [(''user'', invitee)]) ''user'' = Return invitee" by simp
  have 3: "truthy invitee" by (simp add: invitee_def)
  have 4: "supabase table_env (From ''project_invitations''
              [Select ''*'', Eq ''token'' (Str ''tok''), Is ''accepted_at'' Null,
               Gt ''expires_at'' (Opaque ''toISOString'' (Num (dateNow table_env rejecting))),
               Single])
             rejecting = (Return (pending_invite, Null), rejecting)"
    by (simp add: tbl_defs rejecting_def pending_invite_def)
  have 5: "\<not> truthy Null" by simp
  have 6: "truthy pending_invite" by (simp add: pending_invite_def)
  have 7: "opt_prop invitee ''email'' = opt_prop pending_invite ''email''"
    by (simp add: invitee_def pending_invite_def opt_prop_def)
  have 8: "supabase table_env (From ''team_members''
              [Insert (Arr [Obj [(''user_id'', opt_prop invitee ''id''),
                                 (''project_id'', opt_prop pending_invite ''project_id''),
                                 (''role'', opt_prop pending_invite ''role''),
                                 (''invited_by'', opt_prop pending_invite ''invited_by''),
                                 (''status'', Str ''active'')]]),
               Select ''*'', Single]) rejecting = (Return (joined, Null), ?s3)"
    by (simp add: tbl_defs rejecting_def pending_invite_def invitee_def joined_def)
  have 9: "supabase table_env (From ''project_invitations''
              [Update (Obj [(''accepted_at'',
                             Opaque ''toISOString'' (Num (dateNow table_env ?s3)))]),
               Eq ''id'' (opt_prop pending_invite ''id'')]) ?s3
            = (Return (Null, message ''update rejected''), ?s3)"
    by (simp add: tbl_defs rejecting_def)
  have 10: "truthy (message ''update rejected'')" by (simp add: message_def)
  from acceptInvitation_no_rollback[OF 1 2 3 4 5 6 7 8 5 9 10]
  show ?thesis by (simp add: rejecting_def)
qed

section \<open>What a wrapper returns\<close>

lemma yields_ret: "Q v \<Longrightarrow> yields Q (ret v)"
  by (simp add: yields_def ret_def)

lemma yields_throw: "yields Q (throw e)"
  by (simp add: yields_def throw_def)

lemma yields_andThen:
  assumes "\<And>x. yields Q (f x)"
  shows "yields Q (andThen m f)"
  unfolding yields_def
proof
  fix w
  obtain r w' where mw: "m w = (r, w')" by (cases "m w")
  show "case fst (andThen m f w) of Return v \<Rightarrow> Q v | Throw e \<Rightarrow> True"
  proof (cases r)
    case (Return a)
    with mw have "andThen m f w = f a w'" by (simp add: andThen_def)
    moreover from assms have "case fst (f a w') of Return v \<Rightarrow> Q v | Throw e \<Rightarrow> True"
      by (simp add: yields_def)
    ultimately show ?thesis by simp
  next
    case (Throw e)
    with mw show ?thesis by (simp add: andThen_def)
  qed
qed

lemma yields_try_catch:
  assumes "yields Q m" and "\<And>e. yields Q (h e)"
  shows "yields Q (try_catch m h)"
  unfolding yields_def
proof
  fix w
  obtain r w' where mw: "m w = (r, w')" by (cases "m w")
  show "case fst (try_catch m h w) of Return v \<Rightarrow> Q v | Throw e \<Rightarrow> True"
  proof (cases r)
    case (Return a)
    from assms(1) have "case fst (m w) of Return v \<Rightarrow> Q v | Throw e \<Rightarrow> True"
      by (simp add: yields_def)
    with mw Return show ?thesis by (simp add: try_catch_def)
  next
    case (Throw e)
    with mw have "try_catch m h w = h e w'" by (simp add: try_catch_def)
    moreover from assms(2) have "case fst (h e w') of Return v \<Rightarrow> Q v | Throw e \<Rightarrow> True"
      by (simp add: yields_def)
    ultimately show ?thesis by simp
  qed
qed

lemma always_try_catch:
  assumes "yields Q m" and "\<And>e. always Q (h e)"
  shows "always Q (try_catch m h)"
  unfolding always_def
proof
  fix w
  obtain r w' where mw: "m w = (r, w')" by (cases "m w")
  show "case fst (try_catch m h w) of Return v \<Rightarrow> Q v | Throw e \<Rightarrow> False"
  proof (cases r)
    case (Return a)
    from assms(1) have "case fst (m w) of Return v \<Rightarrow> Q v | Throw e \<Rightarrow> True"
      by (simp add: yields_def)
    with mw Return show ?thesis by (simp add: try_catch_def)
  next
    case (Throw e)
    with mw have "try_catch m h w = h e w'" by (simp add: try_catch_def)
    moreover from assms(2) have "case fst (h e w') of Return v \<Rightarrow> Q v | Throw e \<Rightarrow> False"
      by (simp add: always_def)
    ultimately show ?thesis by simp
  qed
qed

lemma always_andThen:
  assumes "always P m" and "\<And>x. always Q (f x)"
  shows "always Q (andThen m f)"
  unfolding always_def
proof
  fix w
  obtain r w' where mw: "m w = (r, w')" by (cases "m w")
  from assms(1) have "case fst (m w) of Return v \<Rightarrow> P v | Throw e \<Rightarrow> False"
    by (simp add: always_def)
  with mw obtain a where r: "r = Return a" by (cases r) simp_all
  with mw have "andThen m f w = f a w'" by (simp add: andThen_def)
  moreover from assms(2) have "case fst (f a w') of Return v \<Rightarrow> Q v | Throw e \<Rightarrow> False"
    by (simp add: always_def)
  ultimately show "case fst (andThen m f w) of Return v \<Rightarrow> Q v | Throw e \<Rightarrow> False" by simp
qed

lemma always_ret: "Q v \<Longrightarrow> always Q (ret v)"
  by (simp add: always_def ret_def)

lemma always_returns: "always Q m \<Longrightarrow> \<exists>v w'. m w = (Return v, w') \<and> Q v"
  unfolding always_def
  by (cases "m w") (metis (no_types, lifting) fst_conv res.exhaust res.simps(5) res.simps(6))

lemma yields_True: "yields (\<lambda>v. True) m"
  by (simp add: yields_def split: res.splits)

lemma yields_if: "yields Q a \<Longrightarrow> yields Q b \<Longrightarrow> yields Q (if c then a else b)"
  by simp

lemma yields_prod: "(\<And>a b. yields Q (f a b)) \<Longrightarrow> yields Q (case p of (a, b) \<Rightarrow> f a b)"
  by (cases p) simp

lemma shaped_data_error: "shaped (data_error d e)"
  by (auto simp: shaped_def)

lemma shaped_error_only: "shaped (error_only e)"
  by (auto simp: shaped_def)

lemmas returns_rules = yields_ret yields_throw yields_andThen yields_try_catch yields_if
  yields_prod always_try_catch always_ret shaped_data_error shaped_error_only TrueI

text \<open>
  Every Supabase wrapper that answers with \<open>{ data, error }\<close> wraps its body in
  \<open>try / catch\<close>: it returns in every world, with that shape.
\<close>

lemma supabase_wrappers_return:
  "always shaped (supabase_signUp env email password fullName)"
  "always shaped (supabase_signIn env email password)"
  "always shaped (supabase_createProject env ptitle description)"
  "always shaped (supabase_getUserProjects env)"
  "always shaped (supabase_createArticle env projectId ptitle content)"
  "always shaped (supabase_getProjectArticles env projectId)"
  "always shaped (supabase_updateArticle env articleId updates)"
  "always shaped (supabase_getUserProfile env)"
  "always shaped (supabase_updateUserProfile env updates)"
  "always shaped (supabase_getProjectTeamMembers env projectId)"
  "always shaped (supabase_inviteTeamMember env projectId email role)"
  "always shaped (supabase_removeTeamMember env projectId userId)"
  "always shaped (supabase_updateTeamMemberRole env projectId userId role)"
  "always shaped (supabase_getProjectInvitations env projectId)"
  "always shaped (supabase_cancelInvitation env invitationId)"
  "always shaped (supabase_acceptInvitation env token)"
  "always shaped (supabase_getArticleComments env articleId)"
  "always shaped (supabase_createComment env articleId content position)"
  "always shaped (supabase_updateComment env commentId content)"
  "always shaped (supabase_resolveComment env commentId resolved)"
  "always shaped (supabase_deleteComment env commentId)"
  "always shaped (supabase_getProjectActivity env projectId limit)"
  "always shaped (supabase_incrementUsageCount env)"
  unfolding supabase_signUp_def supabase_signIn_def supabase_createProject_def
    supabase_getUserProjects_def supabase_createArticle_def supabase_getProjectArticles_def
    supabase_updateArticle_def supabase_getUserProfile_def supabase_updateUserProfile_def
    supabase_getProjectTeamMembers_def supabase_inviteTeamMember_def
    supabase_removeTeamMember_def supabase_updateTeamMemberRole_def
    supabase_getProjectInvitations_def supabase_cancelInvitation_def
    supabase_acceptInvitation_def supabase_getArticleComments_def supabase_createComment_def
    supabase_updateComment_def supabase_resolveComment_def supabase_deleteComment_def
    supabase_getProjectActivity_def supabase_incrementUsageCount_def Let_def
  by (intro returns_rules)+

lemma firebase_wrappers_return:
  "always shaped (firebase_signUp env email password fullName)"
  "always shaped (firebase_signIn env email password)"
  "always shaped (firebase_signOut env)"
  "always shaped (firebase_createProject env ptitle description)"
  "always shaped (firebase_getUserProjects env)"
  "always shaped (firebase_createArticle env projectId ptitle content)"
  "always shaped (firebase_getProjectArticles env projectId)"
  "always shaped (firebase_updateArticle env articleId updates)"
  "always shaped (firebase_getUserProfile env)"
  "always shaped (firebase_updateUserProfile env updates)"
  "always shaped (firebase_getProjectTeamMembers env projectId)"
  "always shaped (firebase_inviteTeamMember env projectId email role)"
  "always shaped (firebase_removeTeamMember env projectId userId)"
  "always shaped (firebase_updateTeamMemberRole env projectId userId role)"
  "always shaped (firebase_getProjectInvitations env projectId)"
  "always shaped (firebase_cancelInvitation env invitationId)"
  "always shaped (firebase_getArticleComments env articleId)"
  "always shaped (firebase_createComment env articleId content position)"
  "always shaped (firebase_updateComment env commentId content)"
  "always shaped (firebase_resolveComment env commentId resolved)"
  "always shaped (firebase_deleteComment env commentId)"
  "always shaped (firebase_getProjectActivity env projectId limitCount)"
  "always shaped (firebase_incrementUsageCount env)"
  unfolding firebase_signUp_def firebase_signIn_def firebase_signOut_def
    firebase_createProject_def firebase_getUserProjects_def firebase_createArticle_def
    firebase_getProjectArticles_def firebase_updateArticle_def firebase_getUserProfile_def
    firebase_updateUserProfile_def firebase_getProjectTeamMembers_def
    firebase_inviteTeamMember_def firebase_removeTeamMember_def
    firebase_updateTeamMemberRole_def firebase_getProjectInvitations_def
    firebase_cancelInvitation_def firebase_getArticleComments_def firebase_createComment_def
    firebase_updateComment_def firebase_resolveComment_def firebase_deleteComment_def
    firebase_getProjectActivity_def firebase_incrementUsageCount_def Let_def
  by (intro returns_rules)+

text \<open>The role helpers answer with the role, \<open>null\<close> or a boolean; they return in every world too.\<close>

lemma role_helpers_return:
  "always (\<lambda>v. True) (supabase_getCurrentUser env)"
  "always (\<lambda>v. True) (supabase_getUserProjectRole env projectId)"
  "always (\<lambda>v. True) (supabase_canUserEditProject env projectId)"
  "always (\<lambda>v. True) (supabase_canUserManageTeam env projectId)"
  "always (\<lambda>v. True) (firebase_getUserProjectRole env projectId)"
  "always (\<lambda>v. True) (firebase_canUserEditProject env projectId)"
  "always (\<lambda>v. True) (firebase_canUserManageTeam env projectId)"
  unfolding supabase_getCurrentUser_def supabase_getUserProjectRole_def
    supabase_canUserEditProject_def supabase_canUserManageTeam_def
    firebase_getUserProjectRole_def firebase_canUserEditProject_def
    firebase_canUserManageTeam_def
  by (intro always_andThen[where P = "\<lambda>v. True"] always_try_catch always_ret yields_True TrueI)+

subsection \<open>The one wrapper without a handler\<close>

lemma supabase_signOut_rejects:
  assumes "supabase env AuthSignOut (backend w) = (Throw e, s1)"
  shows "supabase_signOut env w =
           (Throw e, w\<lparr>backend := s1, trace := trace w @ [SbCall AuthSignOut]\<rparr>)"
  using assms by (simp add: supabase_signOut_def io_defs)

text \<open>
  C3. Every exported wrapper is claimed to return \<open>{ data, error }\<close> or \<open>{ error }\<close> for
  every outcome of the SDK call, a rejection included. The Supabase \<open>signOut\<close> awaits
  \<open>supabase.auth.signOut()\<close> outside any \<open>try\<close>: when that call rejects, \<open>signOut\<close> rejects
  with the same exception instead of returning \<open>{ error }\<close>.
\<close>

theorem supabase_signOut_propagates:
  "fst (supabase_signOut script_env (init_world offline)) = Throw (Error ''Failed to fetch'')"
  by (simp add: supabase_signOut_def io_defs script_env_def init_world_def idle_def offline_def)

section \<open>Permission gating\<close>

lemma opt_prop_Obj: "opt_prop (Obj fs) k = (case map_of fs k of None \<Rightarrow> Undefined | Some v \<Rightarrow> v)"
  by (simp add: opt_prop_def)

lemma role_in_or_null:
  "[] \<notin> set roles \<Longrightarrow>
   truthy (role_in (js_or x Null) roles) \<longleftrightarrow> (\<exists>s. x = Str s \<and> s \<in> set roles)"
  by (cases x) (auto simp: role_in_def js_includes_def js_or_def)

lemma active_rows_le:
  assumes "one_membership tbl pid uid"
  shows "length (active_rows tbl pid uid) \<le> 1"
proof -
  let ?m = "filter (\<lambda>r. opt_prop r ''project_id'' = pid \<and> opt_prop r ''user_id'' = uid) tbl"
  have "active_rows tbl pid uid = filter (\<lambda>r. opt_prop r ''status'' = Str ''active'') ?m"
    by (simp add: active_rows_def)
  moreover have "length (filter (\<lambda>r. opt_prop r ''status'' = Str ''active'') ?m) \<le> length ?m"
    by (rule length_filter_le)
  ultimately have "length (active_rows tbl pid uid) \<le> length ?m" by (simp only:)
  with assms show ?thesis unfolding one_membership_def by linarith
qed

lemma has_role_active: "has_role tbl pid uid roles \<longleftrightarrow> (\<exists>r\<in>set (active_rows tbl pid uid). \<exists>s\<in>set roles. opt_prop r ''role'' = Str s)"
  by (auto simp: has_role_def active_rows_def list_ex_iff)

lemma answer_role: 
  "answer tbl [Select ''role'', Eq ''project_id'' pid, Eq ''user_id'' uid, Eq ''status'' (Str ''active''), Single]
   = single (map (\<lambda>r. Obj [(''role'', opt_prop r ''role'')]) (active_rows tbl pid uid))"
proof -
  have "projection ''role'' = (\<lambda>r. Obj [(''role'', opt_prop r ''role'')])"
    by (rule ext) (simp add: projection_def)
  then show ?thesis
    by (simp add: answer_def columns_def satisfies_def active_rows_def)
qed

lemma sb_role:
  assumes "supabase env AuthGetUser (backend w) = (Return (udata, uerr), s1)"
      and "get_prop udata ''user'' = Return usr"
      and "truthy usr \<Longrightarrow> supabase env (From ''team_members''
              [Select ''role'', Eq ''project_id'' pid, Eq ''user_id'' (opt_prop usr ''id''),
               Eq ''status'' (Str ''active''), Single]) s1
            = (Return (answer tbl
              [Select ''role'', Eq ''project_id'' pid, Eq ''user_id'' (opt_prop usr ''id''),
               Eq ''status'' (Str ''active''), Single]), s2)"
  shows "\<exists>w'. supabase_getUserProjectRole env pid w = 
     (Return (if truthy usr then (case active_rows tbl pid (opt_prop usr ''id'') of [r] \<Rightarrow> js_or (opt_prop r ''role'') Null | _ \<Rightarrow> Null) else Null), w')"
proof (cases "truthy usr")
  case False
  with assms(1,2) show ?thesis
    by (simp add: supabase_getUserProjectRole_def supabase_getCurrentUser_def io_defs)
next
  case True
  note q = assms(3)[OF True, unfolded answer_role]
  show ?thesis
  proof (cases "active_rows tbl pid (opt_prop usr ''id'')")
    case Nil
    with True assms(1,2) q show ?thesis
    by (simp add: supabase_getUserProjectRole_def supabase_getCurrentUser_def io_defs get_prop_truthy single_def message_def)
  next
    case (Cons r rs)
    with True assms(1,2) q show ?thesis
    by (cases rs) (simp_all add: supabase_getUserProjectRole_def supabase_getCurrentUser_def io_defs get_prop_truthy single_def message_def opt_prop_Obj)
  qed
qed

lemma gate_iff:
  assumes "length rows \<le> 1" and "[] \<notin> set roles"
  shows "truthy (role_in (case rows of [r] \<Rightarrow> js_or (opt_prop r ''role'') Null | _ \<Rightarrow> Null) roles)
     \<longleftrightarrow> (\<exists>r\<in>set rows. \<exists>s\<in>set roles. opt_prop r ''role'' = Str s)"
proof (cases rows)
  case Nil then show ?thesis by (simp add: role_in_def)
next
  case (Cons r rs)
  with assms have "rs = []" by simp
  with Cons assms(2) show ?thesis by (auto simp add: role_in_or_null)
qed



lemma role_in_truthy:
  "[] \<notin> set roles \<Longrightarrow> truthy (role_in x roles) \<longleftrightarrow> (\<exists>s. x = Str s \<and> s \<in> set roles)"
  by (cases x) (auto simp: role_in_def js_includes_def)

lemma fs_answer_role:
  "fs_answer ''team_members'' tbl
     [Where ''project_id'' ''=='' pid, Where ''user_id'' ''=='' uid,
      Where ''status'' ''=='' (Str ''active'')]
   = snapshot ''team_members'' (active_rows tbl pid uid)"
  by (simp add: fs_answer_def fs_satisfies_def active_rows_def)

lemma active_row_Obj: "r \<in> set (active_rows tbl pid uid) \<Longrightarrow> get_prop r k = Return (opt_prop r k)"
  by (cases r) (auto simp: active_rows_def opt_prop_def)

lemma fb_role:
  assumes "currentUser env (backend w) = usr"
      and "truthy usr \<Longrightarrow> firebase env (GetDocs ''team_members''
              [Where ''project_id'' ''=='' pid, Where ''user_id'' ''=='' (opt_prop usr ''uid''),
               Where ''status'' ''=='' (Str ''active'')]) (backend w)
            = (Return (fs_answer ''team_members'' tbl
              [Where ''project_id'' ''=='' pid, Where ''user_id'' ''=='' (opt_prop usr ''uid''),
               Where ''status'' ''=='' (Str ''active'')]), s2)"
  shows "\<exists>w'. firebase_getUserProjectRole env pid w =
     (Return (if truthy usr then (case active_rows tbl pid (opt_prop usr ''uid'') of
                                    [] \<Rightarrow> Null | r # rs \<Rightarrow> opt_prop r ''role'') else Null), w')"
proof (cases "truthy usr")
  case False
  with assms(1) show ?thesis
    by (simp add: firebase_getUserProjectRole_def firebase_getCurrentUser_def io_defs)
next
  case True
  note q = assms(2)[OF True, unfolded fs_answer_role]
  show ?thesis
  proof (cases "active_rows tbl pid (opt_prop usr ''uid'')")
    case Nil
    with True assms(1) q show ?thesis
      by (simp add: firebase_getUserProjectRole_def firebase_getCurrentUser_def io_defs
            get_prop_truthy snapshot_def)
  next
    case (Cons r rs)
    then have "get_prop r ''role'' = Return (opt_prop r ''role'')"
      by (intro active_row_Obj[of r tbl pid "opt_prop usr ''uid''"]) simp
    with Cons True assms(1) q show ?thesis
      by (simp add: firebase_getUserProjectRole_def firebase_getCurrentUser_def io_defs
            get_prop_truthy snapshot_def first_elem_def)
  qed
qed

lemma fb_gate_iff:
  assumes "length rows \<le> 1" and "[] \<notin> set roles"
  shows "truthy (role_in (case rows of [] \<Rightarrow> Null | r # rs \<Rightarrow> opt_prop r ''role'') roles)
     \<longleftrightarrow> (\<exists>r\<in>set rows. \<exists>s\<in>set roles. opt_prop r ''role'' = Str s)"
proof (cases rows)
  case Nil then show ?thesis by (simp add: role_in_def)
next
  case (Cons r rs)
  with assms have "rs = []" by simp
  with Cons assms(2) show ?thesis by (auto simp add: role_in_truthy)
qed


text \<open>
  C2. Permission gating is decided by the active team-member role. Let the platform
  answer the role query from the rows \<open>tbl\<close> of \<open>team_members\<close>, which hold at most one row
  for the user and the project (\<open>UNIQUE(user_id, project_id)\<close>). Then, for every project
  id and on either platform, \<open>canUserEditProject\<close> returns a truthy value if and only if
  there is a current user whose row for the project has status \<open>active\<close> and a role among
  \<open>owner\<close>, \<open>admin\<close>, \<open>editor\<close>, and \<open>canUserManageTeam\<close> if and only if that role is
  among \<open>owner\<close>, \<open>admin\<close>; so without a current user or without an active membership
  both return a falsy value.
\<close>

theorem permission_gating:
  fixes env :: "'s env" and pid :: val
  defines "role_query uid \<equiv>
             [Select ''role'', Eq ''project_id'' pid, Eq ''user_id'' uid,
              Eq ''status'' (Str ''active''), Single]"
      and "role_constraints uid \<equiv>
             [Where ''project_id'' ''=='' pid, Where ''user_id'' ''=='' uid,
              Where ''status'' ''=='' (Str ''active'')]"
  assumes "supabase env AuthGetUser (backend w) = (Return (udata, uerr), s1)"
      and "get_prop udata ''user'' = Return usr"
      and "truthy usr \<Longrightarrow>
             supabase env (From ''team_members'' (role_query (opt_prop usr ''id''))) s1
               = (Return (answer tbl (role_query (opt_prop usr ''id''))), s2)"
      and "one_membership tbl pid (opt_prop usr ''id'')"
      and "currentUser env (backend w) = fusr"
      and "truthy fusr \<Longrightarrow>
             firebase env (GetDocs ''team_members'' (role_constraints (opt_prop fusr ''uid'')))
               (backend w)
               = (Return (fs_answer ''team_members'' tbl
                            (role_constraints (opt_prop fusr ''uid''))), s3)"
      and "one_membership tbl pid (opt_prop fusr ''uid'')"
  shows "(\<exists>v w'. supabase_canUserEditProject env pid w = (Return v, w') \<and>
            (truthy v \<longleftrightarrow> truthy usr \<and>
               has_role tbl pid (opt_prop usr ''id'') [''owner'', ''admin'', ''editor'']))
       \<and> (\<exists>v w'. supabase_canUserManageTeam env pid w = (Return v, w') \<and>
            (truthy v \<longleftrightarrow> truthy usr \<and>
               has_role tbl pid (opt_prop usr ''id'') [''owner'', ''admin'']))
       \<and> (\<exists>v w'. firebase_canUserEditProject env pid w = (Return v, w') \<and>
            (truthy v \<longleftrightarrow> truthy fusr \<and>
               has_role tbl pid (opt_prop fusr ''uid'') [''owner'', ''admin'', ''editor'']))
       \<and> (\<exists>v w'. firebase_canUserManageTeam env pid w = (Return v, w') \<and>
            (truthy v \<longleftrightarrow> truthy fusr \<and>
               has_role tbl pid (opt_prop fusr ''uid'') [''owner'', ''admin'']))"
proof -
  have ne: "[] \<notin> set [''owner'', ''admin'', ''editor'']" "[] \<notin> set [''owner'', ''admin'']"
    by simp_all
  from sb_role[OF assms(3,4) assms(5)[unfolded role_query_def]] obtain w1 where
    sb: "supabase_getUserProjectRole env pid w =
          (Return (if truthy usr
                   then (case active_rows tbl pid (opt_prop usr ''id'') of
                           [r] \<Rightarrow> js_or (opt_prop r ''role'') Null | _ \<Rightarrow> Null)
                   else Null), w1)"
    by blast
  from fb_role[OF assms(7) assms(8)[unfolded role_constraints_def]] obtain w2 where
    fb: "firebase_getUserProjectRole env pid w =
          (Return (if truthy fusr
                   then (case active_rows tbl pid (opt_prop fusr ''uid'') of
                           [] \<Rightarrow> Null | r # rs \<Rightarrow> opt_prop r ''role'')
                   else Null), w2)"
    by blast
  note sg = gate_iff[OF active_rows_le[OF assms(6)]]
  note fg = fb_gate_iff[OF active_rows_le[OF assms(9)]]
  have 1: "\<exists>v w'. supabase_canUserEditProject env pid w = (Return v, w') \<and>
            (truthy v \<longleftrightarrow> truthy usr \<and>
               has_role tbl pid (opt_prop usr ''id'') [''owner'', ''admin'', ''editor''])"
    using sb sg[OF ne(1)]
    by (cases "truthy usr")
       (simp_all add: supabase_canUserEditProject_def andThen_def ret_def has_role_active
          role_in_def)
  have 2: "\<exists>v w'. supabase_canUserManageTeam env pid w = (Return v, w') \<and>
            (truthy v \<longleftrightarrow> truthy usr \<and>
               has_role tbl pid (opt_prop usr ''id'') [''owner'', ''admin''])"
    using sb sg[OF ne(2)]
    by (cases "truthy usr")
       (simp_all add: supabase_canUserManageTeam_def andThen_def ret_def has_role_active
          role_in_def)
  have 3: "\<exists>v w'. firebase_canUserEditProject env pid w = (Return v, w') \<and>
            (truthy v \<longleftrightarrow> truthy fusr \<and>
               has_role tbl pid (opt_prop fusr ''uid'') [''owner'', ''admin'', ''editor''])"
    using fb fg[OF ne(1)]
    by (cases "truthy fusr")
       (simp_all add: firebase_canUserEditProject_def andThen_def ret_def has_role_active
          role_in_def)
  have 4: "\<exists>v w'. firebase_canUserManageTeam env pid w = (Return v, w') \<and>
            (truthy v \<longleftrightarrow> truthy fusr \<and>
               has_role tbl pid (opt_prop fusr ''uid'') [''owner'', ''admin''])"
    using fb fg[OF ne(2)]
    by (cases "truthy fusr")
       (simp_all add: firebase_canUserManageTeam_def andThen_def ret_def has_role_active
          role_in_def)
  from 1 2 3 4 show ?thesis by blast
qed

text \<open>
  On the team above, the editor \<open>u2\<close> may edit \<open>p1\<close> and may not manage its team, on
  both platforms.
\<close>

theorem permission_gating_witness:
  "(\<exists>v. fst (supabase_canUserEditProject table_env (Str ''p1'') (init_world team)) = Return v
         \<and> truthy v)
   \<and> (\<exists>v. fst (supabase_canUserManageTeam table_env (Str ''p1'') (init_world team)) = Return v
         \<and> \<not> truthy v)
   \<and> (\<exists>v. fst (firebase_canUserEditProject table_env (Str ''p1'') (init_world team)) = Return v
         \<and> truthy v)
   \<and> (\<exists>v. fst (firebase_canUserManageTeam table_env (Str ''p1'') (init_world team)) = Return v
         \<and> \<not> truthy v)"
proof -
  let ?u = "session_user team"
  let ?q = "[Select ''role'', Eq ''project_id'' (Str ''p1''), Eq ''user_id'' (opt_prop ?u ''id''),
              Eq ''status'' (Str ''active''), Single]"
  let ?c = "[Where ''project_id'' ''=='' (Str ''p1''), Where ''user_id'' ''=='' (opt_prop ?u ''uid''),
              Where ''status'' ''=='' (Str ''active'')]"
  have 1: "supabase table_env AuthGetUser (backend (init_world team))
             = (Return (Obj [(''user'', ?u)], Null), team)"
    by (simp add: table_env_def init_world_def)
  have 2: "get_prop (Obj [(''user'', ?u)]) ''user'' = Return ?u" by simp
  have 3: "truthy ?u \<Longrightarrow> supabase table_env (From ''team_members'' ?q) team
             = (Return (answer (team_members team) ?q), team)"
    by (simp add: table_env_def table_query_def rows_of_def)
  have 4: "one_membership (team_members team) (Str ''p1'') (opt_prop ?u ''id'')"
    by (simp add: one_membership_def team_def opt_prop_def)
  have 5: "currentUser table_env (backend (init_world team)) = ?u"
    by (simp add: table_env_def init_world_def)
  have 6: "truthy ?u \<Longrightarrow> firebase table_env (GetDocs ''team_members'' ?c)
               (backend (init_world team))
             = (Return (fs_answer ''team_members'' (team_members team) ?c), team)"
    by (simp add: table_env_def init_world_def rows_of_def)
  have 7: "one_membership (team_members team) (Str ''p1'') (opt_prop ?u ''uid'')"
    by (simp add: one_membership_def team_def opt_prop_def)
  have u: "truthy ?u" by (simp add: team_def)
  have e: "has_role (team_members team) (Str ''p1'') (opt_prop ?u ''id'') [''owner'', ''admin'', ''editor'']"
          "has_role (team_members team) (Str ''p1'') (opt_prop ?u ''uid'') [''owner'', ''admin'', ''editor'']"
    by (simp_all add: has_role_def team_def opt_prop_def)
  have m: "\<not> has_role (team_members team) (Str ''p1'') (opt_prop ?u ''id'') [''owner'', ''admin'']"
          "\<not> has_role (team_members team) (Str ''p1'') (opt_prop ?u ''uid'') [''owner'', ''admin'']"
    by (simp_all add: has_role_def team_def opt_prop_def)
  from permission_gating[OF 1 2 3 4 5 6 7] u e m
  show ?thesis by (simp only: simp_thms fst_conv) (metis fst_conv)
qed

section \<open>The project store\<close>

text \<open>What the wrappers leave alone: rules for \<open>keeps\<close>, one per construct.\<close>

lemma keeps_ret: "keeps sel (ret v)" by (simp add: keeps_def ret_def)
lemma keeps_throw: "keeps sel (throw e)" by (simp add: keeps_def throw_def)
lemma keeps_get: "keeps sel (get v k)" by (simp add: keeps_def get_def lift_def)

lemma keeps_andThen:
  assumes "keeps sel m" and "\<And>x. keeps sel (f x)"
  shows "keeps sel (andThen m f)"
  unfolding keeps_def
proof
  fix w
  obtain r w' where mw: "m w = (r, w')" by (cases "m w")
  from assms(1) have "sel (snd (m w)) = sel w" by (simp add: keeps_def)
  with mw have k: "sel w' = sel w" by simp
  show "sel (snd (andThen m f w)) = sel w"
  proof (cases r)
    case (Return a)
    with mw have "andThen m f w = f a w'" by (simp add: andThen_def)
    moreover from assms(2) have "sel (snd (f a w')) = sel w'" by (simp add: keeps_def)
    ultimately show ?thesis using k by simp
  next
    case (Throw e)
    with mw k show ?thesis by (simp add: andThen_def)
  qed
qed

lemma keeps_try_catch:
  assumes "keeps sel m" and "\<And>e. keeps sel (h e)"
  shows "keeps sel (try_catch m h)"
  unfolding keeps_def
proof
  fix w
  obtain r w' where mw: "m w = (r, w')" by (cases "m w")
  from assms(1) have "sel (snd (m w)) = sel w" by (simp add: keeps_def)
  with mw have k: "sel w' = sel w" by simp
  show "sel (snd (try_catch m h w)) = sel w"
  proof (cases r)
    case (Return a)
    with mw k show ?thesis by (simp add: try_catch_def)
  next
    case (Throw e)
    with mw have "try_catch m h w = h e w'" by (simp add: try_catch_def)
    moreover from assms(2) have "sel (snd (h e w')) = sel w'" by (simp add: keeps_def)
    ultimately show ?thesis using k by simp
  qed
qed

lemma keeps_if: "keeps sel a \<Longrightarrow> keeps sel b \<Longrightarrow> keeps sel (if c then a else b)"
  by simp

lemma keeps_prod: "(\<And>a b. keeps sel (f a b)) \<Longrightarrow> keeps sel (case p of (a, b) \<Rightarrow> f a b)"
  by (cases p) simp

lemma keeps_map_all:
  assumes "\<And>x. keeps sel (f x)"
  shows "keeps sel (map_all f xs)"
  unfolding keeps_def
proof (induction xs)
  case Nil
  show ?case by simp
next
  case (Cons x xs)
  show ?case
  proof
    fix w
    obtain r w' where fw: "f x w = (r, w')" by (cases "f x w")
    obtain rs w'' where mw: "map_all f xs w' = (rs, w'')" by (cases "map_all f xs w'")
    from assms[of x] have "sel (snd (f x w)) = sel w" by (simp add: keeps_def)
    with fw have "sel w' = sel w" by simp
    moreover from Cons have "sel (snd (map_all f xs w')) = sel w'" by simp
    with mw have "sel w'' = sel w'" by simp
    ultimately show "sel (snd (map_all f (x # xs) w)) = sel w"
      using fw mw by simp
  qed
qed

lemma keeps_fb_projectStore: "keeps projectStore (fb env c)"
  by (simp add: keeps_def fb_def split: prod.splits)
lemma keeps_sb_projectStore: "keeps projectStore (sb env c)"
  by (simp add: keeps_def sb_def split: prod.splits)
lemma keeps_cur_projectStore: "keeps sel (firebase_getCurrentUser env)"
  by (simp add: keeps_def firebase_getCurrentUser_def)
lemma keeps_as_array: "keeps sel (as_array v)"
  by (cases v) (simp_all add: as_array_def keeps_ret keeps_throw)
lemma keeps_toDate: "keeps sel (toDate v)"
  by (cases v) (simp_all add: toDate_def keeps_ret keeps_throw)
lemma keeps_supabase_sql: "keeps sel (supabase_sql template)"
  by (simp add: supabase_sql_def keeps_throw)
lemma keeps_draw_projectStore: "keeps projectStore (draw36 env)"
  by (simp add: keeps_def draw36_def split: prod.splits)
lemma keeps_dateNowPlus: "keeps sel (dateNowPlus env ms)"
  by (simp add: keeps_def dateNowPlus_def)

lemmas keeps_rules = keeps_ret keeps_throw keeps_get keeps_andThen keeps_try_catch keeps_if
  keeps_prod keeps_map_all keeps_fb_projectStore keeps_sb_projectStore keeps_cur_projectStore keeps_as_array
  keeps_toDate keeps_supabase_sql

lemma keeps_logActivity: "keeps projectStore (logActivity env p a r i m)"
  unfolding logActivity_def Let_def by (intro keeps_rules)

lemma keeps_with_dates: "keeps projectStore (with_dates ks d)"
  unfolding with_dates_def by (intro keeps_rules)

lemma keeps_firebase:
  "keeps projectStore (firebase_getUserProjects env)"
  "keeps projectStore (firebase_createProject env t d)"
  "keeps projectStore (firebase_getProjectArticles env p)"
  unfolding firebase_getUserProjects_def firebase_createProject_def firebase_getProjectArticles_def Let_def
  by (intro keeps_rules keeps_logActivity keeps_with_dates)+


lemma shaped_get:
  assumes "shaped r"
  shows "get_prop r k = Return (opt_prop r k)"
  using assms by (auto simp: shaped_def data_error_def error_only_def opt_prop_def)

lemma api_result:
  assumes "always shaped api" and "keeps projectStore api"
  obtains r w1 where "api w = (Return r, w1)" and "shaped r" and "projectStore w1 = projectStore w"
proof -
  from always_returns[OF assms(1), of w] obtain r w1 where a: "api w = (Return r, w1)" "shaped r"
    by blast
  from assms(2) have "projectStore (snd (api w)) = projectStore w" by (simp add: keeps_def)
  with a have "projectStore w1 = projectStore w" by simp
  with a that show thesis by blast
qed

lemma fetchProjects_run:
  assumes "firebase_getUserProjects env (begin_loading w) = (Return r, w1)" and "shaped r"
  shows "projectStore_fetchProjects env w =
           (Return (), w1\<lparr>projectStore := (projectStore w1)
              \<lparr>projects := (if \<not> truthy (opt_prop r ''error'') \<and> truthy (opt_prop r ''data'')
                            then opt_prop r ''data'' else projects (projectStore w1)),
               loading := False\<rparr>\<rparr>)"
  using assms(1) shaped_get[OF assms(2)]
  by (simp add: projectStore_fetchProjects_def set_project_def andThen_def get_def lift_def
        ret_def begin_loading_def)

lemma fetchArticles_run:
  assumes "firebase_getProjectArticles env projectId (begin_loading w) = (Return r, w1)" and "shaped r"
  shows "projectStore_fetchArticles env projectId w =
           (Return (), w1\<lparr>projectStore := (projectStore w1)
              \<lparr>articles := (if \<not> truthy (opt_prop r ''error'') \<and> truthy (opt_prop r ''data'')
                            then opt_prop r ''data'' else articles (projectStore w1)),
               loading := False\<rparr>\<rparr>)"
  using assms(1) shaped_get[OF assms(2)]
  by (simp add: projectStore_fetchArticles_def set_project_def andThen_def get_def lift_def
        ret_def begin_loading_def)

lemma createProject_run:
  assumes "firebase_createProject env ptitle description (begin_loading w) = (Return r, w1)"
      and "shaped r"
  shows "projectStore_createProject env ptitle description w =
           (if \<not> truthy (opt_prop r ''error'') \<and> truthy (opt_prop r ''data'')
            then (case cons_spread (opt_prop r ''data'') (projects (projectStore w1)) w1 of
                    (Return ps, w2) \<Rightarrow>
                      (Return (error_only (opt_prop r ''error'')),
                       w2\<lparr>projectStore := (projectStore w2)\<lparr>projects := ps, loading := False\<rparr>\<rparr>)
                  | (Throw e, w2) \<Rightarrow> (Throw e, w2))
            else (Return (error_only (opt_prop r ''error'')),
                  w1\<lparr>projectStore := (projectStore w1)\<lparr>loading := False\<rparr>\<rparr>))"
  using assms(1) shaped_get[OF assms(2)]
  by (simp add: projectStore_createProject_def set_project_def andThen_def get_def lift_def
        ret_def begin_loading_def split: prod.splits res.splits)

text \<open>
  C10. The project store is atomic on error and always releases its loading flag.
  \<open>fetchProjects\<close> and \<open>fetchArticles\<close> complete in every world, with \<open>loading\<close> false, and
  if the API call returned an error \<open>projects\<close> and \<open>articles\<close> are as before the call.
  Every completed \<open>createProject\<close> leaves \<open>loading\<close> false and \<open>articles\<close> unchanged; if
  the API call returned an error it completes with \<open>projects\<close> unchanged, and if the API
  call succeeded with a project, it completes with that project put before the projects
  the list held, in their order.
\<close>

theorem projectStore_atomic_on_error:
  fixes env :: "'s env"
  shows "(\<exists>w'. projectStore_fetchProjects env w = (Return (), w')
            \<and> \<not> loading (projectStore w')
            \<and> articles (projectStore w') = articles (projectStore w)
            \<and> (failed (firebase_getUserProjects env) (begin_loading w) \<longrightarrow>
                 projects (projectStore w') = projects (projectStore w)))
       \<and> (\<exists>w'. projectStore_fetchArticles env projectId w = (Return (), w')
            \<and> \<not> loading (projectStore w')
            \<and> projects (projectStore w') = projects (projectStore w)
            \<and> (failed (firebase_getProjectArticles env projectId) (begin_loading w) \<longrightarrow>
                 articles (projectStore w') = articles (projectStore w)))
       \<and> (case projectStore_createProject env ptitle description w of
             (Return v, w') \<Rightarrow> \<not> loading (projectStore w')
                \<and> articles (projectStore w') = articles (projectStore w)
           | (Throw e, w') \<Rightarrow> True)
       \<and> (failed (firebase_createProject env ptitle description) (begin_loading w) \<longrightarrow>
            (\<exists>v w'. projectStore_createProject env ptitle description w = (Return v, w')
               \<and> projects (projectStore w') = projects (projectStore w)))
       \<and> (\<forall>r w1 ps.
            firebase_createProject env ptitle description (begin_loading w) = (Return r, w1)
              \<and> \<not> truthy (opt_prop r ''error'') \<and> truthy (opt_prop r ''data'')
              \<and> projects (projectStore w) = Arr ps \<longrightarrow>
            (\<exists>v w'. projectStore_createProject env ptitle description w = (Return v, w')
               \<and> projects (projectStore w') = Arr (opt_prop r ''data'' # ps)))"
proof -
  have b: "projects (projectStore (begin_loading w)) = projects (projectStore w)"
          "articles (projectStore (begin_loading w)) = articles (projectStore w)"
    by (simp_all add: begin_loading_def)
  have 1: "\<exists>w'. projectStore_fetchProjects env w = (Return (), w')
            \<and> \<not> loading (projectStore w')
            \<and> articles (projectStore w') = articles (projectStore w)
            \<and> (failed (firebase_getUserProjects env) (begin_loading w) \<longrightarrow>
                 projects (projectStore w') = projects (projectStore w))"
  proof -
    from api_result[OF firebase_wrappers_return(5) keeps_firebase(1)]
    obtain r w1 where a: "firebase_getUserProjects env (begin_loading w) = (Return r, w1)"
      "shaped r" "projectStore w1 = projectStore (begin_loading w)" by blast
    from fetchProjects_run[OF a(1,2)] a b show ?thesis by (simp add: failed_def)
  qed
  have 2: "\<exists>w'. projectStore_fetchArticles env projectId w = (Return (), w')
            \<and> \<not> loading (projectStore w')
            \<and> projects (projectStore w') = projects (projectStore w)
            \<and> (failed (firebase_getProjectArticles env projectId) (begin_loading w) \<longrightarrow>
                 articles (projectStore w') = articles (projectStore w))"
  proof -
    from api_result[OF firebase_wrappers_return(7) keeps_firebase(3)]
    obtain r w1 where a: "firebase_getProjectArticles env projectId (begin_loading w) = (Return r, w1)"
      "shaped r" "projectStore w1 = projectStore (begin_loading w)" by blast
    from fetchArticles_run[OF a(1,2)] a b show ?thesis by (simp add: failed_def)
  qed
  from api_result[OF firebase_wrappers_return(4) keeps_firebase(2)]
  obtain r w1 where a: "firebase_createProject env ptitle description (begin_loading w) = (Return r, w1)"
    "shaped r" "projectStore w1 = projectStore (begin_loading w)" by blast
  note run = createProject_run[OF a(1,2)]
  have cs: "\<And>x xs ps w2. cons_spread x xs w1 = (Return ps, w2) \<Longrightarrow> w2 = w1"
    by (auto simp: cons_spread_def ret_def throw_def split: val.splits)
  have 3: "case projectStore_createProject env ptitle description w of
             (Return v, w') \<Rightarrow> \<not> loading (projectStore w')
                \<and> articles (projectStore w') = articles (projectStore w)
           | (Throw e, w') \<Rightarrow> True"
    using run a(3) b by (auto split: prod.splits res.splits dest!: cs)
  have 4: "failed (firebase_createProject env ptitle description) (begin_loading w) \<longrightarrow>
            (\<exists>v w'. projectStore_createProject env ptitle description w = (Return v, w')
               \<and> projects (projectStore w') = projects (projectStore w))"
    using run a b by (simp add: failed_def)
  have 5: "\<forall>r w1 ps.
            firebase_createProject env ptitle description (begin_loading w) = (Return r, w1)
              \<and> \<not> truthy (opt_prop r ''error'') \<and> truthy (opt_prop r ''data'')
              \<and> projects (projectStore w) = Arr ps \<longrightarrow>
            (\<exists>v w'. projectStore_createProject env ptitle description w = (Return v, w')
               \<and> projects (projectStore w') = Arr (opt_prop r ''data'' # ps))"
    using run a b by (auto simp: cons_spread_def ret_def)
  from 1 2 3 4 5 show ?thesis by blast
qed

text \<open>
  A store with one project: a fetch while nobody is signed in fails and leaves the list
  and the flag as they were; creating \<open>Second\<close> puts the new project first.
\<close>

theorem projectStore_atomic_on_error_witness:
  "projects (projectStore (snd (projectStore_fetchProjects script_env (stocked idle))))
     = Arr [old_project]
   \<and> \<not> loading (projectStore (snd (projectStore_fetchProjects script_env (stocked idle))))
   \<and> projects (projectStore (snd (projectStore_createProject script_env (Str ''Second'')
          Undefined (stocked creating))))
     = Arr [new_project, old_project]"
proof -
  have f: "failed (firebase_getUserProjects script_env) (begin_loading (stocked idle))"
    by (simp add: failed_def firebase_getUserProjects_def firebase_getCurrentUser_def io_defs
          script_env_def begin_loading_def stocked_def init_world_def idle_def data_error_def
          opt_prop_def)
  from projectStore_atomic_on_error[of script_env "stocked idle"] f
  obtain w' where 1: "projectStore_fetchProjects script_env (stocked idle) = (Return (), w')"
    "\<not> loading (projectStore w')"
    "projects (projectStore w') = projects (projectStore (stocked idle))"
    by blast
  have c: "firebase_createProject script_env (Str ''Second'') Undefined
             (begin_loading (stocked creating))
           = (Return (data_error new_project Null),
              (begin_loading (stocked creating))\<lparr>backend := creating\<lparr>fb_script := []\<rparr>,
                 trace := trace (begin_loading (stocked creating)) @
                   issued (firebase_createProject script_env (Str ''Second'') Undefined)
                     (begin_loading (stocked creating))\<rparr>)"
    by (simp add: firebase_createProject_def firebase_getCurrentUser_def logActivity_def io_defs
          script_env_def begin_loading_def stocked_def init_world_def idle_def creating_def
          new_project_def spread_def default_to_def js_or_def issued_def Let_def)
  have d: "\<not> truthy (opt_prop (data_error new_project Null) ''error'')"
          "truthy (opt_prop (data_error new_project Null) ''data'')"
          "opt_prop (data_error new_project Null) ''data'' = new_project"
          "projects (projectStore (stocked creating)) = Arr [old_project]"
    by (simp_all add: data_error_def opt_prop_def new_project_def stocked_def)
  from projectStore_atomic_on_error[of script_env "stocked creating" _ "Str ''Second''" Undefined]
    c d
  obtain v w'' where 2: "projectStore_createProject script_env (Str ''Second'') Undefined
                           (stocked creating) = (Return v, w'')"
    "projects (projectStore w'') = Arr [new_project, old_project]"
    by (metis (no_types, lifting))
  from 1 2 show ?thesis by (simp add: stocked_def)
qed

section \<open>The order of the calls\<close>

text \<open>Rules for \<open>emits\<close> and \<open>within\<close>, one per construct, then one fact per operation.\<close>

lemma ascending_mono: "ascending lo' es \<Longrightarrow> lo \<le> lo' \<Longrightarrow> ascending lo es"
  by (cases es) auto

lemma ascending_append:
  "ascending lo a \<Longrightarrow> list_all (\<lambda>e. rank e < mid) a \<Longrightarrow> ascending mid b \<Longrightarrow> lo \<le> mid
     \<Longrightarrow> ascending lo (a @ b)"
proof (induction a arbitrary: lo)
  case Nil
  then show ?case by (simp add: ascending_mono)
next
  case (Cons e es)
  then show ?case by simp
qed

lemma in_order_Nil: "in_order ds lo hi []"
  by (simp add: in_order_def)

lemma delay_ok_mono: "delay_ok ds e \<Longrightarrow> set ds \<subseteq> set ds' \<Longrightarrow> delay_ok ds' e"
  by (cases e) (auto simp: delay_ok_def)

lemma in_order_weaken:
  assumes "in_order ds' lo' hi' a" and "lo \<le> lo'" and "hi' \<le> hi" and "set ds' \<subseteq> set ds"
  shows "in_order ds lo hi a"
  using assms by (auto simp add: in_order_def list_all_iff intro: ascending_mono delay_ok_mono)

lemma in_order_append:
  assumes "in_order ds lo mid a" and "in_order ds mid hi b" and "lo \<le> mid" and "mid \<le> hi"
  shows "in_order ds lo hi (a @ b)"
proof -
  from assms(1) have a: "ascending lo a" "list_all (\<lambda>e. rank e < mid \<and> delay_ok ds e) a"
    by (simp_all add: in_order_def)
  from a(2) have am: "list_all (\<lambda>e. rank e < mid) a" by (simp add: list_all_iff)
  from a(2) assms(4) have ah: "list_all (\<lambda>e. rank e < hi \<and> delay_ok ds e) a"
    by (auto simp add: list_all_iff)
  from assms(2) have b: "ascending mid b" "list_all (\<lambda>e. rank e < hi \<and> delay_ok ds e) b"
    by (simp_all add: in_order_def)
  from ascending_append[OF a(1) am b(1) assms(3)] ah b(2) show ?thesis
    by (simp add: in_order_def)
qed

lemma emits_andThen:
  assumes "emits P m" and "\<And>x. emits Q (f x)"
      and "\<And>a b. P a \<Longrightarrow> Q b \<Longrightarrow> R (a @ b)" and "\<And>a. P a \<Longrightarrow> R a"
  shows "emits R (andThen m f)"
  unfolding emits_def
proof
  fix w
  obtain r w' where mw: "m w = (r, w')" by (cases "m w")
  from assms(1) obtain a where "trace (snd (m w)) = trace w @ a" and pa: "P a"
    unfolding emits_def by blast
  with mw have a: "trace w' = trace w @ a" by simp
  show "\<exists>evs. trace (snd (andThen m f w)) = trace w @ evs \<and> R evs"
  proof (cases r)
    case (Return x)
    with mw have 1: "andThen m f w = f x w'" by (simp add: andThen_def)
    from assms(2)[of x] obtain b where "trace (snd (f x w')) = trace w' @ b" and qb: "Q b"
      unfolding emits_def by blast
    with 1 a have "trace (snd (andThen m f w)) = trace w @ (a @ b)" by simp
    with assms(3)[OF pa qb] show ?thesis by blast
  next
    case (Throw e)
    with mw a have "trace (snd (andThen m f w)) = trace w @ a" by (simp add: andThen_def)
    with assms(4)[OF pa] show ?thesis by blast
  qed
qed

lemma emits_try_catch:
  assumes "emits P m" and "\<And>e. emits Q (h e)"
      and "\<And>a b. P a \<Longrightarrow> Q b \<Longrightarrow> R (a @ b)" and "\<And>a. P a \<Longrightarrow> R a"
  shows "emits R (try_catch m h)"
  unfolding emits_def
proof
  fix w
  obtain r w' where mw: "m w = (r, w')" by (cases "m w")
  from assms(1) obtain a where "trace (snd (m w)) = trace w @ a" and pa: "P a"
    unfolding emits_def by blast
  with mw have a: "trace w' = trace w @ a" by simp
  show "\<exists>evs. trace (snd (try_catch m h w)) = trace w @ evs \<and> R evs"
  proof (cases r)
    case (Throw e)
    with mw have 1: "try_catch m h w = h e w'" by (simp add: try_catch_def)
    from assms(2)[of e] obtain b where "trace (snd (h e w')) = trace w' @ b" and qb: "Q b"
      unfolding emits_def by blast
    with 1 a have "trace (snd (try_catch m h w)) = trace w @ (a @ b)" by simp
    with assms(3)[OF pa qb] show ?thesis by blast
  next
    case (Return x)
    with mw a have "trace (snd (try_catch m h w)) = trace w @ a" by (simp add: try_catch_def)
    with assms(4)[OF pa] show ?thesis by blast
  qed
qed

lemma emits_silent: "keeps trace m \<Longrightarrow> emits (\<lambda>evs. evs = []) m"
  by (simp add: keeps_def emits_def)

lemma within_silent: "keeps trace m \<Longrightarrow> within ds lo hi m"
  by (simp add: keeps_def within_def emits_def in_order_Nil)

lemma within_andThen:
  assumes "within ds' lo' mid m" and "set ds' \<subseteq> set ds" and "lo \<le> lo'" and "lo' \<le> mid"
      and "mid \<le> hi" and "\<And>x. within ds mid hi (f x)"
  shows "within ds lo hi (andThen m f)"
  unfolding within_def
proof (rule emits_andThen[where P = "in_order ds' lo' mid" and Q = "in_order ds mid hi"])
  show "emits (in_order ds' lo' mid) m" using assms(1) by (simp add: within_def)
  show "\<And>x. emits (in_order ds mid hi) (f x)" using assms(6) by (simp add: within_def)
  show "\<And>a b. in_order ds' lo' mid a \<Longrightarrow> in_order ds mid hi b \<Longrightarrow> in_order ds lo hi (a @ b)"
  proof -
    fix a b assume a: "in_order ds' lo' mid a" and b: "in_order ds mid hi b"
    have 1: "in_order ds lo mid a" by (rule in_order_weaken[OF a assms(3) order_refl assms(2)])
    from assms(3,4) have 2: "lo \<le> mid" by simp
    show "in_order ds lo hi (a @ b)" by (rule in_order_append[OF 1 b 2 assms(5)])
  qed
  show "\<And>a. in_order ds' lo' mid a \<Longrightarrow> in_order ds lo hi a"
    by (rule in_order_weaken[OF _ assms(3) assms(5) assms(2)])
qed

lemma within_silent_then:
  assumes "keeps trace m" and "\<And>x. within ds lo hi (f x)"
  shows "within ds lo hi (andThen m f)"
  unfolding within_def
proof (rule emits_andThen[where P = "\<lambda>evs. evs = []" and Q = "in_order ds lo hi"])
  show "emits (\<lambda>evs. evs = []) m" using assms(1) by (rule emits_silent)
  show "\<And>x. emits (in_order ds lo hi) (f x)" using assms(2) by (simp add: within_def)
qed (simp_all add: in_order_Nil)

lemma within_try_catch:
  assumes "within ds lo hi m" and "\<And>e. keeps trace (h e)"
  shows "within ds lo hi (try_catch m h)"
  unfolding within_def
proof (rule emits_try_catch[where P = "in_order ds lo hi" and Q = "\<lambda>evs. evs = []"])
  show "emits (in_order ds lo hi) m" using assms(1) by (simp add: within_def)
  show "\<And>e. emits (\<lambda>evs. evs = []) (h e)" using assms(2) by (rule emits_silent)
qed simp_all

lemma andThen_assoc: "andThen (andThen a g) f = andThen a (\<lambda>x. andThen (g x) f)"
  by (rule ext) (simp add: andThen_def split: prod.splits res.splits)

lemma within_assoc:
  "within ds lo hi (andThen a (\<lambda>x. andThen (g x) f)) \<Longrightarrow> within ds lo hi (andThen (andThen a g) f)"
  by (simp add: andThen_assoc)

lemma within_sb: "within [] (rank (SbCall c)) (Suc (rank (SbCall c))) (sb env c)"
  by (simp add: within_def emits_def sb_def in_order_def delay_ok_def split: prod.splits)

lemma within_fb: "within [] (rank (FbCall c)) (Suc (rank (FbCall c))) (fb env c)"
  by (simp add: within_def emits_def fb_def in_order_def delay_ok_def split: prod.splits)

lemma within_sleep: "within [ms] 1 2 (sleep ms)"
  by (simp add: within_def emits_def sleep_def emit_def in_order_def delay_ok_def)

lemma within_sb_then:
  assumes "lo \<le> rank (SbCall c)" and "rank (SbCall c) < hi"
      and "\<And>x. within ds (Suc (rank (SbCall c))) hi (f x)"
  shows "within ds lo hi (andThen (sb env c) f)"
  using within_andThen[OF within_sb _ assms(1) _ _ assms(3)] assms(2) by simp

lemma within_fb_then:
  assumes "lo \<le> rank (FbCall c)" and "rank (FbCall c) < hi"
      and "\<And>x. within ds (Suc (rank (FbCall c))) hi (f x)"
  shows "within ds lo hi (andThen (fb env c) f)"
  using within_andThen[OF within_fb _ assms(1) _ _ assms(3)] assms(2) by simp

lemma within_sleep_then:
  assumes "ms \<in> set ds" and "lo \<le> 1" and "1 < hi" and "\<And>x. within ds 2 hi (f x)"
  shows "within ds lo hi (andThen (sleep ms) f)"
  using within_andThen[OF within_sleep _ assms(2) _ _ assms(4)] assms(1,3) by simp

lemma within_if:
  "within ds lo hi a \<Longrightarrow> within ds lo hi b \<Longrightarrow> within ds lo hi (if c then a else b)"
  by simp

lemma within_if_then:
  "within ds lo hi (andThen a f) \<Longrightarrow> within ds lo hi (andThen b f)
     \<Longrightarrow> within ds lo hi (andThen (if c then a else b) f)"
  by simp

lemma within_prod:
  "(\<And>a b. within ds lo hi (f a b)) \<Longrightarrow> within ds lo hi (case p of (a, b) \<Rightarrow> f a b)"
  by (cases p) simp

lemma keeps_nowISO: "keeps sel (nowISO env)" by (simp add: keeps_def nowISO_def)
lemma keeps_set_auth_trace: "keeps trace (set_auth g)" by (simp add: keeps_def set_auth_def)
lemma keeps_set_project_trace: "keeps trace (set_project g)" by (simp add: keeps_def set_project_def)
lemma keeps_first_elem: "keeps sel (first_elem v)"
  by (simp add: keeps_def first_elem_def ret_def throw_def split: val.splits list.splits)
lemma keeps_draw36_trace: "keeps trace (draw36 env)"
  by (simp add: keeps_def draw36_def split: prod.splits)

lemmas silent_prims = keeps_ret keeps_throw keeps_get keeps_nowISO keeps_set_auth_trace
  keeps_set_project_trace keeps_cur_projectStore keeps_as_array keeps_first_elem keeps_draw36_trace
  keeps_dateNowPlus keeps_toDate keeps_supabase_sql

lemmas silent_rules = silent_prims keeps_andThen keeps_if keeps_prod keeps_map_all keeps_try_catch

lemma keeps_generateInviteToken: "keeps trace (generateInviteToken env)"
  unfolding generateInviteToken_def by (intro silent_rules)

lemma keeps_with_dates_trace: "keeps trace (with_dates ks d)"
  unfolding with_dates_def by (intro silent_rules)

lemma keeps_user_summary: "keeps trace (user_summary d i)"
  unfolding user_summary_def by (intro silent_rules)

lemmas within_ret_then = within_silent_then[OF keeps_ret]
lemmas within_get_then = within_silent_then[OF keeps_get]
lemmas within_nowISO_then = within_silent_then[OF keeps_nowISO]
lemmas within_set_auth_then = within_silent_then[OF keeps_set_auth_trace]
lemmas within_set_project_then = within_silent_then[OF keeps_set_project_trace]
lemmas within_cur_then = within_silent_then[OF keeps_cur_projectStore]
lemmas within_as_array_then = within_silent_then[OF keeps_as_array]
lemmas within_first_elem_then = within_silent_then[OF keeps_first_elem]
lemmas within_token_then = within_silent_then[OF keeps_generateInviteToken]
lemmas within_dateNowPlus_then = within_silent_then[OF keeps_dateNowPlus]
lemmas within_user_summary_then = within_silent_then[OF keeps_user_summary]
lemmas within_map_all_then = within_silent_then[OF keeps_map_all]
lemmas within_toDate_then = within_silent_then[OF keeps_toDate]
lemmas within_sql_then = within_silent_then[OF keeps_supabase_sql]

lemmas within_rules = within_sb_then within_fb_then within_sleep_then within_ret_then within_get_then
  within_nowISO_then within_set_auth_then within_set_project_then within_cur_then
  within_as_array_then within_first_elem_then within_token_then within_dateNowPlus_then
  within_user_summary_then within_map_all_then within_toDate_then within_sql_then
  within_silent[OF keeps_ret] within_silent[OF keeps_throw] within_silent[OF keeps_set_auth_trace]
  within_silent[OF keeps_set_project_trace] within_silent[OF keeps_get]
  within_if_then within_assoc within_if within_prod within_try_catch
  silent_rules keeps_with_dates_trace

lemma getCurrentUser_within: "within [] 2 3 (supabase_getCurrentUser env)"
  unfolding supabase_getCurrentUser_def
  by (intro within_rules | simp)+

lemmas within_getCurrentUser_then = within_andThen[OF getCurrentUser_within]

lemma try_log_within:
  assumes "keeps trace args"
  shows "within [] 9 10 (try_log_activity env args)"
  unfolding try_log_activity_def
  by (intro within_silent_then[OF assms] within_rules | simp)+

lemmas within_try_log_then = within_andThen[OF try_log_within]

lemma logActivity_within: "within [] 9 10 (logActivity env p a r i m)"
  unfolding logActivity_def Let_def
  by (intro within_rules | simp)+

lemmas within_logActivity_then = within_andThen[OF logActivity_within]

lemmas order_rules = within_rules within_getCurrentUser_then within_try_log_then
  within_logActivity_then

lemma supabase_in_order:
  "within [] 0 10 (supabase_signUp env email password fullName)"
  "within [] 0 10 (supabase_signIn env email password)"
  "within [] 0 10 (supabase_signOut env)"
  "within [] 0 10 (supabase_createProject env ptitle description)"
  "within [] 0 10 (supabase_getUserProjects env)"
  "within [] 0 10 (supabase_createArticle env projectId ptitle content)"
  "within [] 0 10 (supabase_getProjectArticles env projectId)"
  "within [] 0 10 (supabase_updateArticle env articleId updates)"
  "within [] 0 10 (supabase_getUserProfile env)"
  "within [] 0 10 (supabase_updateUserProfile env updates)"
  "within [] 0 10 (supabase_getProjectTeamMembers env projectId)"
  "within [] 0 10 (supabase_inviteTeamMember env projectId email role)"
  "within [] 0 10 (supabase_removeTeamMember env projectId userId)"
  "within [] 0 10 (supabase_updateTeamMemberRole env projectId userId role)"
  "within [] 0 10 (supabase_getProjectInvitations env projectId)"
  "within [] 0 10 (supabase_cancelInvitation env invitationId)"
  "within [] 0 10 (supabase_acceptInvitation env token)"
  "within [] 0 10 (supabase_getArticleComments env articleId)"
  "within [] 0 10 (supabase_createComment env articleId content position)"
  "within [] 0 10 (supabase_updateComment env commentId content)"
  "within [] 0 10 (supabase_resolveComment env commentId resolved)"
  "within [] 0 10 (supabase_deleteComment env commentId)"
  "within [] 0 10 (supabase_getProjectActivity env projectId limit)"
  "within [] 0 10 (supabase_getUserProjectRole env projectId)"
  "within [] 0 10 (supabase_incrementUsageCount env)"
  unfolding supabase_signUp_def supabase_signIn_def supabase_signOut_def supabase_createProject_def
    supabase_getUserProjects_def supabase_createArticle_def supabase_getProjectArticles_def
    supabase_updateArticle_def supabase_getUserProfile_def supabase_updateUserProfile_def
    supabase_getProjectTeamMembers_def supabase_inviteTeamMember_def
    supabase_removeTeamMember_def supabase_updateTeamMemberRole_def
    supabase_getProjectInvitations_def supabase_cancelInvitation_def
    supabase_acceptInvitation_def supabase_getArticleComments_def supabase_createComment_def
    supabase_updateComment_def supabase_resolveComment_def supabase_deleteComment_def
    supabase_getProjectActivity_def supabase_getUserProjectRole_def
    supabase_incrementUsageCount_def Let_def
  by (intro order_rules | simp)+

lemma within_weaken:
  assumes "within ds' lo' hi' m" and "set ds' \<subseteq> set ds" and "lo \<le> lo'" and "hi' \<le> hi"
  shows "within ds lo hi m"
  unfolding within_def emits_def
proof
  fix w
  from assms(1) obtain evs where "trace (snd (m w)) = trace w @ evs" "in_order ds' lo' hi' evs"
    unfolding within_def emits_def by blast
  with in_order_weaken[OF _ assms(3,4,2)]
  show "\<exists>evs. trace (snd (m w)) = trace w @ evs \<and> in_order ds lo hi evs" by blast
qed

lemma supabase_roles_in_order:
  "within [] 0 10 (supabase_getCurrentUser env)"
  "within [] 0 10 (supabase_canUserEditProject env projectId)"
  "within [] 0 10 (supabase_canUserManageTeam env projectId)"
proof -
  show "within [] 0 10 (supabase_getCurrentUser env)"
    by (rule within_weaken[OF getCurrentUser_within]) simp_all
  show "within [] 0 10 (supabase_canUserEditProject env projectId)"
    unfolding supabase_canUserEditProject_def
    by (intro within_andThen[OF supabase_in_order(24)] order_rules | simp)+
  show "within [] 0 10 (supabase_canUserManageTeam env projectId)"
    unfolding supabase_canUserManageTeam_def
    by (intro within_andThen[OF supabase_in_order(24)] order_rules | simp)+
qed

lemma firebase_in_order:
  "within [] 0 10 (firebase_signUp env email password fullName)"
  "within [] 0 10 (firebase_signIn env email password)"
  "within [] 0 10 (firebase_signOut env)"
  "within [] 0 10 (firebase_createProject env ptitle description)"
  "within [] 0 10 (firebase_getUserProjects env)"
  "within [] 0 10 (firebase_createArticle env projectId ptitle content)"
  "within [] 0 10 (firebase_getProjectArticles env projectId)"
  "within [] 0 10 (firebase_updateArticle env articleId updates)"
  "within [] 0 10 (firebase_getUserProfile env)"
  "within [] 0 10 (firebase_updateUserProfile env updates)"
  "within [] 0 10 (firebase_inviteTeamMember env projectId email role)"
  "within [] 0 10 (firebase_removeTeamMember env projectId userId)"
  "within [] 0 10 (firebase_updateTeamMemberRole env projectId userId role)"
  "within [] 0 10 (firebase_getProjectInvitations env projectId)"
  "within [] 0 10 (firebase_cancelInvitation env invitationId)"
  "within [] 0 10 (firebase_createComment env articleId content position)"
  "within [] 0 10 (firebase_updateComment env commentId content)"
  "within [] 0 10 (firebase_resolveComment env commentId resolved)"
  "within [] 0 10 (firebase_deleteComment env commentId)"
  "within [] 0 10 (firebase_getUserProjectRole env projectId)"
  "within [] 0 10 (firebase_incrementUsageCount env)"
  unfolding firebase_signUp_def firebase_signIn_def firebase_signOut_def
    firebase_createProject_def firebase_getUserProjects_def firebase_createArticle_def
    firebase_getProjectArticles_def firebase_updateArticle_def firebase_getUserProfile_def
    firebase_updateUserProfile_def
    firebase_inviteTeamMember_def firebase_removeTeamMember_def
    firebase_updateTeamMemberRole_def firebase_getProjectInvitations_def
    firebase_cancelInvitation_def firebase_createComment_def
    firebase_updateComment_def firebase_resolveComment_def firebase_deleteComment_def
    firebase_getUserProjectRole_def firebase_incrementUsageCount_def Let_def
  by (intro order_rules | simp add: doc_def)+


lemma firebase_roles_in_order:
  "within [] 0 10 (firebase_canUserEditProject env projectId)"
  "within [] 0 10 (firebase_canUserManageTeam env projectId)"
  "within [] 0 10 (logActivity env projectId action resourceType resourceId metadata)"
proof -
  show "within [] 0 10 (firebase_canUserEditProject env projectId)"
    unfolding firebase_canUserEditProject_def
    by (intro within_andThen[OF firebase_in_order(20)] order_rules | simp)+
  show "within [] 0 10 (firebase_canUserManageTeam env projectId)"
    unfolding firebase_canUserManageTeam_def
    by (intro within_andThen[OF firebase_in_order(20)] order_rules | simp)+
  show "within [] 0 10 (logActivity env projectId action resourceType resourceId metadata)"
    by (rule within_weaken[OF logActivity_within]) simp_all
qed

lemma keeps_cons_then:
  "keeps trace (\<lambda>w. andThen (cons_spread x (sel w)) (\<lambda>ps. set_project (g ps)) w)"
  by (simp add: keeps_def andThen_def cons_spread_def set_project_def ret_def throw_def
        split: val.splits)

lemma sign_in_first:
  "within [] 0 1 (supabase_signIn env email password)"
  "within [] 0 1 (supabase_signUp env email password fullName)"
  unfolding supabase_signUp_def supabase_signIn_def
  by (intro order_rules | simp)+

lemma profile_after_user:
  "within [] 2 10 (supabase_getUserProfile env)"
  "within [] 2 10 (supabase_incrementUsageCount env)"
  unfolding supabase_getUserProfile_def supabase_incrementUsageCount_def
  by (intro order_rules | simp)+

lemma authStore_in_order:
  "within [500] 0 10 (authStore_signIn env email password)"
  "within [2000] 0 10 (authStore_signUp env email password fullName)"
  "within [] 0 10 (authStore_signOut env)"
  "within [] 0 10 (authStore_onAuthStateChange env event session)"
  "within [] 0 10 (authStore_refreshProfile env)"
  "within [] 0 10 (authStore_incrementUsage env)"
  unfolding authStore_signIn_def authStore_signUp_def authStore_signOut_def
    authStore_onAuthStateChange_def authStore_refreshProfile_def authStore_incrementUsage_def
  by (intro within_andThen[OF sign_in_first(1)] within_andThen[OF sign_in_first(2)]
        within_andThen[OF profile_after_user(1)] within_andThen[OF profile_after_user(2)]
        order_rules | simp)+

lemma projectStore_in_order:
  "within [] 0 10 (projectStore_fetchProjects env)"
  "within [] 0 10 (projectStore_createProject env ptitle description)"
  "within [] 0 10 (projectStore_setCurrentProject project)"
  "within [] 0 10 (projectStore_fetchArticles env projectId)"
  unfolding projectStore_fetchProjects_def projectStore_createProject_def
    projectStore_setCurrentProject_def projectStore_fetchArticles_def
  by (intro within_andThen[OF firebase_in_order(5)] within_andThen[OF firebase_in_order(4)]
        within_andThen[OF firebase_in_order(7)] within_silent_then[OF keeps_cons_then]
        order_rules | simp)+

section \<open>No call twice, no retry, and the two waits\<close>

lemma emits_issued: "emits P m \<Longrightarrow> P (issued m w)"
  unfolding emits_def issued_def
  by (metis append_eq_conv_conj)

lemma within_issued: "within ds lo hi m \<Longrightarrow> in_order ds lo hi (issued m w)"
  unfolding within_def by (rule emits_issued)

lemma ascending_lower: "ascending lo evs \<Longrightarrow> e \<in> set evs \<Longrightarrow> lo \<le> rank e"
proof (induction evs arbitrary: lo)
  case Nil
  then show ?case by simp
next
  case (Cons x xs)
  then show ?case by (auto simp: Suc_le_eq dest!: Cons.IH[rotated] intro: less_imp_le)
qed

lemma ascending_sorted: "ascending lo evs \<Longrightarrow> sorted_wrt (\<lambda>a b. rank a < rank b) evs"
proof (induction evs arbitrary: lo)
  case Nil
  then show ?case by simp
next
  case (Cons x xs)
  then show ?case using ascending_lower[of "Suc (rank x)" xs] by (auto simp: Suc_le_eq)
qed

lemma sorted_rank_distinct: "sorted_wrt (\<lambda>a b. rank a < rank b) evs \<Longrightarrow> distinct evs"
  by (induction evs) auto

lemma in_order_once: "in_order ds lo hi evs \<Longrightarrow> once_in_order ds evs"
  unfolding in_order_def once_in_order_def
  by (auto simp: list_all_iff intro: ascending_sorted sorted_rank_distinct)

lemmas once = within_issued[THEN in_order_once]

lemma profile_tight: "within [] 2 5 (supabase_getUserProfile env)"
  unfolding supabase_getUserProfile_def
  by (intro order_rules | simp)+

lemma initialize_events:
  "emits (\<lambda>evs. \<exists>rest. evs = SbCall AuthGetUser # rest \<and> in_order [] 2 10 rest)
     (authStore_initialize env)"
  unfolding authStore_initialize_def
proof (rule emits_try_catch[where P = "\<lambda>evs. \<exists>rest. evs = SbCall AuthGetUser # rest \<and> in_order [] 2 10 rest"
        and Q = "\<lambda>evs. evs = []"])
  show "emits (\<lambda>evs. \<exists>rest. evs = SbCall AuthGetUser # rest \<and> in_order [] 2 10 rest)
     (andThen (sb env AuthGetUser)
       (\<lambda>(data, error).
           andThen (get data ''user'')
            (\<lambda>usr. andThen
                     (if truthy usr
                      then andThen (supabase_getUserProfile env)
                            (\<lambda>presult.
                                andThen (get presult ''data'')
                                 (\<lambda>profile. set_auth (\<lambda>a. a\<lparr>user := usr, userProfile := profile\<rparr>)))
                      else ret ())
                     (\<lambda>u. andThen (set_auth (\<lambda>a. a\<lparr>initialized := True\<rparr>))
                           (\<lambda>u. andThen (sb env AuthOnAuthStateChange) (\<lambda>subscription. ret ()))))))"
  proof (rule emits_andThen[where P = "\<lambda>evs. evs = [SbCall AuthGetUser]" and Q = "in_order [] 2 10"])
    show "emits (\<lambda>evs. evs = [SbCall AuthGetUser]) (sb env AuthGetUser)"
      by (simp add: emits_def sb_def split: prod.splits)
    show "\<And>x. emits (in_order [] 2 10)
          (case x of
           (data, error) \<Rightarrow>
             andThen (get data ''user'')
              (\<lambda>usr. andThen
                       (if truthy usr
                        then andThen (supabase_getUserProfile env)
                              (\<lambda>presult.
                                  andThen (get presult ''data'')
                                   (\<lambda>profile. set_auth (\<lambda>a. a\<lparr>user := usr, userProfile := profile\<rparr>)))
                        else ret ())
                       (\<lambda>u. andThen (set_auth (\<lambda>a. a\<lparr>initialized := True\<rparr>))
                             (\<lambda>u. andThen (sb env AuthOnAuthStateChange) (\<lambda>subscription. ret ())))))"
      unfolding within_def[symmetric]
      by (intro within_andThen[OF profile_tight] order_rules | simp)+
  qed (simp_all add: in_order_Nil)
  show "\<And>e. emits (\<lambda>evs. evs = []) (set_auth (\<lambda>a. a\<lparr>initialized := True\<rparr>))"
    by (intro emits_silent keeps_set_auth_trace)
qed auto










lemmas all_once = supabase_in_order[THEN once] supabase_roles_in_order[THEN once]
  firebase_in_order[THEN once] firebase_roles_in_order[THEN once] authStore_in_order[THEN once]
  projectStore_in_order[THEN once]

text \<open>
  The callback of one row appends its \<open>getDoc\<close> on \<open>users\<close> and nothing else, whatever the
  platform answers; all callbacks are started, in row order.
\<close>

lemma trace_kept: "keeps trace m \<Longrightarrow> trace (snd (m w)) = trace w"
  by (simp add: keeps_def)

lemma joined_row_trace:
  "trace (snd (joined_row env ks d w)) = trace w @ user_read d"
proof (cases "get_prop d ''data''")
  case (Throw e)
  then show ?thesis by (simp add: joined_row_def user_read_def io_defs)
next
  case data: (Return rowData)
  show ?thesis
  proof (cases "get_prop rowData ''user_id''")
    case (Throw e)
    with data show ?thesis by (simp add: joined_row_def user_read_def io_defs)
  next
    case (Return uid)
    let ?rest = "\<lambda>userDoc.
       andThen (get userDoc ''id'') (\<lambda>userDocId.
       andThen (user_summary userDoc userDocId) (\<lambda>usr.
       andThen (get d ''id'') (\<lambda>ident.
       andThen (map_all (\<lambda>k. andThen (toDate (opt_prop rowData k)) (\<lambda>date. ret (k, date))) ks)
         (\<lambda>dates.
       ret (Obj (assign ''user'' usr
                   (fold (\<lambda>(k, x). assign k x) dates (spread rowData [(''id'', ident)]))))))))"
    have k: "\<And>userDoc :: val. keeps trace (?rest userDoc :: ('a, val) io)"
      by (intro silent_rules keeps_user_summary)
    have j: "joined_row env ks d = andThen (fb env (GetDoc (doc ''users'' uid))) ?rest"
      using data Return by (simp add: joined_row_def io_defs fun_eq_iff)
    obtain r w1 where f: "fb env (GetDoc (doc ''users'' uid)) w = (r, w1)"
      by (cases "fb env (GetDoc (doc ''users'' uid)) w")
    then have t1: "trace w1 = trace w @ [FbCall (GetDoc (doc ''users'' uid))]"
      by (auto simp add: fb_def split: prod.splits)
    have "trace (snd (joined_row env ks d w)) = trace w1"
      unfolding j using f trace_kept[OF k, of _ w1]
      by (cases r) (simp_all add: andThen_def)
    with t1 data Return show ?thesis by (simp add: user_read_def)
  qed
qed

lemma joined_rows_trace:
  "trace (snd (map_all (joined_row env ks) ds w)) = trace w @ concat (map user_read ds)"
proof (induction ds arbitrary: w)
  case Nil
  show ?case by simp
next
  case (Cons d ds)
  obtain r w1 where f: "joined_row env ks d w = (r, w1)" by (cases "joined_row env ks d w")
  with joined_row_trace[of env ks d w] have t1: "trace w1 = trace w @ user_read d" by simp
  obtain rs w2 where g: "map_all (joined_row env ks) ds w1 = (rs, w2)"
    by (cases "map_all (joined_row env ks) ds w1")
  with Cons[of w1] have "trace w2 = trace w1 @ concat (map user_read ds)" by simp
  with f g t1 show ?case by simp
qed

lemma reader_run:
  "issued (try_catch
             (andThen (fb env q) (\<lambda>snp.
              andThen (get snp ''docs'') (\<lambda>docs.
              andThen (as_array docs) (\<lambda>ds.
              andThen (map_all (joined_row env ks) ds) (\<lambda>rows.
              ret (g rows))))))
             (\<lambda>error. ret (h error))) w
   = FbCall q # concat (map user_read (answered_docs (fst (firebase env q (backend w)))))"
proof -
  obtain r s' where a: "firebase env q (backend w) = (r, s')"
    by (cases "firebase env q (backend w)")
  define w1 where "w1 = w\<lparr>backend := s', trace := trace w @ [FbCall q]\<rparr>"
  have f: "fb env q w = (r, w1)" using a by (simp add: fb_def w1_def)
  have t1: "trace w1 = trace w @ [FbCall q]" by (simp add: w1_def)
  show ?thesis
  proof (cases r)
    case (Throw e)
    with f a t1 show ?thesis by (simp add: issued_def io_defs answered_docs_def)
  next
    case snap: (Return snp)
    show ?thesis
    proof (cases "get_prop snp ''docs''")
      case (Throw e)
      with snap f a t1 show ?thesis by (simp add: issued_def io_defs answered_docs_def)
    next
      case (Return docs)
      show ?thesis
      proof (cases "\<exists>ds. docs = Arr ds")
        case False
        then have "as_array docs w1 = (Throw TypeError, w1)"
            "(case docs of Arr ds \<Rightarrow> ds | _ \<Rightarrow> []) = []"
          by (cases docs; simp add: as_array_def throw_def)+
        with snap Return f a t1 show ?thesis
          by (simp add: issued_def try_catch_def andThen_def get_def lift_def ret_def
                answered_docs_def)
      next
        case True
        then obtain ds where ds: "docs = Arr ds" by blast
        obtain rs w2 where m: "map_all (joined_row env ks) ds w1 = (rs, w2)"
          by (cases "map_all (joined_row env ks) ds w1")
        with joined_rows_trace[of env ks ds w1]
        have t2: "trace w2 = trace w1 @ concat (map user_read ds)" by simp
        from snap Return ds f a t1 m t2 show ?thesis
          by (cases rs) (simp_all add: issued_def io_defs as_array_def answered_docs_def)
      qed
    qed
  qed
qed

lemma readers_run:
  "\<exists>c cs. issued (firebase_getProjectTeamMembers env projectId) w
     = FbCall (GetDocs c cs) #
       concat (map user_read (answered_docs (fst (firebase env (GetDocs c cs) (backend w)))))"
  "\<exists>c cs. issued (firebase_getArticleComments env articleId) w
     = FbCall (GetDocs c cs) #
       concat (map user_read (answered_docs (fst (firebase env (GetDocs c cs) (backend w)))))"
  "\<exists>c cs. issued (firebase_getProjectActivity env projectId limitCount) w
     = FbCall (GetDocs c cs) #
       concat (map user_read (answered_docs (fst (firebase env (GetDocs c cs) (backend w)))))"
  unfolding firebase_getProjectTeamMembers_def firebase_getArticleComments_def
    firebase_getProjectActivity_def Let_def reader_run
  by blast+

text \<open>
  C8, as the code has it. For every invocation of every SDK wrapper and store operation,
  whatever the SDK answers: the calls are issued in program order and none is issued twice
  (so none is retried), and the operation does not wait, except that the auth store's
  \<open>signIn\<close> and \<open>signUp\<close> wait once, 500 ms and 2000 ms, after the authentication call and
  before the profile fetch. Two kinds of operation repeat a call by design, and only in
  this way: \<open>initialize\<close> calls \<open>auth.getUser\<close> itself and then runs, once and in order, what
  \<open>getUserProfile\<close> and the listener registration issue; and each of the three Firebase
  readers that join the \<open>users\<close> collection issues its query once and then exactly one
  \<open>getDoc\<close> on \<open>users\<close> for every row of the answer, in row order, so that the document of a
  user is read again only when another row names the same user.
\<close>

theorem calls_once_in_order:
  fixes env :: "'s env"
  shows "(joins_users op \<or> op = AuthStore Auth_initialize
            \<or> once_in_order (waits op) (events env op w))
       \<and> (op = AuthStore Auth_initialize \<longrightarrow>
            (\<exists>rest. events env op w = SbCall AuthGetUser # rest \<and> once_in_order [] rest))
       \<and> (joins_users op \<longrightarrow>
            (\<exists>c cs. events env op w
               = FbCall (GetDocs c cs) #
                 concat (map user_read
                   (answered_docs (fst (firebase env (GetDocs c cs) (backend w)))))))"
proof -
  have 1: "joins_users op \<or> op = AuthStore Auth_initialize
            \<or> once_in_order (waits op) (events env op w)"
  proof (cases op)
    case (Supabase x)
    then show ?thesis by (cases x) (simp_all add: waits_def all_once)
  next
    case (Firebase x)
    then show ?thesis by (cases x) (simp_all add: waits_def joins_users_def all_once)
  next
    case (AuthStore x)
    then show ?thesis by (cases x) (simp_all add: waits_def all_once)
  next
    case (ProjectStore x)
    then show ?thesis by (cases x) (simp_all add: waits_def all_once)
  qed
  have 2: "op = AuthStore Auth_initialize \<longrightarrow>
            (\<exists>rest. events env op w = SbCall AuthGetUser # rest \<and> once_in_order [] rest)"
    using emits_issued[OF initialize_events, of env w] by (auto intro: in_order_once)
  have 3: "joins_users op \<longrightarrow>
            (\<exists>c cs. events env op w
               = FbCall (GetDocs c cs) #
                 concat (map user_read
                   (answered_docs (fst (firebase env (GetDocs c cs) (backend w))))))"
  proof (cases op)
    case (Firebase x)
    then show ?thesis
      using readers_run(1)[of env _ w] readers_run(2)[of env _ w] readers_run(3)[of env _ _ w]
      by (cases x) (simp_all add: joins_users_def)
  qed (simp_all add: joins_users_def)
  from 1 2 3 show ?thesis by blast
qed

text \<open>
  Three runs on the scripted platform: a sign-in that succeeds, an \<open>initialize\<close> with a
  user signed in, and the comments of an article of which two have the same author.
\<close>

lemma signIn_waits:
  "events script_env (AuthStore (Auth_signIn (Str ''a@example.org'') (Str ''secret'')))
     (init_world signing_in)
   = [SbCall (AuthSignInWithPassword
               (Obj [(''email'', Str ''a@example.org''), (''password'', Str ''secret'')])),
      Delay 500,
      SbCall AuthGetUser,
      SbCall (From ''users'' [Select ''*'', Eq ''id'' (Str ''u1'')])]"
  by (simp add: issued_def authStore_signIn_def supabase_signIn_def supabase_getUserProfile_def
        supabase_getCurrentUser_def io_defs set_auth_def script_env_def init_world_def
        signing_in_def idle_def data_error_def error_only_def first_or_null_def)

lemma initialize_twice:
  "events script_env (AuthStore Auth_initialize) (init_world starting_up)
   = [SbCall AuthGetUser,
      SbCall AuthGetUser,
      SbCall (From ''users'' [Select ''*'', Eq ''id'' (Str ''u1'')]),
      SbCall AuthOnAuthStateChange]"
  by (simp add: issued_def authStore_initialize_def supabase_getUserProfile_def
        supabase_getCurrentUser_def io_defs set_auth_def script_env_def init_world_def
        starting_up_def idle_def data_error_def error_only_def first_or_null_def)

lemma comments_same_author:
  "events script_env (Firebase (Fb_getArticleComments (Str ''a1''))) (init_world two_comments)
   = [FbCall (GetDocs ''article_comments''
               [Where ''article_id'' ''=='' (Str ''a1''), OrderBy ''created_at'' ''asc'']),
      FbCall (GetDoc (doc ''users'' (Str ''u1''))),
      FbCall (GetDoc (doc ''users'' (Str ''u1'')))]"
  by (simp add: firebase_getArticleComments_def reader_run answered_docs_def user_read_def
        script_env_def init_world_def two_comments_def idle_def comment_doc_def)

text \<open>
  C8 as stated says that no delay is inserted and that each SDK call is issued at most
  once. A successful \<open>signIn\<close> of the auth store waits 500 ms between \<open>signInWithPassword\<close>
  and the profile fetch; \<open>initialize\<close> issues \<open>auth.getUser\<close> twice; and \<open>getArticleComments\<close>
  reads the \<open>users\<close> document of an author once for each of her comments.
\<close>

theorem waits_and_repeats_counterexample:
  "events script_env (AuthStore (Auth_signIn (Str ''a@example.org'') (Str ''secret'')))
     (init_world signing_in)
   = [SbCall (AuthSignInWithPassword
               (Obj [(''email'', Str ''a@example.org''), (''password'', Str ''secret'')])),
      Delay 500,
      SbCall AuthGetUser,
      SbCall (From ''users'' [Select ''*'', Eq ''id'' (Str ''u1'')])]
   \<and> events script_env (AuthStore Auth_initialize) (init_world starting_up)
     = [SbCall AuthGetUser,
        SbCall AuthGetUser,
        SbCall (From ''users'' [Select ''*'', Eq ''id'' (Str ''u1'')]),
        SbCall AuthOnAuthStateChange]
   \<and> events script_env (Firebase (Fb_getArticleComments (Str ''a1''))) (init_world two_comments)
     = [FbCall (GetDocs ''article_comments''
                 [Where ''article_id'' ''=='' (Str ''a1''), OrderBy ''created_at'' ''asc'']),
        FbCall (GetDoc (doc ''users'' (Str ''u1''))),
        FbCall (GetDoc (doc ''users'' (Str ''u1'')))]
   \<and> \<not> once_in_order []
         (events script_env (AuthStore (Auth_signIn (Str ''a@example.org'') (Str ''secret'')))
            (init_world signing_in))
   \<and> \<not> distinct (events script_env (AuthStore Auth_initialize) (init_world starting_up))
   \<and> \<not> distinct (events script_env (Firebase (Fb_getArticleComments (Str ''a1'')))
                    (init_world two_comments))"
  unfolding signIn_waits initialize_twice comments_same_author
  by (simp add: once_in_order_def delay_ok_def)

text \<open>The three runs above, each within what the theorem allows.\<close>

theorem calls_once_in_order_witness:
  "once_in_order [500]
     (events script_env (AuthStore (Auth_signIn (Str ''a@example.org'') (Str ''secret'')))
        (init_world signing_in))
   \<and> once_in_order []
       [SbCall AuthGetUser,
        SbCall (From ''users'' [Select ''*'', Eq ''id'' (Str ''u1'')]),
        SbCall AuthOnAuthStateChange]
   \<and> (\<exists>c cs. [FbCall (GetDocs ''article_comments''
                  [Where ''article_id'' ''=='' (Str ''a1''), OrderBy ''created_at'' ''asc'']),
                FbCall (GetDoc (doc ''users'' (Str ''u1''))),
                FbCall (GetDoc (doc ''users'' (Str ''u1'')))]
              = FbCall (GetDocs c cs) #
                concat (map user_read
                  (answered_docs (fst (firebase script_env (GetDocs c cs)
                                         (backend (init_world two_comments)))))))"
proof -
  from calls_once_in_order[of "AuthStore (Auth_signIn (Str ''a@example.org'') (Str ''secret''))"
      script_env "init_world signing_in"]
  have 1: "once_in_order [500]
     (events script_env (AuthStore (Auth_signIn (Str ''a@example.org'') (Str ''secret'')))
        (init_world signing_in))"
    by (simp add: joins_users_def waits_def)
  from calls_once_in_order[of "AuthStore Auth_initialize" script_env "init_world starting_up"]
  have 2: "once_in_order []
       [SbCall AuthGetUser,
        SbCall (From ''users'' [Select ''*'', Eq ''id'' (Str ''u1'')]),
        SbCall AuthOnAuthStateChange]"
    unfolding initialize_twice by simp
  from calls_once_in_order[of "Firebase (Fb_getArticleComments (Str ''a1''))" script_env
      "init_world two_comments"]
  have 3: "\<exists>c cs. [FbCall (GetDocs ''article_comments''
                  [Where ''article_id'' ''=='' (Str ''a1''), OrderBy ''created_at'' ''asc'']),
                FbCall (GetDoc (doc ''users'' (Str ''u1''))),
                FbCall (GetDoc (doc ''users'' (Str ''u1'')))]
              = FbCall (GetDocs c cs) #
                concat (map user_read
                  (answered_docs (fst (firebase script_env (GetDocs c cs)
                                         (backend (init_world two_comments))))))"
    unfolding comments_same_author by (simp add: joins_users_def)
  from 1 2 3 show ?thesis by blast
qed

section \<open>The gate in front of the content generator\<close>

text \<open>A notification only appends to the list of notifications.\<close>

lemma notify_run: "showNotification msg kind w = (Return (), notified msg kind w)"
  by (simp add: showNotification_def set_ui_def notified_def)

lemma refusal:
  assumes "blocked w"
  shows "\<exists>msg. handleGenerateContent env w = (Return (), notified msg ''error'' w)"
proof -
  have "\<exists>msg. handleGenerateContent env w = showNotification msg ''error'' w"
    using assms unfolding blocked_def handleGenerateContent_def Let_def
    by (metis (full_types))
  then show ?thesis by (simp only: notify_run)
qed

lemma generationFailed_run:
  "\<exists>msg. \<forall>w. generationFailed e w = (Return (), notified msg ''error'' w)"
  unfolding generationFailed_def
  by (cases e) (auto simp only: val.case notify_run split: if_splits)

text \<open>
  \<open>incrementUsageCount\<close> asks for the user and then fails on \<open>supabase.sql\<close>, whatever the
  platform answers: it returns \<open>{ data: null, error }\<close> and sends no update; so
  \<open>incrementUsage\<close> of the auth store leaves the profile as it was.
\<close>

lemma incrementUsageCount_run:
  "\<exists>e w'. supabase_incrementUsageCount env w = (Return (data_error Null e), w')
     \<and> trace w' = trace w @ [SbCall AuthGetUser]
     \<and> editorUI w' = editorUI w \<and> authStore w' = authStore w"
  by (auto simp add: supabase_incrementUsageCount_def supabase_getCurrentUser_def
        supabase_sql_def io_defs split: prod.splits res.splits)

lemma incrementUsage_run:
  "\<exists>w'. authStore_incrementUsage env w = (Return (), w')
     \<and> trace w' = trace w @ [SbCall AuthGetUser]
     \<and> editorUI w' = editorUI w \<and> authStore w' = authStore w"
proof -
  from incrementUsageCount_run[of env w] obtain e w' where
    "supabase_incrementUsageCount env w = (Return (data_error Null e), w')"
    "trace w' = trace w @ [SbCall AuthGetUser]" "editorUI w' = editorUI w"
    "authStore w' = authStore w"
    by blast
  then show ?thesis
    by (simp add: authStore_incrementUsage_def io_defs data_error_def)
qed

lemma generateAndShow_run:
  fixes env :: "'s env"
  assumes g: "generateContent env p (Str ''article'') (backend w) = (r, s')"
      and p: "p = Str (titleInput ui @
                 (if contentLength ui = ''short'' then '' (400-600 words)''
                  else if contentLength ui = ''medium'' then '' (800-1200 words)''
                  else '' (1500-2000 words)''))"
  shows "\<exists>w'. generateAndShow env ui w = (Return (), w')
           \<and> trace w' = trace w @ Generate p (Str ''article'') #
                 (case r of Throw e \<Rightarrow> [] | Return content \<Rightarrow> [SbCall AuthGetUser])
           \<and> authStore w' = authStore w
           \<and> editorContent (editorUI w')
               = (case r of Throw e \<Rightarrow> editorContent (editorUI w)
                  | Return content \<Rightarrow> editorContent (editorUI (snd (setContent content w))))"
proof -
  define W1 where "W1 = w\<lparr>editorUI := (editorUI w)\<lparr>isGenerating := True\<rparr>\<rparr>"
  define W2 where "W2 = W1\<lparr>backend := s', trace := trace W1 @ [Generate p (Str ''article'')]\<rparr>"
  have s0: "set_ui (\<lambda>e. e\<lparr>isGenerating := True\<rparr>) w = (Return (), W1)"
    by (simp add: set_ui_def W1_def)
  have s1: "generate env p (Str ''article'') W1 = (r, W2)"
    using g by (simp add: generate_def W1_def W2_def)
  have t2: "trace W2 = trace w @ [Generate p (Str ''article'')]"
    by (simp add: W1_def W2_def)
  have e2: "editorContent (editorUI W2) = editorContent (editorUI w)"
    by (simp add: W1_def W2_def)
  have a2: "authStore W2 = authStore w"
    by (simp add: W1_def W2_def)
  have fin: "\<And>W. set_ui (\<lambda>e. e\<lparr>isGenerating := False\<rparr>) W
               = (Return (), W\<lparr>editorUI := (editorUI W)\<lparr>isGenerating := False\<rparr>\<rparr>)"
    by (simp add: set_ui_def)
  show ?thesis
  proof (cases r)
    case (Throw e)
    from generationFailed_run[of e] obtain msg where
      gf: "\<And>W :: 's world. generationFailed e W = (Return (), notified msg ''error'' W)"
      by blast
    have "generateAndShow env ui w
            = (Return (), (notified msg ''error'' W2)\<lparr>editorUI :=
                 (editorUI (notified msg ''error'' W2))\<lparr>isGenerating := False\<rparr>\<rparr>)"
      using s1 Throw
      by (simp add: generateAndShow_def p[symmetric] andThen_def try_catch_def try_finally_def
            s0 gf fin)
    with t2 e2 a2 Throw show ?thesis by (simp add: notified_def)
  next
    case (Return content)
    define W3 where "W3 = snd (setContent content W2)"
    have s2: "setContent content W2 = (Return (), W3)"
      by (simp add: W3_def setContent_def set_ui_def)
    have t3: "trace W3 = trace W2" "authStore W3 = authStore W2"
      by (simp_all add: W3_def setContent_def set_ui_def)
    have e3: "editorContent (editorUI W3) = editorContent (editorUI (snd (setContent content w)))"
      by (simp add: W3_def W2_def W1_def setContent_def set_ui_def)
    from incrementUsage_run[of env W3] obtain W4 where
      s3: "authStore_incrementUsage env W3 = (Return (), W4)"
      and t4: "trace W4 = trace W3 @ [SbCall AuthGetUser]"
      and u4: "editorUI W4 = editorUI W3" "authStore W4 = authStore W3"
      by blast
    let ?W5 = "notified (Str ''Content generated successfully!'') ''success'' W4"
    have "generateAndShow env ui w
            = (Return (), ?W5\<lparr>editorUI := (editorUI ?W5)\<lparr>isGenerating := False\<rparr>\<rparr>)"
      using s1 Return
      by (simp add: generateAndShow_def p[symmetric] andThen_def try_catch_def try_finally_def
            s0 s2 s3 notify_run fin)
    with t2 t3 t4 u4 a2 e3 Return show ?thesis by (simp add: notified_def)
  qed
qed

lemma blocked_numbers:
  assumes "userProfile (authStore w) = Obj ps"
      and "map_of ps ''usage_count'' = Some (Num c)"
      and "map_of ps ''usage_limit'' = Some (Num l)"
  shows "blocked w \<longleftrightarrow>
           trim (titleInput (editorUI w)) = [] \<or> \<not> truthy (canEdit (editorUI w)) \<or> l \<le> c"
  using assms by (simp add: blocked_def opt_prop_Obj js_ge_def to_number_def)

text \<open>C5, as the code has it. For every platform and every world whose profile counters are
  numbers, booleans, \<open>null\<close> or absent: whenever the title is blank, the edit permission is
  missing, no profile is loaded or \<open>usage_count >= usage_limit\<close>, \<open>handleGenerateContent\<close>
  returns in a world that differs from the one it started in by one more error notification
  only, so the generator is not called, no SDK call is issued and the editor content is
  unchanged. Otherwise the generator is called exactly once, first, with the title and the
  length hint, and a failed generation issues nothing else. But a successful generation
  does not increment the counter: the only call that follows it is \<open>auth.getUser\<close>, no
  update of \<open>users\<close> is sent, and the profile in the auth store stays as it was, because
  \<open>incrementUsageCount\<close> fails on \<open>supabase.sql\<close> and returns \<open>{ data: null, error }\<close> in
  every world.\<close>

theorem generation_sends_no_increment:
  fixes env :: "'s env"
  assumes "plain_counters w"
  shows "(blocked w \<longrightarrow>
            (\<exists>msg. handleGenerateContent env w = (Return (), notified msg ''error'' w)))
       \<and> (\<not> blocked w \<longrightarrow>
            issued (handleGenerateContent env) w
              = Generate (prompt w) (Str ''article'') #
                (case fst (generateContent env (prompt w) (Str ''article'') (backend w)) of
                   Throw e \<Rightarrow> []
                 | Return content \<Rightarrow> [SbCall AuthGetUser])
            \<and> authStore (snd (handleGenerateContent env w)) = authStore w)
       \<and> issued (supabase_incrementUsageCount env) w = [SbCall AuthGetUser]
       \<and> (\<exists>e. fst (supabase_incrementUsageCount env w) = Return (data_error Null e))"
proof (intro conjI impI)
  assume "blocked w"
  then show "\<exists>msg. handleGenerateContent env w = (Return (), notified msg ''error'' w)"
    by (rule refusal)
next
  assume nb: "\<not> blocked w"
  obtain r s' where g: "generateContent env (prompt w) (Str ''article'') (backend w) = (r, s')"
    by (cases "generateContent env (prompt w) (Str ''article'') (backend w)")
  from nb have h: "handleGenerateContent env w = generateAndShow env (editorUI w) w"
    by (simp add: blocked_def handleGenerateContent_def Let_def)
  from generateAndShow_run[OF g, of "editorUI w"] obtain w' where
    run: "generateAndShow env (editorUI w) w = (Return (), w')"
         "trace w' = trace w @ Generate (prompt w) (Str ''article'') #
            (case r of Throw e \<Rightarrow> [] | Return content \<Rightarrow> [SbCall AuthGetUser])"
         "authStore w' = authStore w"
    unfolding prompt_def by blast
  from h run(1,2) g
  show "issued (handleGenerateContent env) w
          = Generate (prompt w) (Str ''article'') #
            (case fst (generateContent env (prompt w) (Str ''article'') (backend w)) of
               Throw e \<Rightarrow> []
             | Return content \<Rightarrow> [SbCall AuthGetUser])"
    by (simp add: issued_def)
  from h run(1,3) show "authStore (snd (handleGenerateContent env w)) = authStore w"
    by simp
next
  from incrementUsageCount_run[of env w] obtain e w' where
    r: "supabase_incrementUsageCount env w = (Return (data_error Null e), w')"
       "trace w' = trace w @ [SbCall AuthGetUser]"
    by blast
  then show "issued (supabase_incrementUsageCount env) w = [SbCall AuthGetUser]"
    by (simp add: issued_def)
  from r(1) have "fst (supabase_incrementUsageCount env w) = Return (data_error Null e)"
    by simp
  then show "\<exists>e. fst (supabase_incrementUsageCount env w) = Return (data_error Null e)"
    by (rule exI)
qed

theorem generation_sends_no_increment_witness:
  "(\<exists>msg. handleGenerateContent script_env (init_world idle)
            = (Return (), notified msg ''error'' (init_world idle)))
   \<and> issued (handleGenerateContent script_env) writer
       = [Generate (Str ''Hello (800-1200 words)'') (Str ''article''), SbCall AuthGetUser]
   \<and> opt_prop (userProfile (authStore (snd (handleGenerateContent script_env writer))))
         ''usage_count'' = Num 3"
proof -
  have b: "blocked (init_world idle)" "plain_counters (init_world idle)"
    by (simp_all add: blocked_def plain_counters_def plain_def init_world_def trim_def
          opt_prop_def)
  have nb: "\<not> blocked writer" "plain_counters writer"
    by (simp_all add: blocked_def plain_counters_def plain_def writer_def trim_def is_space_def
          js_ge_def to_number_def opt_prop_def)
  have p: "prompt writer = Str ''Hello (800-1200 words)''"
    by (simp add: prompt_def writer_def)
  have g: "fst (generateContent script_env (Str ''Hello (800-1200 words)'') (Str ''article'')
                  (backend writer)) = Return (Str ''<p>Hello</p>'')"
    by (simp add: script_env_def writer_def init_world_def drafting_def idle_def)
  have u: "opt_prop (userProfile (authStore writer)) ''usage_count'' = Num 3"
    by (simp add: writer_def opt_prop_def)
  from generation_sends_no_increment[of "init_world idle" script_env] b
  have 1: "\<exists>msg. handleGenerateContent script_env (init_world idle)
            = (Return (), notified msg ''error'' (init_world idle))"
    by blast
  from generation_sends_no_increment[of writer script_env] nb
  have 2: "issued (handleGenerateContent script_env) writer
             = [Generate (Str ''Hello (800-1200 words)'') (Str ''article''), SbCall AuthGetUser]"
          "authStore (snd (handleGenerateContent script_env writer)) = authStore writer"
    unfolding p by (simp_all add: g)
  from 1 2 u show ?thesis by simp
qed

section \<open>What the client writes itself\<close>




























section \<open>Who makes the token and the expiry of an invitation\<close>















end
